theory Spec2Isabelle
  imports Complex_Main "HOL-Library.Char_ord" "HOL-Library.List_Lexorder"
begin

section \<open>Python strings\<close>

text \<open>
  A Python \<open>str\<close> is a sequence of code points. The model takes labels over the code
  points below 256, one \<^typ>\<open>char\<close> each, and writes out \<open>str.isspace\<close>, \<open>str.lower\<close>,
  \<open>str.split()\<close>, \<open>' '.join\<close> and \<open>str.strip()\<close> on that range.
\<close>

definition is_space :: "char \<Rightarrow> bool" where
  "is_space c =
     (let n = (of_char c :: nat)
      in (9 \<le> n \<and> n \<le> 13) \<or> (28 \<le> n \<and> n \<le> 32) \<or> n = 133 \<or> n = 160)"

definition lower_char :: "char \<Rightarrow> char" where
  "lower_char c =
     (let n = (of_char c :: nat)
      in if (65 \<le> n \<and> n \<le> 90) \<or> (192 \<le> n \<and> n \<le> 222 \<and> n \<noteq> 215)
         then char_of (n + 32) else c)"

definition py_lower :: "string \<Rightarrow> string" where
  "py_lower s = map lower_char s"

text \<open>\<open>s.split()\<close>: the maximal runs of non-whitespace characters, in order.\<close>

fun split_from :: "string \<Rightarrow> string \<Rightarrow> string list" where
  "split_from cur [] = (if cur = [] then [] else [cur])"
| "split_from cur (c # cs) =
     (if is_space c then (if cur = [] then split_from [] cs else cur # split_from [] cs)
      else split_from (cur @ [c]) cs)"

definition py_split :: "string \<Rightarrow> string list" where
  "py_split s = split_from [] s"

fun join_space :: "string list \<Rightarrow> string" where
  "join_space [] = []"
| "join_space [w] = w"
| "join_space (w # ws) = w @ '' '' @ join_space ws"

definition py_strip :: "string \<Rightarrow> string" where
  "py_strip s = rev (dropWhile is_space (rev (dropWhile is_space s)))"

text \<open>\<open>sub in s\<close> on strings: \<open>sub\<close> occurs in \<open>s\<close> as a contiguous piece.\<close>

fun starts_with :: "string \<Rightarrow> string \<Rightarrow> bool" where
  "starts_with [] s = True"
| "starts_with (p # ps) [] = False"
| "starts_with (p # ps) (c # cs) = (p = c \<and> starts_with ps cs)"

fun py_in :: "string \<Rightarrow> string \<Rightarrow> bool" where
  "py_in sub [] = (sub = [])"
| "py_in sub (c # cs) = (starts_with sub (c # cs) \<or> py_in sub cs)"

text \<open>\<open>str(n)\<close> for a non-negative integer.\<close>

function str_nat :: "nat \<Rightarrow> string" where
  "str_nat n =
     (if n < 10 then [char_of (48 + n)] else str_nat (n div 10) @ [char_of (48 + n mod 10)])"
  by pat_completeness auto
termination
  by (relation "measure (\<lambda>n. n)") auto

declare str_nat.simps [simp del]

section \<open>The similarity ratio of the standard library\<close>

text \<open>
  \<open>SequenceMatcher(None, a, b).ratio()\<close> belongs to Python's \<open>difflib\<close>, not to the
  repository. The classifier below takes the ratio as a parameter, so that what is proved
  of it holds for every similarity function. For running the classifier on concrete labels
  this section gives an executable model of the library routine as it is documented:
  no junk predicate, the automatic purge of popular elements of \<open>b\<close> when \<open>b\<close> has
  200 elements or more, the longest matching block found first (leftmost in \<open>a\<close>, then
  leftmost in \<open>b\<close>), the pieces to its left and to its right matched recursively, and the
  ratio \<open>2 * matches / (len a + len b)\<close>, taken here as an exact rational.
\<close>

definition bpopular :: "string \<Rightarrow> char list" where
  "bpopular b =
     (let n = length b
      in if n \<ge> 200 then filter (\<lambda>c. count_list b c > n div 100 + 1) (remdups b) else [])"

definition b2j :: "string \<Rightarrow> char \<Rightarrow> nat list" where
  "b2j b c = (if c \<in> set (bpopular b) then [] else filter (\<lambda>j. b ! j = c) [0..<length b])"

type_synonym match = "nat \<times> nat \<times> nat"

text \<open>
  The inner loop of \<open>find_longest_match\<close>: \<open>js\<close> are the positions of \<open>a[i]\<close> in \<open>b\<close>,
  ascending; \<open>j2len\<close> holds the lengths of the matches ending at \<open>a[i-1]\<close>.
\<close>

fun flm_inner ::
  "nat \<Rightarrow> nat \<Rightarrow> nat \<Rightarrow> (nat \<Rightarrow> nat) \<Rightarrow> nat list \<Rightarrow> match \<times> (nat \<Rightarrow> nat) \<Rightarrow> match \<times> (nat \<Rightarrow> nat)"
where
  "flm_inner i blo bhi j2len [] st = st"
| "flm_inner i blo bhi j2len (j # js) (best, newj2len) =
     (if j < blo then flm_inner i blo bhi j2len js (best, newj2len)
      else if j \<ge> bhi then (best, newj2len)
      else
        (let k = (if j = 0 then 0 else j2len (j - 1)) + 1;
             best' = (if k > snd (snd best) then (i + 1 - k, j + 1 - k, k) else best)
         in flm_inner i blo bhi j2len js (best', newj2len(j := k))))"

function flm_outer ::
  "string \<Rightarrow> string \<Rightarrow> nat \<Rightarrow> nat \<Rightarrow> nat \<Rightarrow> nat \<Rightarrow> match \<times> (nat \<Rightarrow> nat) \<Rightarrow> match"
where
  "flm_outer a b i ahi blo bhi (best, j2len) =
     (if i < ahi
      then flm_outer a b (Suc i) ahi blo bhi
             (flm_inner i blo bhi j2len (b2j b (a ! i)) (best, (\<lambda>_. 0)))
      else best)"
  by pat_completeness auto
termination
  by (relation "measure (\<lambda>(a, b, i, ahi, blo, bhi, st). ahi - i)") auto

declare flm_outer.simps [simp del]

function extend_back :: "string \<Rightarrow> string \<Rightarrow> nat \<Rightarrow> nat \<Rightarrow> match \<Rightarrow> match" where
  "extend_back a b alo blo (besti, bestj, bestsize) =
     (if besti > alo \<and> bestj > blo \<and> a ! (besti - 1) = b ! (bestj - 1)
      then extend_back a b alo blo (besti - 1, bestj - 1, bestsize + 1)
      else (besti, bestj, bestsize))"
  by pat_completeness auto
termination
  by (relation "measure (\<lambda>(a, b, alo, blo, besti, bestj, bestsize). besti)") auto

declare extend_back.simps [simp del]

function extend_forward :: "string \<Rightarrow> string \<Rightarrow> nat \<Rightarrow> nat \<Rightarrow> match \<Rightarrow> match" where
  "extend_forward a b ahi bhi (besti, bestj, bestsize) =
     (if besti + bestsize < ahi \<and> bestj + bestsize < bhi
         \<and> a ! (besti + bestsize) = b ! (bestj + bestsize)
      then extend_forward a b ahi bhi (besti, bestj, bestsize + 1)
      else (besti, bestj, bestsize))"
  by pat_completeness auto
termination
  by (relation "measure (\<lambda>(a, b, ahi, bhi, besti, bestj, bestsize). ahi - (besti + bestsize))") auto

declare extend_forward.simps [simp del]

definition find_longest_match :: "string \<Rightarrow> string \<Rightarrow> nat \<Rightarrow> nat \<Rightarrow> nat \<Rightarrow> nat \<Rightarrow> match" where
  "find_longest_match a b alo ahi blo bhi =
     extend_forward a b ahi bhi
       (extend_back a b alo blo
          (flm_outer a b alo ahi blo bhi ((alo, blo, 0), (\<lambda>_. 0))))"

text \<open>
  The block returned by \<open>find_longest_match\<close> lies inside \<open>a[alo:ahi]\<close>; the recursion over
  the pieces left and right of it terminates by that.
\<close>

definition best_ok :: "nat \<Rightarrow> nat \<Rightarrow> match \<Rightarrow> bool" where
  "best_ok alo ahi m =
     (alo \<le> fst m \<and> (snd (snd m) = 0 \<longrightarrow> fst m = alo)
      \<and> (snd (snd m) > 0 \<longrightarrow> fst m + snd (snd m) \<le> ahi))"

lemma flm_inner_ok:
  assumes "alo \<le> i" "i < ahi" "\<forall>j. j2len j \<le> i - alo"
    and "best_ok alo ahi best"
  shows "best_ok alo ahi (fst (flm_inner i blo bhi j2len js (best, new)))"
  using assms(4)
proof (induction js arbitrary: best new)
  case Nil
  then show ?case by simp
next
  case (Cons j js)
  let ?k = "(if j = 0 then 0 else j2len (j - 1)) + 1"
  let ?best' = "if ?k > snd (snd best) then (i + 1 - ?k, j + 1 - ?k, ?k) else best"
  have kb: "?k \<le> i + 1 - alo"
    using assms(1) spec [OF assms(3), of "j - 1"] by auto
  have ok: "best_ok alo ahi ?best'"
    using Cons.prems kb assms(1,2) by (auto simp: best_ok_def)
  consider "j < blo" | "\<not> j < blo" "j \<ge> bhi" | "\<not> j < blo" "\<not> j \<ge> bhi" by blast
  then show ?case
  proof cases
    case 1
    then show ?thesis using Cons.IH [OF Cons.prems] by simp
  next
    case 2
    then show ?thesis using Cons.prems by simp
  next
    case 3
    then have eq: "flm_inner i blo bhi j2len (j # js) (best, new)
      = flm_inner i blo bhi j2len js (?best', new(j := ?k))"
      by (simp add: Let_def)
    show ?thesis unfolding eq by (rule Cons.IH [OF ok])
  qed
qed

lemma flm_inner_new:
  assumes "alo \<le> i" "\<forall>j. j2len j \<le> i - alo" "\<forall>j. new j \<le> Suc i - alo"
  shows "\<forall>j'. snd (flm_inner i blo bhi j2len js (best, new)) j' \<le> Suc i - alo"
  using assms(3)
proof (induction js arbitrary: best new)
  case Nil
  then show ?case by simp
next
  case (Cons j js)
  let ?k = "(if j = 0 then 0 else j2len (j - 1)) + 1"
  let ?best' = "if ?k > snd (snd best) then (i + 1 - ?k, j + 1 - ?k, ?k) else best"
  have kb: "?k \<le> Suc i - alo"
    using assms(1) spec [OF assms(2), of "j - 1"] by auto
  have nw: "\<forall>j'. (new(j := ?k)) j' \<le> Suc i - alo"
    using Cons.prems kb by (auto split: if_splits)
  consider "j < blo" | "\<not> j < blo" "j \<ge> bhi" | "\<not> j < blo" "\<not> j \<ge> bhi" by blast
  then show ?case
  proof cases
    case 1
    then show ?thesis using Cons.IH [OF Cons.prems] by simp
  next
    case 2
    then show ?thesis using Cons.prems by simp
  next
    case 3
    then have eq: "flm_inner i blo bhi j2len (j # js) (best, new)
      = flm_inner i blo bhi j2len js (?best', new(j := ?k))"
      by (simp add: Let_def)
    show ?thesis unfolding eq by (rule Cons.IH [OF nw])
  qed
qed

lemma flm_outer_ok:
  "alo \<le> i \<Longrightarrow> \<forall>j. j2len j \<le> i - alo \<Longrightarrow> best_ok alo ahi best
   \<Longrightarrow> best_ok alo ahi (flm_outer a b i ahi blo bhi (best, j2len))"
proof (induction a b i ahi blo bhi "(best, j2len)" arbitrary: best j2len rule: flm_outer.induct)
  case (1 a b i ahi blo bhi best j2len)
  show ?case
  proof (cases "i < ahi")
    case False
    then show ?thesis using 1 by (simp add: flm_outer.simps)
  next
    case True
    obtain best' new' where st: "flm_inner i blo bhi j2len (b2j b (a ! i)) (best, (\<lambda>_. 0)) = (best', new')"
      by (cases "flm_inner i blo bhi j2len (b2j b (a ! i)) (best, (\<lambda>_. 0))") auto
    have b': "best_ok alo ahi best'"
      using flm_inner_ok [OF "1.prems"(1) True "1.prems"(2) "1.prems"(3), of blo bhi "b2j b (a ! i)" "\<lambda>_. 0"] st by simp
    have n': "\<forall>j. new' j \<le> Suc i - alo"
      using flm_inner_new [OF "1.prems"(1) "1.prems"(2), of "\<lambda>_. 0" blo bhi "b2j b (a ! i)" best] st by simp
    have "best_ok alo ahi (flm_outer a b (Suc i) ahi blo bhi (best', new'))"
      using "1.hyps" [OF True st] "1.prems"(1) n' b' by simp
    then show ?thesis using True st by (subst flm_outer.simps) simp
  qed
qed

lemma extend_back_ok:
  "best_ok alo ahi m \<Longrightarrow> best_ok alo ahi (extend_back a b alo blo m)"
proof (induction a b alo blo m rule: extend_back.induct)
  case (1 a b alo blo besti bestj bestsize)
  show ?case
  proof (cases "besti > alo \<and> bestj > blo \<and> a ! (besti - 1) = b ! (bestj - 1)")
    case True
    have "best_ok alo ahi (besti - 1, bestj - 1, bestsize + 1)"
      using "1.prems" True by (auto simp: best_ok_def)
    then show ?thesis using "1.IH" True by (subst extend_back.simps) simp
  next
    case False
    then show ?thesis using "1.prems" by (subst extend_back.simps) auto
  qed
qed

lemma extend_forward_ok:
  "best_ok alo ahi m \<Longrightarrow> best_ok alo ahi (extend_forward a b ahi bhi m)"
proof (induction a b ahi bhi m rule: extend_forward.induct)
  case (1 a b ahi bhi besti bestj bestsize)
  show ?case
  proof (cases "besti + bestsize < ahi \<and> bestj + bestsize < bhi
         \<and> a ! (besti + bestsize) = b ! (bestj + bestsize)")
    case True
    have "best_ok alo ahi (besti, bestj, bestsize + 1)"
      using "1.prems" True by (auto simp: best_ok_def)
    then show ?thesis using "1.IH" True by (subst extend_forward.simps) simp
  next
    case False
    then show ?thesis using "1.prems" by (subst extend_forward.simps) auto
  qed
qed

lemma find_longest_match_ok:
  "best_ok alo ahi (find_longest_match a b alo ahi blo bhi)"
  unfolding find_longest_match_def
  by (intro extend_forward_ok extend_back_ok flm_outer_ok) (simp_all add: best_ok_def)

lemma flm_bounds:
  assumes "(i, j, k) = find_longest_match a b alo ahi blo bhi" and "k \<noteq> 0"
  shows "alo \<le> i \<and> i + k \<le> ahi"
proof -
  have "best_ok alo ahi (i, j, k)"
    unfolding assms(1) by (rule find_longest_match_ok)
  then show ?thesis using assms(2) by (simp add: best_ok_def)
qed

text \<open>
  \<open>get_matching_blocks\<close> keeps a work list of the ranges still to match; \<open>ratio\<close> only sums the
  sizes of the blocks, which the recursion below does range by range.
\<close>

function matched :: "string \<Rightarrow> string \<Rightarrow> nat \<Rightarrow> nat \<Rightarrow> nat \<Rightarrow> nat \<Rightarrow> nat" where
  "matched a b alo ahi blo bhi =
     (case find_longest_match a b alo ahi blo bhi of (i, j, k) \<Rightarrow>
        if k = 0 then 0
        else k + (if alo < i \<and> blo < j then matched a b alo i blo j else 0)
               + (if i + k < ahi \<and> j + k < bhi then matched a b (i + k) ahi (j + k) bhi else 0))"
  by pat_completeness auto
termination
  apply (relation "measure (\<lambda>(a, b, alo, ahi, blo, bhi). ahi - alo)")
    apply simp
   apply (auto dest!: flm_bounds)
  done

declare matched.simps [simp del]

definition sequence_matcher_ratio :: "string \<Rightarrow> string \<Rightarrow> rat" where
  "sequence_matcher_ratio a b =
     (let len = length a + length b
      in if len \<noteq> 0 then 2 * of_nat (matched a b 0 (length a) 0 (length b)) / of_nat len
         else 1)"

section \<open>The label difference classifier\<close>

text \<open>
  \<open>analyze_difference\<close> returns one of eight texts; the type below has one constructor for
  each, in the order of the source. The spelling verdict carries the similarity that the
  source prints into the text with two decimals.
\<close>

datatype verdict =
    ExactMatch
  | SpaceDifference
  | CaseDifference
  | SpellingError rat
  | WordOrderDifference
  | ExtraWordsInVerification
  | MissingWordsInVerification
  | ContentDifference

text \<open>
  The source compares the similarity, a float, with the literal \<open>0.8\<close>. The quotient
  \<open>2.0 * m / n\<close> is rounded correctly, the same way the literal is, so the float comparison
  agrees with the one on exact rationals for every pair of labels shorter than \<open>10^15\<close>.
\<close>

definition analyze_difference_with ::
  "(string \<Rightarrow> string \<Rightarrow> rat) \<Rightarrow> string \<Rightarrow> string \<Rightarrow> verdict" where
  "analyze_difference_with similarity_ratio design_col verification_col =
     (if design_col = verification_col then ExactMatch
      else
        let design_norm = join_space (py_split design_col);
            verification_norm = join_space (py_split verification_col)
        in if design_norm = verification_norm then SpaceDifference
           else if py_lower design_col = py_lower verification_col then CaseDifference
           else
             let similarity = similarity_ratio (py_lower design_col) (py_lower verification_col)
             in if similarity > 4 / 5 then SpellingError similarity
                else
                  let design_words = py_split (py_lower design_col);
                      verification_words = py_split (py_lower verification_col)
                  in if sort design_words = sort verification_words then WordOrderDifference
                     else if list_all (\<lambda>word. word \<in> set verification_words) design_words
                       then ExtraWordsInVerification
                     else if list_all (\<lambda>word. word \<in> set design_words) verification_words
                       then MissingWordsInVerification
                     else ContentDifference)"

definition analyze_difference :: "string \<Rightarrow> string \<Rightarrow> verdict" where
  "analyze_difference = analyze_difference_with sequence_matcher_ratio"

definition verdicts :: "verdict set" where
  "verdicts =
     {ExactMatch, SpaceDifference, CaseDifference, WordOrderDifference,
      ExtraWordsInVerification, MissingWordsInVerification, ContentDifference}
     \<union> range SpellingError"

fun is_spelling_error :: "verdict \<Rightarrow> bool" where
  "is_spelling_error (SpellingError s) = True"
| "is_spelling_error v = False"

section \<open>Workbooks and the structural comparison\<close>

text \<open>
  The two documents come from \<open>pandas.read_excel\<close>, which is not part of the repository.
  A workbook is either unreadable or a list of named sheets; a sheet read with
  \<open>header=None\<close> is a grid of cells, a cell being empty (\<open>NaN\<close>) or a value, kept as the
  text \<open>str\<close> gives for it. The exceptions of the reader and of \<open>iloc\<close> are values of
  \<open>py_error\<close>.
\<close>

datatype py_error =
    FileUnreadable
  | WorksheetNotFound string
  | IndexError
  | KeyError "string option"
  | ZeroDivisionError

type_synonym cell = "string option"

type_synonym grid = "cell list list"

datatype workbook = Unreadable | Workbook "(string \<times> grid) list"

definition read_excel :: "workbook \<Rightarrow> string \<Rightarrow> py_error + grid" where
  "read_excel wb sheet_name =
     (case wb of
        Unreadable \<Rightarrow> Inl FileUnreadable
      | Workbook sheets \<Rightarrow>
          (case map_of sheets sheet_name of
             None \<Rightarrow> Inl (WorksheetNotFound sheet_name)
           | Some df \<Rightarrow> Inr df))"

definition iloc :: "grid \<Rightarrow> nat \<Rightarrow> py_error + cell list" where
  "iloc df i = (if i < length df then Inr (df ! i) else Inl IndexError)"

fun dropna :: "cell list \<Rightarrow> string list" where
  "dropna [] = []"
| "dropna (None # cs) = dropna cs"
| "dropna (Some s # cs) = s # dropna cs"

text \<open>
  One read of the \<open>try\<close> block: the sheet, the row at a fixed index, its non-empty cells
  as stripped strings.
\<close>

definition read_columns :: "workbook \<Rightarrow> string \<Rightarrow> nat \<Rightarrow> py_error + string list" where
  "read_columns wb sheet_name row =
     (case read_excel wb sheet_name of
        Inl e \<Rightarrow> Inl e
      | Inr df \<Rightarrow>
          (case iloc df row of
             Inl e \<Rightarrow> Inl e
           | Inr r \<Rightarrow> Inr (map py_strip (dropna r))))"

text \<open>
  The entries of \<open>details\<close> are dictionaries with four keys. The texts that the source
  formats are kept as they are where they consist of literals and integers; a message
  that contains the text of an exception or a verdict is represented by a constructor
  carrying the values formatted into it.
\<close>

datatype column_number = Column nat | NotApplicable

datatype error_type = Difference verdict | ColumnCountMismatch

record detail =
  column_number :: column_number
  design :: string
  verification :: string
  error_type :: error_type

datatype mismatch = ColumnMismatch nat verdict string string | LengthMismatch nat nat

datatype message =
    ErrorReadingFiles nat py_error
  | ColumnsMatchPerfectly nat
  | ColumnDifferencesFound nat

record comparison_result =
  passed :: bool
  message :: message
  details :: "detail list"
  mismatches :: "mismatch list option"

text \<open>The loop \<open>for i in range(min_length)\<close>, with the two lists it appends to.\<close>

function compare_loop ::
  "string list \<Rightarrow> string list \<Rightarrow> nat \<Rightarrow> nat \<Rightarrow> mismatch list \<times> detail list
    \<Rightarrow> mismatch list \<times> detail list"
where
  "compare_loop design_columns verification_columns min_length i (ms, ds) =
     (if i < min_length
      then
        (let design_col = design_columns ! i;
             verification_col = verification_columns ! i
         in if design_col \<noteq> verification_col
            then
              (let et = analyze_difference design_col verification_col
               in compare_loop design_columns verification_columns min_length (Suc i)
                    (ms @ [ColumnMismatch (i + 1) et design_col verification_col],
                     ds @ [\<lparr>column_number = Column (i + 1), design = design_col,
                            verification = verification_col, error_type = Difference et\<rparr>]))
            else compare_loop design_columns verification_columns min_length (Suc i) (ms, ds))
      else (ms, ds))"
  by pat_completeness auto
termination
  by (relation "measure (\<lambda>(dc, vc, min_length, i, acc). min_length - i)") auto

declare compare_loop.simps [simp del]

text \<open>The loop followed by the check for length differences.\<close>

definition collect_mismatches ::
  "string list \<Rightarrow> string list \<Rightarrow> mismatch list \<times> detail list" where
  "collect_mismatches design_columns verification_columns =
     (let min_length = min (length design_columns) (length verification_columns);
          (ms, ds) = compare_loop design_columns verification_columns min_length 0 ([], [])
      in if length design_columns \<noteq> length verification_columns
         then
           (ms @ [LengthMismatch (length design_columns) (length verification_columns)],
            ds @ [\<lparr>column_number = NotApplicable,
                   design = ''Total columns: '' @ str_nat (length design_columns),
                   verification = ''Total columns: '' @ str_nat (length verification_columns),
                   error_type = ColumnCountMismatch\<rparr>])
         else (ms, ds))"

definition compare_columns :: "nat \<Rightarrow> string list \<Rightarrow> string list \<Rightarrow> comparison_result" where
  "compare_columns standard_number design_columns verification_columns =
     (let (ms, ds) = collect_mismatches design_columns verification_columns
      in if ms = []
         then \<lparr>passed = True, message = ColumnsMatchPerfectly standard_number,
                details = [], mismatches = None\<rparr>
         else \<lparr>passed = False, message = ColumnDifferencesFound standard_number,
                details = ds, mismatches = Some ms\<rparr>)"

text \<open>
  \<open>test_standard_report_columns\<close>: the two reads stand in a \<open>try\<close> whose handler catches
  every \<open>Exception\<close> and returns the failed result; the comparison follows it.
\<close>

definition test_standard_report_columns ::
  "workbook \<Rightarrow> workbook \<Rightarrow> nat \<Rightarrow> comparison_result" where
  "test_standard_report_columns design_spec verification_report standard_number =
     (case read_columns design_spec (''Standard Report '' @ str_nat standard_number) 8 of
        Inl e \<Rightarrow>
          \<lparr>passed = False, message = ErrorReadingFiles standard_number e,
            details = [], mismatches = None\<rparr>
      | Inr design_columns \<Rightarrow>
          (case read_columns verification_report
                  (''Standard '' @ str_nat standard_number @ '' Report'') 1 of
             Inl e \<Rightarrow>
               \<lparr>passed = False, message = ErrorReadingFiles standard_number e,
                 details = [], mismatches = None\<rparr>
           | Inr verification_columns \<Rightarrow>
               compare_columns standard_number design_columns verification_columns))"

text \<open>What the claims call the positional discrepancies and the count mismatch.\<close>

definition positional_detail :: "string list \<Rightarrow> string list \<Rightarrow> nat \<Rightarrow> detail" where
  "positional_detail design_columns verification_columns i =
     \<lparr>column_number = Column (i + 1), design = design_columns ! i,
      verification = verification_columns ! i,
      error_type = Difference (analyze_difference (design_columns ! i) (verification_columns ! i))\<rparr>"

definition count_mismatch_detail :: "nat \<Rightarrow> nat \<Rightarrow> detail" where
  "count_mismatch_detail n m =
     \<lparr>column_number = NotApplicable, design = ''Total columns: '' @ str_nat n,
      verification = ''Total columns: '' @ str_nat m, error_type = ColumnCountMismatch\<rparr>"

text \<open>
  An input that cannot be extracted: the workbook is unreadable, the named sheet is
  missing, or the sheet has no row at the index that is read.
\<close>

definition cannot_extract :: "workbook \<Rightarrow> string \<Rightarrow> nat \<Rightarrow> bool" where
  "cannot_extract wb sheet_name row =
     (case wb of
        Unreadable \<Rightarrow> True
      | Workbook sheets \<Rightarrow>
          (case map_of sheets sheet_name of None \<Rightarrow> True | Some df \<Rightarrow> length df \<le> row))"

section \<open>Detail sheets, the summary sheet and the cell results\<close>

text \<open>
  A detail sheet is a data frame read with a header row: its column names and its rows.
  The reconciliation only looks at a cell of a detail sheet through
  \<open>fillna('').astype(str)\<close>, so a cell is again empty or the text of its value. The
  column names of one frame are taken to be distinct, as the reader makes them.
\<close>

record dataframe =
  columns :: "string list"
  rows :: "cell list list"

fun index_of :: "string list \<Rightarrow> string \<Rightarrow> nat option" where
  "index_of [] c = None"
| "index_of (x # xs) c = (if x = c then Some 0 else map_option Suc (index_of xs c))"

definition cell_at :: "cell list \<Rightarrow> nat \<Rightarrow> cell" where
  "cell_at r j = (if j < length r then r ! j else None)"

text \<open>\<open>df[col]\<close>: the column as a list, or \<open>KeyError\<close> (also for the key \<open>None\<close>).\<close>

definition getitem :: "dataframe \<Rightarrow> string option \<Rightarrow> py_error + cell list" where
  "getitem df col =
     (case col of
        None \<Rightarrow> Inl (KeyError None)
      | Some c \<Rightarrow>
          (case index_of (columns df) c of
             None \<Rightarrow> Inl (KeyError (Some c))
           | Some j \<Rightarrow> Inr (map (\<lambda>r. cell_at r j) (rows df))))"

definition fillna_str :: "cell list \<Rightarrow> string list" where
  "fillna_str cs = map (\<lambda>c. case c of None \<Rightarrow> [] | Some s \<Rightarrow> s) cs"

text \<open>Boolean masks, \<open>df[mask]\<close> and \<open>len(df)\<close>.\<close>

definition mask_and :: "bool list \<Rightarrow> bool list \<Rightarrow> bool list" where
  "mask_and xs ys = map (\<lambda>(x, y). x \<and> y) (zip xs ys)"

definition select_rows :: "dataframe \<Rightarrow> bool list \<Rightarrow> dataframe" where
  "select_rows df bmask = df\<lparr>rows := map fst (filter snd (zip (rows df) bmask))\<rparr>"

definition len_df :: "dataframe \<Rightarrow> nat" where
  "len_df df = length (rows df)"

definition str_lower_eq :: "string list \<Rightarrow> string \<Rightarrow> bool list" where
  "str_lower_eq series lit = map (\<lambda>s. py_lower s = lit) series"

definition isin :: "string list \<Rightarrow> string list \<Rightarrow> bool list" where
  "isin series lits = map (\<lambda>s. s \<in> set lits) series"

definition series_eq :: "string list \<Rightarrow> string \<Rightarrow> bool list" where
  "series_eq series lit = map (\<lambda>s. s = lit) series"

text \<open>
  The summary sheet is read without a header. A cell of it is empty (\<open>pd.isna\<close>), a
  number, a string, or some other object. Numbers are exact rationals: infinities and
  \<open>NaN\<close> values other than the empty cell are outside the model. A string cell carries what
  \<open>float\<close> makes of it: the number, or nothing when \<open>float\<close> raises \<open>ValueError\<close>; on any
  other object \<open>float\<close> raises \<open>TypeError\<close>.
\<close>

datatype summary_cell = SNaN | SNumber rat | SString "rat option" | SOther

record summary =
  ncols :: nat
  srows :: "summary_cell list list"

definition iloc2 :: "summary \<Rightarrow> nat \<Rightarrow> nat \<Rightarrow> summary_cell" where
  "iloc2 summary_df r c =
     (let row = srows summary_df ! r in if c < length row then row ! c else SNaN)"

text \<open>
  The block \<open>Get actual value from summary sheet\<close>, which every section repeats:
  \<open>None\<close> when the coordinate lies outside the sheet, otherwise the number in the cell,
  with zero for an empty cell and for a cell that \<open>float\<close> rejects.
\<close>

definition get_actual_value :: "summary \<Rightarrow> nat \<Rightarrow> nat \<Rightarrow> rat option" where
  "get_actual_value summary_df current_row col_index =
     (if current_row < length (srows summary_df) \<and> col_index < ncols summary_df
      then Some (case iloc2 summary_df current_row col_index of
                   SNaN \<Rightarrow> 0
                 | SNumber x \<Rightarrow> x
                 | SString p \<Rightarrow> (case p of Some x \<Rightarrow> x | None \<Rightarrow> 0)
                 | SOther \<Rightarrow> 0)
      else None)"

text \<open>\<open>int(x)\<close> truncates towards zero.\<close>

definition py_int :: "rat \<Rightarrow> int" where
  "py_int x = (if x \<ge> 0 then \<lfloor>x\<rfloor> else \<lceil>x\<rceil>)"

text \<open>
  \<open>match = int(calculated_value) == int(actual_value) if actual_value is not None else False\<close>
\<close>

definition int_match :: "rat \<Rightarrow> rat option \<Rightarrow> bool" where
  "int_match calculated_value actual_value =
     (case actual_value of None \<Rightarrow> False | Some a \<Rightarrow> py_int calculated_value = py_int a)"

text \<open>The true division of two counts, which raises on a zero divisor.\<close>

definition py_truediv :: "nat \<Rightarrow> nat \<Rightarrow> py_error + rat" where
  "py_truediv a b = (if b = 0 then Inl ZeroDivisionError else Inr (of_nat a / of_nat b))"

record cell_result =
  calculated :: rat
  actual :: "rat option"
  match :: bool
  status :: string
  section_name :: string
  row_type :: string
  report :: "string option"

text \<open>
  A result dictionary maps a cell name to a cell result, or an error key to a message.
  The message of the outermost handler contains the text of the exception and a traceback;
  it is represented by the exception.
\<close>

datatype entry = CellResult cell_result | ErrorText string | ErrorVerifying py_error

type_synonym results = "string \<rightharpoonup> entry"

definition make_result ::
  "rat \<Rightarrow> rat option \<Rightarrow> bool \<Rightarrow> string \<Rightarrow> string \<Rightarrow> string option \<Rightarrow> cell_result" where
  "make_result calculated_value actual_value m sec rt rep =
     \<lparr>calculated = calculated_value, actual = actual_value, match = m,
      status = (if m then ''PASS'' else ''FAIL''), section_name = sec, row_type = rt,
      report = rep\<rparr>"

text \<open>\<open>f"{col_letter}{current_row + 1}"\<close>\<close>

definition cell_name :: "string \<Rightarrow> nat \<Rightarrow> string" where
  "cell_name col_letter current_row = col_letter @ str_nat (current_row + 1)"

text \<open>The dictionary \<open>case_types\<close>, in its order: column letter, case type, column index.\<close>

definition case_types :: "(string \<times> string \<times> nat) list" where
  "case_types =
     [(''B'', ''child in care'', 1), (''C'', ''adoption'', 2),
      (''D'', ''formal customary care'', 3), (''E'', ''kinship service'', 4)]"

definition case_filter_of :: "string \<Rightarrow> string list \<Rightarrow> bool list" where
  "case_filter_of case_type case_type_data =
     (if case_type = ''formal customary care''
      then map (\<lambda>s. py_lower s \<in> set [''fcc'', ''formal customary care'']) case_type_data
      else str_lower_eq case_type_data case_type)"

text \<open>
  A loop that stores one cell result per iteration into \<open>results\<close>; an exception in an
  iteration leaves the loop and the function. The nested loops of the sections (rows
  outside, case types inside) run over the pairs in that order.
\<close>

fun record_cells ::
  "('a \<Rightarrow> py_error + string \<times> cell_result) \<Rightarrow> 'a list \<Rightarrow> results \<Rightarrow> py_error + results"
where
  "record_cells f [] res = Inr res"
| "record_cells f (x # xs) res =
     (case f x of
        Inl e \<Rightarrow> Inl e
      | Inr (k, c) \<Rightarrow> record_cells f xs (res(k \<mapsto> CellResult c)))"

definition nested :: "'a list \<Rightarrow> 'b list \<Rightarrow> ('a \<times> 'b) list" where
  "nested xs ys = concat (map (\<lambda>x. map (\<lambda>y. (x, y)) ys) xs)"

definition apostrophe :: string where
  "apostrophe = [CHR 0x27]"

section \<open>Column discovery\<close>

record required_columns =
  compliant_col :: "string option"
  change_reason_col :: "string option"
  case_type_col :: "string option"



definition find_exclusion_column :: "dataframe \<Rightarrow> string \<Rightarrow> string option" where
  "find_exclusion_column df visit_type =
     find (\<lambda>col. let col_lower = py_lower col
                 in py_in ''exclusion'' col_lower \<and> py_in ''closed prior to due date'' col_lower
                    \<and> ((visit_type = ''7 day'' \<and> py_in ''7'' col_lower)
                       \<or> (visit_type = ''30 day'' \<and> py_in ''30'' col_lower)
                       \<or> (visit_type = ''90 day'' \<and> py_in ''90'' col_lower)))
       (columns df)"

definition find_case_type_column :: "dataframe \<Rightarrow> string option" where
  "find_case_type_column df = find (\<lambda>col. py_in ''case type'' (py_lower col)) (columns df)"

definition find_primary_placement_column :: "dataframe \<Rightarrow> string option" where
  "find_primary_placement_column df =
     find (\<lambda>col. py_in ''primary in care placement type'' (py_lower col)) (columns df)"

text \<open>\<open>not col\<close> for a column name or \<open>None\<close>: true for \<open>None\<close> and for the empty string.\<close>

definition falsy :: "string option \<Rightarrow> bool" where
  "falsy col = (case col of None \<Rightarrow> True | Some s \<Rightarrow> s = [])"

section \<open>The visit sections\<close>

text \<open>The value computed for one cell of a visit section, by row type.\<close>

definition visit_calculated ::
  "dataframe \<Rightarrow> required_columns \<Rightarrow> string \<Rightarrow> string \<Rightarrow> string \<Rightarrow> py_error + rat" where
  "visit_calculated filtered_df cols sec rt case_type =
     (case getitem filtered_df (case_type_col cols) of
        Inl e \<Rightarrow> Inl e
      | Inr ctd \<Rightarrow>
     (case getitem filtered_df (compliant_col cols) of
        Inl e \<Rightarrow> Inl e
      | Inr cd \<Rightarrow>
          (let case_type_data = fillna_str ctd;
               compliant_data = fillna_str cd;
               case_filter = case_filter_of case_type case_type_data
           in if rt = ''total'' then
                (let compliant_filter =
                       (if sec = ''90-day''
                        then isin compliant_data [''Compliant'', ''Not Compliant'', ''Incomplete'']
                        else isin compliant_data [''Compliant'', ''Not Compliant''])
                 in Inr (of_nat (len_df (select_rows filtered_df
                                           (mask_and case_filter compliant_filter)))))
              else if rt = ''compliant'' then
                (let compliant_filter = series_eq compliant_data ''Compliant''
                 in Inr (of_nat (len_df (select_rows filtered_df
                                           (mask_and case_filter compliant_filter)))))
              else if rt = ''non_compliant'' then
                (let compliant_filter =
                       (if sec = ''90-day''
                        then isin compliant_data [''Not Compliant'', ''Incomplete'']
                        else series_eq compliant_data ''Not Compliant'')
                 in Inr (of_nat (len_df (select_rows filtered_df
                                           (mask_and case_filter compliant_filter)))))
              else
                (let total_filter =
                       (if sec = ''90-day''
                        then isin compliant_data [''Compliant'', ''Not Compliant'', ''Incomplete'']
                        else isin compliant_data [''Compliant'', ''Not Compliant'']);
                     compliant_filter = series_eq compliant_data ''Compliant'';
                     total_count = len_df (select_rows filtered_df
                                             (mask_and case_filter total_filter));
                     compliant_count = len_df (select_rows filtered_df
                                                 (mask_and case_filter compliant_filter))
                 in if total_count > 0 then py_truediv compliant_count total_count
                    else Inr 0))))"

definition visit_cell ::
  "dataframe \<Rightarrow> required_columns \<Rightarrow> summary \<Rightarrow> nat \<Rightarrow> string
    \<Rightarrow> (nat \<times> string) \<times> (string \<times> string \<times> nat) \<Rightarrow> py_error + string \<times> cell_result" where
  "visit_cell filtered_df cols summary_df start_row sec =
     (\<lambda>((row_offset, rt), (col_letter, case_type, col_index)).
        let current_row = start_row + row_offset
        in case visit_calculated filtered_df cols sec rt case_type of
             Inl e \<Rightarrow> Inl e
           | Inr calculated_value \<Rightarrow>
               (let actual_value = get_actual_value summary_df current_row col_index;
                    m = (if rt = ''compliance_rate'' \<and> actual_value \<noteq> None
                         then (case actual_value of
                                 Some a \<Rightarrow> \<bar>calculated_value - a\<bar> < 1 / 100
                               | None \<Rightarrow> False)
                         else int_match calculated_value actual_value)
                in Inr (cell_name col_letter current_row,
                        make_result calculated_value actual_value m sec rt None)))"

definition visit_row_types :: "(nat \<times> string) list" where
  "visit_row_types = enumerate 0 [''total'', ''compliant'', ''non_compliant'', ''compliance_rate'']"

definition verify_visit_section ::
  "dataframe \<Rightarrow> required_columns \<Rightarrow> summary \<Rightarrow> nat \<Rightarrow> nat \<Rightarrow> string \<Rightarrow> py_error + results"
where
  "verify_visit_section df cols summary_df start_row end_row sec =
     (case getitem df (change_reason_col cols) of
        Inl e \<Rightarrow> Inl e
      | Inr crd \<Rightarrow>
          (let filtered_df = select_rows df (str_lower_eq (fillna_str crd) ''no'')
           in if len_df filtered_df = 0
              then Inr [sec @ ''_error'' \<mapsto>
                     ErrorText (''No records found with Incorrect Change Reason = ''
                                @ apostrophe @ ''No'' @ apostrophe)]
              else record_cells (visit_cell filtered_df cols summary_df start_row sec)
                     (nested visit_row_types case_types) Map.empty))"

section \<open>The sections fed by all three reports\<close>

type_synonym report_row = "nat \<times> dataframe \<times> required_columns \<times> string"

definition report_rows ::
  "dataframe \<Rightarrow> dataframe \<Rightarrow> dataframe \<Rightarrow> required_columns \<Rightarrow> required_columns
    \<Rightarrow> required_columns \<Rightarrow> report_row list" where
  "report_rows std1_df std2_df std3_df columns_std1 columns_std2 columns_std3 =
     enumerate 0 [(std1_df, columns_std1, ''7-day''), (std2_df, columns_std2, ''30-day''),
                  (std3_df, columns_std3, ''90-day'')]"

definition whereabouts_cell ::
  "string option \<Rightarrow> summary \<Rightarrow> nat \<Rightarrow> report_row \<times> (string \<times> string \<times> nat)
    \<Rightarrow> py_error + string \<times> cell_result" where
  "whereabouts_cell placement_col_std1 summary_df start_row =
     (\<lambda>((row_offset, report_df, cols, report_name), (col_letter, case_type, col_index)).
        let current_row = start_row + row_offset
        in case getitem report_df (change_reason_col cols) of
             Inl e \<Rightarrow> Inl e
           | Inr crd \<Rightarrow>
        (let filtered_df = select_rows report_df (str_lower_eq (fillna_str crd) ''no'')
         in case getitem filtered_df (case_type_col cols) of
              Inl e \<Rightarrow> Inl e
            | Inr ctd \<Rightarrow>
            (case getitem filtered_df placement_col_std1 of
              Inl e \<Rightarrow> Inl e
            | Inr pd \<Rightarrow>
                (let case_filter = case_filter_of case_type (fillna_str ctd);
                     whereabouts_filter = str_lower_eq (fillna_str pd) ''whereabouts unknown'';
                     calculated_value =
                       (if report_name = ''90-day'' \<and> case_type = ''child in care'' then 0
                        else of_nat (len_df (select_rows filtered_df
                                               (mask_and case_filter whereabouts_filter))));
                     actual_value = get_actual_value summary_df current_row col_index;
                     m = int_match calculated_value actual_value
                 in Inr (cell_name col_letter current_row,
                         make_result calculated_value actual_value m ''whereabouts-unknown''
                           report_name (Some report_name))))))"

definition verify_whereabouts_unknown_section ::
  "dataframe \<Rightarrow> dataframe \<Rightarrow> dataframe \<Rightarrow> required_columns \<Rightarrow> required_columns
    \<Rightarrow> required_columns \<Rightarrow> summary \<Rightarrow> nat \<Rightarrow> nat \<Rightarrow> py_error + results" where
  "verify_whereabouts_unknown_section std1_df std2_df std3_df columns_std1 columns_std2
       columns_std3 summary_df start_row end_row =
     (let placement_col_std1 = find_primary_placement_column std1_df;
          placement_col_std2 = find_primary_placement_column std2_df;
          placement_col_std3 = find_primary_placement_column std3_df
      in if falsy placement_col_std1 then
           Inr [''whereabouts_error'' \<mapsto>
                  ErrorText ''Primary Placement Type column not found in Standard 1 Report'']
         else if falsy placement_col_std2 then
           Inr [''whereabouts_error'' \<mapsto>
                  ErrorText ''Primary Placement Type column not found in Standard 2 Report'']
         else if falsy placement_col_std3 then
           Inr [''whereabouts_error'' \<mapsto>
                  ErrorText ''Primary Placement Type column not found in Standard 3 Report'']
         else record_cells (whereabouts_cell placement_col_std1 summary_df start_row)
                (nested (report_rows std1_df std2_df std3_df columns_std1 columns_std2
                           columns_std3) case_types)
                Map.empty)"

type_synonym exclusion_row = "nat \<times> dataframe \<times> string option \<times> string"

definition exclusion_cell ::
  "summary \<Rightarrow> nat \<Rightarrow> exclusion_row \<times> (string \<times> string \<times> nat)
    \<Rightarrow> py_error + string \<times> cell_result" where
  "exclusion_cell summary_df start_row =
     (\<lambda>((row_offset, report_df, exclusion_col, report_name), (col_letter, case_type, col_index)).
        let current_row = start_row + row_offset
        in case getitem report_df (find_case_type_column report_df) of
             Inl e \<Rightarrow> Inl e
           | Inr ctd \<Rightarrow>
           (case getitem report_df exclusion_col of
             Inl e \<Rightarrow> Inl e
           | Inr ed \<Rightarrow>
               (let case_filter = case_filter_of case_type (fillna_str ctd);
                    exclusion_filter = str_lower_eq (fillna_str ed) ''yes'';
                    calculated_value =
                      (if report_name = ''90-day'' \<and> case_type = ''child in care'' then 0
                       else of_nat (len_df (select_rows report_df
                                              (mask_and case_filter exclusion_filter))));
                    actual_value = get_actual_value summary_df current_row col_index;
                    m = int_match calculated_value actual_value
                in Inr (cell_name col_letter current_row,
                        make_result calculated_value actual_value m ''exclusion-service-ended''
                          report_name (Some report_name)))))"

definition verify_exclusion_service_ended_section ::
  "dataframe \<Rightarrow> dataframe \<Rightarrow> dataframe \<Rightarrow> summary \<Rightarrow> nat \<Rightarrow> nat \<Rightarrow> py_error + results" where
  "verify_exclusion_service_ended_section std1_df std2_df std3_df summary_df start_row end_row =
     (let exclusion_col_std1 = find_exclusion_column std1_df ''7 day'';
          exclusion_col_std2 = find_exclusion_column std2_df ''30 day'';
          exclusion_col_std3 = find_exclusion_column std3_df ''90 day''
      in if falsy exclusion_col_std1 then
           Inr [''exclusion_error'' \<mapsto>
                  ErrorText ''7 Day Private Visit Exclusion column not found in Standard 1 Report'']
         else if falsy exclusion_col_std2 then
           Inr [''exclusion_error'' \<mapsto>
                  ErrorText ''30 Day Private Visit Exclusion column not found in Standard 2 Report'']
         else if falsy exclusion_col_std3 then
           Inr [''exclusion_error'' \<mapsto>
                  ErrorText ''90 Day Visit Exclusion column not found in Standard 3 Report'']
         else record_cells (exclusion_cell summary_df start_row)
                (nested (enumerate 0 [(std1_df, exclusion_col_std1, ''7-day''),
                                      (std2_df, exclusion_col_std2, ''30-day''),
                                      (std3_df, exclusion_col_std3, ''90-day'')]) case_types)
                Map.empty)"

definition data_entry_cell ::
  "summary \<Rightarrow> nat \<Rightarrow> report_row \<times> (string \<times> string \<times> nat)
    \<Rightarrow> py_error + string \<times> cell_result" where
  "data_entry_cell summary_df start_row =
     (\<lambda>((row_offset, report_df, cols, report_name), (col_letter, case_type, col_index)).
        let current_row = start_row + row_offset
        in case getitem report_df (case_type_col cols) of
             Inl e \<Rightarrow> Inl e
           | Inr ctd \<Rightarrow>
           (case getitem report_df (change_reason_col cols) of
             Inl e \<Rightarrow> Inl e
           | Inr crd \<Rightarrow>
           (case getitem report_df (compliant_col cols) of
             Inl e \<Rightarrow> Inl e
           | Inr cd \<Rightarrow>
               (let case_filter = case_filter_of case_type (fillna_str ctd);
                    incorrect_reason_filter = str_lower_eq (fillna_str crd) ''yes'';
                    compliant_filter = map (\<lambda>s. True \<and> s \<noteq> []) (fillna_str cd);
                    calculated_value =
                      (if report_name = ''90-day'' \<and> case_type = ''child in care'' then 0
                       else of_nat (len_df (select_rows report_df
                              (mask_and (mask_and case_filter incorrect_reason_filter)
                                 compliant_filter))));
                    actual_value = get_actual_value summary_df current_row col_index;
                    m = int_match calculated_value actual_value
                in Inr (cell_name col_letter current_row,
                        make_result calculated_value actual_value m ''exclusion-data-entry''
                          report_name (Some report_name))))))"

definition verify_exclusion_data_entry_section ::
  "dataframe \<Rightarrow> dataframe \<Rightarrow> dataframe \<Rightarrow> required_columns \<Rightarrow> required_columns
    \<Rightarrow> required_columns \<Rightarrow> summary \<Rightarrow> nat \<Rightarrow> nat \<Rightarrow> py_error + results" where
  "verify_exclusion_data_entry_section std1_df std2_df std3_df columns_std1 columns_std2
       columns_std3 summary_df start_row end_row =
     record_cells (data_entry_cell summary_df start_row)
       (nested (report_rows std1_df std2_df std3_df columns_std1 columns_std2 columns_std3)
          case_types)
       Map.empty"

section \<open>The single-population sections\<close>

definition information_cell ::
  "dataframe \<Rightarrow> required_columns \<Rightarrow> summary \<Rightarrow> nat \<Rightarrow> string \<times> string \<times> nat
    \<Rightarrow> py_error + string \<times> cell_result" where
  "information_cell std3_df columns_std3 summary_df start_row =
     (\<lambda>(col_letter, case_type, col_index).
        let current_row = start_row
        in case getitem std3_df (case_type_col columns_std3) of
             Inl e \<Rightarrow> Inl e
           | Inr ctd \<Rightarrow>
           (case getitem std3_df (compliant_col columns_std3) of
             Inl e \<Rightarrow> Inl e
           | Inr cd \<Rightarrow>
               (let case_filter = case_filter_of case_type (fillna_str ctd);
                    incomplete_filter = str_lower_eq (fillna_str cd) ''incomplete'';
                    calculated_value =
                      (if case_type = ''formal customary care''
                       then of_nat (len_df (select_rows std3_df
                                              (mask_and case_filter incomplete_filter)))
                       else 0);
                    actual_value = get_actual_value summary_df current_row col_index;
                    m = int_match calculated_value actual_value
                in Inr (cell_name col_letter current_row,
                        make_result calculated_value actual_value m ''information-only''
                          ''incomplete-90-day-fcc'' (Some ''90-day'')))))"

definition verify_information_only_section ::
  "dataframe \<Rightarrow> required_columns \<Rightarrow> summary \<Rightarrow> nat \<Rightarrow> py_error + results" where
  "verify_information_only_section std3_df columns_std3 summary_df start_row =
     record_cells (information_cell std3_df columns_std3 summary_df start_row) case_types
       Map.empty"

definition kinship_cell ::
  "dataframe \<Rightarrow> required_columns \<Rightarrow> string option \<Rightarrow> summary \<Rightarrow> nat
    \<Rightarrow> string \<times> string \<times> nat \<Rightarrow> py_error + string \<times> cell_result" where
  "kinship_cell std3_df columns_std3 placement_col summary_df start_row =
     (\<lambda>(col_letter, case_type, col_index).
        let current_row = start_row
        in case getitem std3_df (case_type_col columns_std3) of
             Inl e \<Rightarrow> Inl e
           | Inr ctd \<Rightarrow>
           (case getitem std3_df (change_reason_col columns_std3) of
             Inl e \<Rightarrow> Inl e
           | Inr crd \<Rightarrow>
           (case getitem std3_df (compliant_col columns_std3) of
             Inl e \<Rightarrow> Inl e
           | Inr cd \<Rightarrow>
           (case getitem std3_df placement_col of
             Inl e \<Rightarrow> Inl e
           | Inr pd \<Rightarrow>
               (let case_filter =
                      (if case_type = ''kinship service''
                       then str_lower_eq (fillna_str ctd) ''kinship service''
                       else str_lower_eq (fillna_str ctd) case_type);
                    change_reason_filter = str_lower_eq (fillna_str crd) ''no'';
                    compliant_filter = isin (fillna_str cd) [''Compliant'', ''Not Compliant''];
                    placement_filter = str_lower_eq (fillna_str pd) ''other'';
                    calculated_value =
                      (if case_type = ''kinship service''
                       then of_nat (len_df (select_rows std3_df
                              (mask_and (mask_and (mask_and case_filter change_reason_filter)
                                 compliant_filter) placement_filter)))
                       else 0);
                    actual_value = get_actual_value summary_df current_row col_index;
                    m = int_match calculated_value actual_value
                in Inr (cell_name col_letter current_row,
                        make_result calculated_value actual_value m ''kinship-service-cases''
                          ''90-day-placement-other'' (Some ''90-day'')))))))"

definition verify_kinship_service_cases_section ::
  "dataframe \<Rightarrow> required_columns \<Rightarrow> summary \<Rightarrow> nat \<Rightarrow> py_error + results" where
  "verify_kinship_service_cases_section std3_df columns_std3 summary_df start_row =
     (let placement_col = find_primary_placement_column std3_df
      in if falsy placement_col then
           Inr [''kinship_error'' \<mapsto>
                  ErrorText ''Primary Placement Type column not found in Standard 3 Report'']
         else record_cells (kinship_cell std3_df columns_std3 placement_col summary_df start_row)
                case_types Map.empty)"

section \<open>The reconciliation run\<close>








section \<open>Row predicates for stating the properties\<close>

text \<open>
  The claims speak of rows that match a predicate. The source computes with whole columns
  and boolean masks; the definitions below say the same row by row, and the properties
  relate the two.
\<close>

definition matches_case_type :: "string \<Rightarrow> string \<Rightarrow> bool" where
  "matches_case_type case_type s =
     (if case_type = ''formal customary care''
      then py_lower s = ''fcc'' \<or> py_lower s = ''formal customary care''
      else py_lower s = case_type)"

definition total_statuses :: "string \<Rightarrow> string list" where
  "total_statuses sec =
     (if sec = ''90-day'' then [''Compliant'', ''Not Compliant'', ''Incomplete'']
      else [''Compliant'', ''Not Compliant''])"

definition count_rows ::
  "(string \<Rightarrow> bool) \<Rightarrow> (string \<Rightarrow> bool) \<Rightarrow> cell list \<Rightarrow> cell list \<Rightarrow> nat" where
  "count_rows P Q xs ys =
     length (filter (\<lambda>(x, y). P x \<and> Q y) (zip (fillna_str xs) (fillna_str ys)))"



section \<open>Reading a cell result out of a section's outcome\<close>

definition cell_at_key :: "py_error + results \<Rightarrow> string \<Rightarrow> cell_result option" where
  "cell_at_key outcome k =
     (case outcome of
        Inl e \<Rightarrow> None
      | Inr res \<Rightarrow> (case res k of Some (CellResult c) \<Rightarrow> Some c | _ \<Rightarrow> None))"

definition calculated_at :: "py_error + results \<Rightarrow> string \<Rightarrow> rat option" where
  "calculated_at outcome k = map_option calculated (cell_at_key outcome k)"

text \<open>A frame has the column \<open>col\<close>: \<open>df[col]\<close> does not raise.\<close>

definition has_column :: "dataframe \<Rightarrow> string option \<Rightarrow> bool" where
  "has_column df col = (case col of None \<Rightarrow> False | Some c \<Rightarrow> c \<in> set (columns df))"

definition has_columns :: "dataframe \<Rightarrow> string option list \<Rightarrow> bool" where
  "has_columns df cols = list_all (has_column df) cols"

text \<open>The three rows of the service-ended section, with the exclusion column of each report.\<close>

definition exclusion_rows :: "dataframe \<Rightarrow> dataframe \<Rightarrow> dataframe \<Rightarrow> exclusion_row list" where
  "exclusion_rows s1 s2 s3 =
     enumerate 0 [(s1, find_exclusion_column s1 ''7 day'', ''7-day''),
                  (s2, find_exclusion_column s2 ''30 day'', ''30-day''),
                  (s3, find_exclusion_column s3 ''90 day'', ''90-day'')]"

section \<open>Concrete sheets for the witnesses\<close>

text \<open>
  Three small detail sheets with the columns that the discovery functions look for, and a
  summary sheet of 37 rows and 5 columns. Every detail sheet holds five rows of one
  child-in-care case that matches every predicate of the sections, and one adoption row.
\<close>

definition example_rows :: "cell list list" where
  "example_rows =
     replicate 5 [Some ''Child in Care'', Some ''No'', Some ''Compliant'',
                  Some ''Whereabouts Unknown'', Some ''Yes'']
     @ [[Some ''Adoption'', Some ''No'', Some ''Not Compliant'', Some ''Foster Home'', None]]"

definition example_std1 :: dataframe where
  "example_std1 =
     \<lparr>columns = [''Case Type'', ''Incorrect Change Reason'', ''7 Day Private Visit Compliant'',
                 ''Primary In Care Placement Type'',
                 ''7 Day Private Visit Exclusion - Closed Prior to Due Date''],
      rows = example_rows\<rparr>"

definition example_std2 :: dataframe where
  "example_std2 =
     \<lparr>columns = [''Case Type'', ''Incorrect Change Reason'', ''30 Day Private Visit Compliant'',
                 ''Primary In Care Placement Type'',
                 ''30 Day Private Visit Exclusion - Closed Prior to Due Date''],
      rows = example_rows\<rparr>"

definition example_std3 :: dataframe where
  "example_std3 =
     \<lparr>columns = [''Case Type'', ''Incorrect Change Reason'', ''90 Day Visit Compliant'',
                 ''Primary In Care Placement Type'',
                 ''90 Day Visit Exclusion - Closed Prior to Due Date''],
      rows = example_rows\<rparr>"

definition example_columns :: "string \<Rightarrow> required_columns" where
  "example_columns compliant_name =
     \<lparr>compliant_col = Some compliant_name, change_reason_col = Some ''Incorrect Change Reason'',
      case_type_col = Some ''Case Type''\<rparr>"

definition example_summary :: summary where
  "example_summary =
     \<lparr>ncols = 5,
      srows = (replicate 37 (replicate 5 SNaN))
                [2 := [SNaN, SNumber 5, SNumber 0, SNumber 0, SNumber 0],
                 23 := [SNaN, SNumber (19 / 10), SString None, SNumber 0, SNumber 0]]\<rparr>"

text \<open>
  A second set of detail sheets, with four kinds of rows: five child-in-care rows that match
  the whereabouts-unknown and the service-ended predicates, two child-in-care rows with
  the status ``Incomplete'', three child-in-care rows whose change reason is ``Yes'' (the
  data-entry predicate), and one adoption row.
\<close>

definition mixed_rows :: "cell list list" where
  "mixed_rows =
     replicate 5 [Some ''Child in Care'', Some ''No'', Some ''Compliant'',
                  Some ''Whereabouts Unknown'', Some ''Yes'']
     @ replicate 2 [Some ''Child in Care'', Some ''No'', Some ''Incomplete'',
                    Some ''Foster Home'', Some ''No'']
     @ replicate 3 [Some ''Child in Care'', Some ''Yes'', Some ''Compliant'',
                    Some ''Foster Home'', None]
     @ [[Some ''Adoption'', Some ''No'', Some ''Not Compliant'', Some ''Foster Home'', None]]"

definition mixed_std1 :: dataframe where
  "mixed_std1 = example_std1\<lparr>rows := mixed_rows\<rparr>"

definition mixed_std2 :: dataframe where
  "mixed_std2 = example_std2\<lparr>rows := mixed_rows\<rparr>"

definition mixed_std3 :: dataframe where
  "mixed_std3 = example_std3\<lparr>rows := mixed_rows\<rparr>"

text \<open>
  Reports whose placement column has another name than the one of Standard 1: the column
  renamed, and a sheet that has both columns, the one of its own first.
\<close>

definition rename_placement :: "dataframe \<Rightarrow> dataframe" where
  "rename_placement df =
     df\<lparr>columns := map (\<lambda>c. if c = ''Primary In Care Placement Type''
                               then ''Current Primary In Care Placement Type'' else c)
                      (columns df)\<rparr>"

definition both_std2 :: dataframe where
  "both_std2 =
     \<lparr>columns = [''Case Type'', ''Incorrect Change Reason'', ''30 Day Private Visit Compliant'',
                 ''Current Primary In Care Placement Type'', ''Primary In Care Placement Type''],
      rows = replicate 5 [Some ''Child in Care'', Some ''No'', Some ''Compliant'',
                          Some ''Foster Home'', Some ''Whereabouts Unknown'']\<rparr>"




section \<open>Properties of the classifier\<close>

text \<open>
  Claim C3. For every pair of labels the classifier returns exactly one verdict, drawn from
  the closed set of eight outcomes, whatever the similarity function is; and a label
  classified against itself gives the exact-match verdict.
\<close>

theorem analyze_difference_one_verdict:
  "(\<exists>!v. v \<in> verdicts \<and> analyze_difference_with r x y = v)
   \<and> analyze_difference_with r x x = ExactMatch"
proof
  have "analyze_difference_with r x y \<in> verdicts"
    by (cases "analyze_difference_with r x y") (simp_all add: verdicts_def)
  then show "\<exists>!v. v \<in> verdicts \<and> analyze_difference_with r x y = v" by blast
  show "analyze_difference_with r x x = ExactMatch"
    by (simp add: analyze_difference_with_def)
qed

theorem analyze_difference_one_verdict_witness:
  "analyze_difference '' Case  Owner First Name'' ''Case Owner First Name'' = SpaceDifference
   \<and> analyze_difference ''Status'' ''Status'' = ExactMatch
   \<and> (\<exists>!v. v \<in> verdicts \<and> analyze_difference ''a b'' ''b a'' = v)"
proof -
  have 1: "analyze_difference '' Case  Owner First Name'' ''Case Owner First Name'' = SpaceDifference"
    by code_simp
  from 1 analyze_difference_one_verdict [of sequence_matcher_ratio "''a b''" "''b a''"]
    analyze_difference_one_verdict [of sequence_matcher_ratio "''Status''" "''Status''"]
  show ?thesis by (simp add: analyze_difference_def)
qed

text \<open>
  Claim C4. For labels that are not equal, not equal after whitespace collapsing and not
  equal case-insensitively, the verdict is the spelling error exactly when the
  case-insensitive similarity is strictly greater than 0.80; it then carries that
  similarity; and a pair whose similarity is exactly 0.80 is not a spelling error.
\<close>

theorem spelling_error_iff_above_threshold:
  assumes "d \<noteq> v"
    and "join_space (py_split d) \<noteq> join_space (py_split v)"
    and "py_lower d \<noteq> py_lower v"
  shows "(is_spelling_error (analyze_difference_with r d v) \<longleftrightarrow> r (py_lower d) (py_lower v) > 4 / 5)
    \<and> (r (py_lower d) (py_lower v) > 4 / 5 \<longrightarrow>
          analyze_difference_with r d v = SpellingError (r (py_lower d) (py_lower v)))
    \<and> (r (py_lower d) (py_lower v) = 4 / 5 \<longrightarrow> \<not> is_spelling_error (analyze_difference_with r d v))"
  using assms by (simp add: analyze_difference_with_def Let_def)

theorem spelling_error_iff_above_threshold_witness:
  "sequence_matcher_ratio (py_lower ''Abcde'') (py_lower ''abcdx'') = 4 / 5
   \<and> \<not> is_spelling_error (analyze_difference ''Abcde'' ''abcdx'')
   \<and> sequence_matcher_ratio (py_lower ''Submsission'') (py_lower ''Submission'') = 20 / 21
   \<and> analyze_difference ''Submsission'' ''Submission'' = SpellingError (20 / 21)"
proof -
  have a1: "''Abcde'' \<noteq> ''abcdx''" by simp
  have a2: "join_space (py_split ''Abcde'') \<noteq> join_space (py_split ''abcdx'')" by code_simp
  have a3: "py_lower ''Abcde'' \<noteq> py_lower ''abcdx''" by code_simp
  have a4: "sequence_matcher_ratio (py_lower ''Abcde'') (py_lower ''abcdx'') = 4 / 5" by code_simp
  have b1: "''Submsission'' \<noteq> ''Submission''" by simp
  have b2: "join_space (py_split ''Submsission'') \<noteq> join_space (py_split ''Submission'')" by code_simp
  have b3: "py_lower ''Submsission'' \<noteq> py_lower ''Submission''" by code_simp
  have b4: "sequence_matcher_ratio (py_lower ''Submsission'') (py_lower ''Submission'') = 20 / 21" by code_simp
  from spelling_error_iff_above_threshold [OF a1 a2 a3, of sequence_matcher_ratio]
    spelling_error_iff_above_threshold [OF b1 b2 b3, of sequence_matcher_ratio] a4 b4
  show ?thesis by (simp add: analyze_difference_def)
qed

text \<open>
  Claim C5. For labels that reach the word-containment rules (none of the earlier five
  rules applies): if every token of the design label occurs among the tokens of the
  verification label the verdict is extra words in verification; otherwise, if every token
  of the verification label occurs among the tokens of the design label, the verdict is
  missing words in verification.
\<close>

theorem word_containment_verdicts:
  assumes "d \<noteq> v"
    and "join_space (py_split d) \<noteq> join_space (py_split v)"
    and "py_lower d \<noteq> py_lower v"
    and "\<not> r (py_lower d) (py_lower v) > 4 / 5"
    and "sort (py_split (py_lower d)) \<noteq> sort (py_split (py_lower v))"
  shows "((\<forall>w \<in> set (py_split (py_lower d)). w \<in> set (py_split (py_lower v)))
            \<longrightarrow> analyze_difference_with r d v = ExtraWordsInVerification)
    \<and> (\<not> (\<forall>w \<in> set (py_split (py_lower d)). w \<in> set (py_split (py_lower v)))
         \<and> (\<forall>w \<in> set (py_split (py_lower v)). w \<in> set (py_split (py_lower d)))
            \<longrightarrow> analyze_difference_with r d v = MissingWordsInVerification)"
  using assms by (simp add: analyze_difference_with_def Let_def list_all_iff)

theorem word_containment_verdicts_witness:
  "analyze_difference ''a b'' ''a b c'' = ExtraWordsInVerification
   \<and> analyze_difference ''a b c'' ''a b'' = MissingWordsInVerification"
proof -
  have a1: "''a b'' \<noteq> ''a b c''" by simp
  have a2: "join_space (py_split ''a b'') \<noteq> join_space (py_split ''a b c'')" by code_simp
  have a3: "py_lower ''a b'' \<noteq> py_lower ''a b c''" by code_simp
  have a4: "\<not> sequence_matcher_ratio (py_lower ''a b'') (py_lower ''a b c'') > 4 / 5" by code_simp
  have a5: "sort (py_split (py_lower ''a b'')) \<noteq> sort (py_split (py_lower ''a b c''))" by code_simp
  have a6: "\<forall>w \<in> set (py_split (py_lower ''a b'')). w \<in> set (py_split (py_lower ''a b c''))" by code_simp
  have b1: "''a b c'' \<noteq> ''a b''" by simp
  have b2: "join_space (py_split ''a b c'') \<noteq> join_space (py_split ''a b'')" by code_simp
  have b3: "py_lower ''a b c'' \<noteq> py_lower ''a b''" by code_simp
  have b4: "\<not> sequence_matcher_ratio (py_lower ''a b c'') (py_lower ''a b'') > 4 / 5" by code_simp
  have b5: "sort (py_split (py_lower ''a b c'')) \<noteq> sort (py_split (py_lower ''a b''))" by code_simp
  have b6: "\<not> (\<forall>w \<in> set (py_split (py_lower ''a b c'')). w \<in> set (py_split (py_lower ''a b'')))" by code_simp
  have b7: "\<forall>w \<in> set (py_split (py_lower ''a b'')). w \<in> set (py_split (py_lower ''a b c''))" by code_simp
  from word_containment_verdicts
      [where r = sequence_matcher_ratio and d = "''a b''" and v = "''a b c''", OF a1 a2 a3 a4 a5] a6
    word_containment_verdicts
      [where r = sequence_matcher_ratio and d = "''a b c''" and v = "''a b''", OF b1 b2 b3 b4 b5] b6 b7
  show ?thesis by (simp add: analyze_difference_def)
qed

section \<open>Properties of the structural comparison\<close>

lemma compare_loop_details:
  "i \<le> n \<Longrightarrow> snd (compare_loop dc vc n i (ms, ds)) =
     ds @ map (positional_detail dc vc) (filter (\<lambda>k. dc ! k \<noteq> vc ! k) [i..<n])"
proof (induction dc vc n i "(ms, ds)" arbitrary: ms ds rule: compare_loop.induct)
  case (1 dc vc n i ms ds)
  show ?case
  proof (cases "i < n")
    case False
    then show ?thesis by (subst compare_loop.simps) simp
  next
    case True
    then have up: "[i..<n] = i # [Suc i..<n]" by (simp add: upt_rec)
    show ?thesis
    proof (cases "dc ! i \<noteq> vc ! i")
      case True
      from "1.hyps"(1) [OF \<open>i < n\<close> refl refl True refl] \<open>i < n\<close> True show ?thesis
        by (subst compare_loop.simps) (simp add: up positional_detail_def Let_def)
    next
      case False
      from "1.hyps"(2) [OF \<open>i < n\<close> refl refl False] \<open>i < n\<close> False show ?thesis
        by (subst compare_loop.simps) (simp add: up Let_def)
    qed
  qed
qed

lemma compare_loop_lengths:
  "length ms = length ds \<Longrightarrow>
   length (fst (compare_loop dc vc n i (ms, ds))) = length (snd (compare_loop dc vc n i (ms, ds)))"
proof (induction dc vc n i "(ms, ds)" arbitrary: ms ds rule: compare_loop.induct)
  case (1 dc vc n i ms ds)
  show ?case
  proof (cases "i < n")
    case False
    then show ?thesis using "1.prems" by (subst (1 2) compare_loop.simps) simp
  next
    case True
    show ?thesis
    proof (cases "dc ! i \<noteq> vc ! i")
      case neq: True
      from "1.hyps"(1) [OF True refl refl neq refl] "1.prems" True neq show ?thesis
        by (subst (1 2) compare_loop.simps) (simp add: Let_def)
    next
      case False
      from "1.hyps"(2) [OF True refl refl False] "1.prems" True False show ?thesis
        by (subst (1 2) compare_loop.simps) (simp add: Let_def)
    qed
  qed
qed

lemma collect_mismatches_details:
  "snd (collect_mismatches dc vc) =
     map (positional_detail dc vc)
       (filter (\<lambda>k. dc ! k \<noteq> vc ! k) [0..<min (length dc) (length vc)])
     @ (if length dc \<noteq> length vc then [count_mismatch_detail (length dc) (length vc)] else [])"
  using compare_loop_details [of 0 "min (length dc) (length vc)" dc vc "[]" "[]"]
  by (cases "compare_loop dc vc (min (length dc) (length vc)) 0 ([], [])")
    (simp add: collect_mismatches_def Let_def count_mismatch_detail_def)

lemma collect_mismatches_lengths:
  "length (fst (collect_mismatches dc vc)) = length (snd (collect_mismatches dc vc))"
  using compare_loop_lengths [of "[]" "[]" dc vc "min (length dc) (length vc)" 0]
  by (cases "compare_loop dc vc (min (length dc) (length vc)) 0 ([], [])")
    (simp add: collect_mismatches_def Let_def)

text \<open>
  Claim C6. The comparison pairs the labels by position up to the shorter length only: the
  recorded discrepancies are those of the positions below the minimum of the two lengths
  where the labels differ, followed by exactly one count-mismatch entry carrying both
  totals when the lengths differ; and the result has passed exactly when no
  discrepancy was recorded. The lists A, B, C and A, B give one count mismatch and no
  positional discrepancy.
\<close>

theorem structural_comparison_discrepancies:
  "details (compare_columns n dc vc) =
     map (positional_detail dc vc)
       (filter (\<lambda>k. dc ! k \<noteq> vc ! k) [0..<min (length dc) (length vc)])
     @ (if length dc \<noteq> length vc then [count_mismatch_detail (length dc) (length vc)] else [])
   \<and> (passed (compare_columns n dc vc) \<longleftrightarrow> details (compare_columns n dc vc) = [])"
proof -
  obtain ms ds where c: "collect_mismatches dc vc = (ms, ds)"
    by (cases "collect_mismatches dc vc") auto
  have len: "length ms = length ds" using collect_mismatches_lengths [of dc vc] c by simp
  have ds: "ds = map (positional_detail dc vc)
       (filter (\<lambda>k. dc ! k \<noteq> vc ! k) [0..<min (length dc) (length vc)])
     @ (if length dc \<noteq> length vc then [count_mismatch_detail (length dc) (length vc)] else [])"
    using collect_mismatches_details [of dc vc] c by simp
  have r: "details (compare_columns n dc vc) = ds \<and> (passed (compare_columns n dc vc) \<longleftrightarrow> ds = [])"
    using len by (cases ms) (auto simp: compare_columns_def c)
  then show ?thesis using ds by simp
qed

theorem structural_comparison_discrepancies_witness:
  "details (compare_columns 1 [''A'', ''B'', ''C''] [''A'', ''B'']) = [count_mismatch_detail 3 2]
   \<and> \<not> passed (compare_columns 1 [''A'', ''B'', ''C''] [''A'', ''B''])
   \<and> design (count_mismatch_detail 3 2) = ''Total columns: 3''"
proof -
  have s: "design (count_mismatch_detail 3 2) = ''Total columns: 3''" by code_simp
  have f: "filter (\<lambda>k. [''A'', ''B'', ''C''] ! k \<noteq> [''A'', ''B''] ! k) [0..<2] = []" by code_simp
  from structural_comparison_discrepancies [of 1 "[''A'', ''B'', ''C'']" "[''A'', ''B'']"] s f
  show ?thesis by (simp add: numeral_3_eq_3 numeral_2_eq_2)
qed

lemma read_columns_fails:
  "cannot_extract wb name row \<Longrightarrow> \<exists>e. read_columns wb name row = Inl e"
  by (auto simp: cannot_extract_def read_columns_def read_excel_def iloc_def
      split: workbook.splits option.splits)

text \<open>
  Claim C9. When either input of the structural comparison cannot be extracted (file
  unreadable, sheet missing, row missing) the function returns a result with passed false,
  no details and a message that carries the read failure; being a total function into
  the result type, it lets no exception of the reads through.
\<close>

theorem read_failure_short_circuits:
  assumes "cannot_extract design_spec (''Standard Report '' @ str_nat n) 8
     \<or> cannot_extract verification_report (''Standard '' @ str_nat n @ '' Report'') 1"
  shows "\<exists>e. test_standard_report_columns design_spec verification_report n =
     \<lparr>passed = False, message = ErrorReadingFiles n e, details = [], mismatches = None\<rparr>"
proof (cases "read_columns design_spec (''Standard Report '' @ str_nat n) 8")
  case (Inl e)
  then show ?thesis by (simp add: test_standard_report_columns_def)
next
  case (Inr dc)
  then have "\<not> cannot_extract design_spec (''Standard Report '' @ str_nat n) 8"
    using read_columns_fails by fastforce
  with assms obtain e where
    "read_columns verification_report (''Standard '' @ str_nat n @ '' Report'') 1 = Inl e"
    using read_columns_fails by blast
  with Inr show ?thesis by (simp add: test_standard_report_columns_def)
qed

theorem read_failure_short_circuits_witness:
  "cannot_extract (Workbook [(''Standard 1 Report'', [[Some ''Only one row'']])])
      (''Standard '' @ str_nat 1 @ '' Report'') 1
   \<and> test_standard_report_columns
        (Workbook [(''Standard Report 1'', replicate 9 [Some ''Case Id''])])
        (Workbook [(''Standard 1 Report'', [[Some ''Only one row'']])]) 1 =
      \<lparr>passed = False, message = ErrorReadingFiles 1 IndexError, details = [],
        mismatches = None\<rparr>"
proof -
  let ?v = "Workbook [(''Standard 1 Report'', [[Some ''Only one row'']])]"
  let ?d = "Workbook [(''Standard Report 1'', replicate 9 [Some ''Case Id''])]"
  have h: "cannot_extract ?v (''Standard '' @ str_nat 1 @ '' Report'') 1"
    by code_simp
  have r: "message (test_standard_report_columns ?d ?v 1) = ErrorReadingFiles 1 IndexError"
    by code_simp
  from read_failure_short_circuits [of ?d 1 ?v, OF disjI2, OF h] obtain e where
    e: "test_standard_report_columns ?d ?v 1 =
      \<lparr>passed = False, message = ErrorReadingFiles 1 e, details = [], mismatches = None\<rparr>"
    by blast
  with r have "e = IndexError" by simp
  with e h show ?thesis by simp
qed

section \<open>Properties of the reconciliation\<close>

lemma count_selected:
  "length rs = length m \<Longrightarrow> length (filter snd (zip rs m)) = length (filter (\<lambda>b. b) m)"
  by (induction rs m rule: list_induct2) auto

lemma getitem_length:
  "getitem df col = Inr xs \<Longrightarrow> length xs = length (rows df)"
  by (auto simp: getitem_def split: option.splits)

lemma len_select_two:
  assumes "length xs = length (rows df)" "length ys = length (rows df)"
  shows "len_df (select_rows df (mask_and (map P xs) (map Q ys)))
         = length (filter (\<lambda>(x, y). P x \<and> Q y) (zip xs ys))"
proof -
  have m: "mask_and (map P xs) (map Q ys) = map (\<lambda>(x, y). P x \<and> Q y) (zip xs ys)"
    by (auto simp: mask_and_def zip_map_map)
  have "length (rows df) = length (map (\<lambda>(x, y). P x \<and> Q y) (zip xs ys))"
    using assms by simp
  from count_selected [OF this] show ?thesis
    by (simp add: len_df_def select_rows_def m length_filter_map comp_def)
qed

lemma case_filter_of_map:
  "case_filter_of ct xs = map (matches_case_type ct) xs"
  by (auto simp: case_filter_of_def matches_case_type_def str_lower_eq_def)

text \<open>
  Claim C7. For every detail sheet and case type the compliance-rate row never raises a
  division error; when the two columns it reads exist, its value is the number of
  compliant rows of the case type divided by the number of its rows with a total status,
  and it is 0 when that total count is 0.
\<close>

theorem compliance_rate_guarded:
  "visit_calculated fdf cols sec ''compliance_rate'' ct \<noteq> Inl ZeroDivisionError
   \<and> (\<forall>ctd cd. getitem fdf (case_type_col cols) = Inr ctd
          \<and> getitem fdf (compliant_col cols) = Inr cd \<longrightarrow>
        visit_calculated fdf cols sec ''compliance_rate'' ct =
          Inr (let total_count =
                     count_rows (matches_case_type ct) (\<lambda>s. s \<in> set (total_statuses sec)) ctd cd;
                   compliant_count =
                     count_rows (matches_case_type ct) (\<lambda>s. s = ''Compliant'') ctd cd
               in if total_count = 0 then 0 else of_nat compliant_count / of_nat total_count))"
proof (intro conjI allI impI)
  show "visit_calculated fdf cols sec ''compliance_rate'' ct \<noteq> Inl ZeroDivisionError"
    by (auto simp: visit_calculated_def py_truediv_def Let_def getitem_def
        split: sum.splits option.splits)
next
  fix ctd cd
  assume a: "getitem fdf (case_type_col cols) = Inr ctd \<and> getitem fdf (compliant_col cols) = Inr cd"
  then have l1: "length (fillna_str ctd) = length (rows fdf)"
    and l2: "length (fillna_str cd) = length (rows fdf)"
    using getitem_length by (auto simp: fillna_str_def)
  have t: "len_df (select_rows fdf (mask_and (case_filter_of ct (fillna_str ctd))
              (isin (fillna_str cd) (total_statuses sec))))
           = count_rows (matches_case_type ct) (\<lambda>s. s \<in> set (total_statuses sec)) ctd cd"
    using len_select_two [OF l1 l2] by (simp add: case_filter_of_map isin_def count_rows_def)
  have c: "len_df (select_rows fdf (mask_and (case_filter_of ct (fillna_str ctd))
              (series_eq (fillna_str cd) ''Compliant'')))
           = count_rows (matches_case_type ct) (\<lambda>s. s = ''Compliant'') ctd cd"
    using len_select_two [OF l1 l2] by (simp add: case_filter_of_map series_eq_def count_rows_def)
  have ts: "(if sec = ''90-day''
             then isin (fillna_str cd) [''Compliant'', ''Not Compliant'', ''Incomplete'']
             else isin (fillna_str cd) [''Compliant'', ''Not Compliant''])
            = isin (fillna_str cd) (total_statuses sec)"
    by (simp add: total_statuses_def)
  show "visit_calculated fdf cols sec ''compliance_rate'' ct =
          Inr (let total_count =
                     count_rows (matches_case_type ct) (\<lambda>s. s \<in> set (total_statuses sec)) ctd cd;
                   compliant_count =
                     count_rows (matches_case_type ct) (\<lambda>s. s = ''Compliant'') ctd cd
               in if total_count = 0 then 0 else of_nat compliant_count / of_nat total_count)"
    using a unfolding visit_calculated_def
    by (simp add: Let_def ts t c py_truediv_def)
qed

theorem compliance_rate_guarded_witness:
  "visit_calculated
      \<lparr>columns = [''Case Type'', ''7 Day Private Visit Compliant''],
       rows = [[Some ''Adoption'', Some ''Compliant''], [Some ''Adoption'', Some ''Not Compliant'']]\<rparr>
      \<lparr>compliant_col = Some ''7 Day Private Visit Compliant'', change_reason_col = None,
       case_type_col = Some ''Case Type''\<rparr>
      ''7-day'' ''compliance_rate'' ''kinship service'' = Inr 0
   \<and> visit_calculated
      \<lparr>columns = [''Case Type'', ''7 Day Private Visit Compliant''],
       rows = [[Some ''Adoption'', Some ''Compliant''], [Some ''Adoption'', Some ''Not Compliant'']]\<rparr>
      \<lparr>compliant_col = Some ''7 Day Private Visit Compliant'', change_reason_col = None,
       case_type_col = Some ''Case Type''\<rparr>
      ''7-day'' ''compliance_rate'' ''adoption'' = Inr (1 / 2)"
proof -
  let ?df = "\<lparr>columns = [''Case Type'', ''7 Day Private Visit Compliant''],
       rows = [[Some ''Adoption'', Some ''Compliant''], [Some ''Adoption'', Some ''Not Compliant'']]\<rparr>"
  let ?cols = "\<lparr>compliant_col = Some ''7 Day Private Visit Compliant'', change_reason_col = None,
       case_type_col = Some ''Case Type''\<rparr>"
  have g1: "getitem ?df (case_type_col ?cols) = Inr [Some ''Adoption'', Some ''Adoption'']"
    by code_simp
  have g2: "getitem ?df (compliant_col ?cols) = Inr [Some ''Compliant'', Some ''Not Compliant'']"
    by code_simp
  have k: "(let total_count =
                     count_rows (matches_case_type ''kinship service'') (\<lambda>s. s \<in> set (total_statuses ''7-day''))
                       [Some ''Adoption'', Some ''Adoption''] [Some ''Compliant'', Some ''Not Compliant''];
                   compliant_count =
                     count_rows (matches_case_type ''kinship service'') (\<lambda>s. s = ''Compliant'')
                       [Some ''Adoption'', Some ''Adoption''] [Some ''Compliant'', Some ''Not Compliant'']
               in if total_count = 0 then 0 else of_nat compliant_count / of_nat total_count) = (0::rat)"
    by code_simp
  have a: "(let total_count =
                     count_rows (matches_case_type ''adoption'') (\<lambda>s. s \<in> set (total_statuses ''7-day''))
                       [Some ''Adoption'', Some ''Adoption''] [Some ''Compliant'', Some ''Not Compliant''];
                   compliant_count =
                     count_rows (matches_case_type ''adoption'') (\<lambda>s. s = ''Compliant'')
                       [Some ''Adoption'', Some ''Adoption''] [Some ''Compliant'', Some ''Not Compliant'']
               in if total_count = 0 then 0 else of_nat compliant_count / of_nat total_count) = (1 / 2 ::rat)"
    by code_simp
  from compliance_rate_guarded [of ?df ?cols "''7-day''" "''kinship service''", THEN conjunct2, rule_format, OF conjI, OF g1 g2]
    compliance_rate_guarded [of ?df ?cols "''7-day''" "''adoption''", THEN conjunct2, rule_format, OF conjI, OF g1 g2]
    k a
  show ?thesis by (simp only:)
qed

lemma str_nat_not_Nil: "str_nat n \<noteq> []"
  by (subst str_nat.simps) simp

lemma str_nat_last: "last (str_nat n) = char_of (48 + n mod 10)"
  by (subst str_nat.simps) (simp add: str_nat_not_Nil)

lemma str_nat_butlast: "butlast (str_nat n) = (if n < 10 then [] else str_nat (n div 10))"
  by (subst str_nat.simps) (simp add: butlast_append)

lemma digit_char_inj:
  assumes "char_of (48 + a) = (char_of (48 + b) :: char)" "a < 10" "b < 10"
  shows "a = (b::nat)"
proof -
  have "(48 + a) mod 256 = (48 + b) mod 256" using assms(1) by (simp add: char_of_eq_iff take_bit_eq_mod)
  then show ?thesis using assms(2,3) by simp
qed

lemma str_nat_inj: "str_nat m = str_nat n \<Longrightarrow> m = n"
proof (induction m arbitrary: n rule: str_nat.induct)
  case (1 m)
  have l: "m mod 10 = n mod 10"
    using "1.prems" str_nat_last [of m] str_nat_last [of n] digit_char_inj [of "m mod 10" "n mod 10"]
    by simp
  have b: "(if m < 10 then [] else str_nat (m div 10)) = (if n < 10 then [] else str_nat (n div 10))"
    using "1.prems" str_nat_butlast [of m] str_nat_butlast [of n] by simp
  show ?case
  proof (cases "m < 10")
    case True
    then have "n < 10" using b str_nat_not_Nil [of "n div 10"] by (cases "n < 10") auto
    with True l show ?thesis by simp
  next
    case False
    then have n: "\<not> n < 10" using b str_nat_not_Nil [of "m div 10"] by (cases "n < 10") auto
    with False b have "str_nat (m div 10) = str_nat (n div 10)" by simp
    from "1.IH" [OF False this] have "m div 10 = n div 10" .
    with l show ?thesis by (metis div_mult_mod_eq)
  qed
qed

lemma cell_name_inj:
  "cell_name [a] r = cell_name [b] r' \<longleftrightarrow> a = b \<and> r = r'"
  by (auto simp: cell_name_def dest: str_nat_inj)

lemma record_cells_origin:
  "record_cells f xs res = Inr res' \<Longrightarrow> res' k = Some v \<Longrightarrow>
     res k = Some v \<or> (\<exists>x \<in> set xs. \<exists>c. f x = Inr (k, c) \<and> v = CellResult c)"
proof (induction xs arbitrary: res)
  case Nil
  then show ?case by simp
next
  case (Cons x xs)
  from Cons.prems(1) obtain k' c' where fx: "f x = Inr (k', c')"
    and rest: "record_cells f xs (res(k' \<mapsto> CellResult c')) = Inr res'"
    by (auto split: sum.splits)
  from Cons.IH [OF rest Cons.prems(2)] show ?case
    using fx by (auto split: if_splits)
qed

lemma set_nested: "set (nested xs ys) = set xs \<times> set ys"
  by (auto simp: nested_def)

lemma cell_at_key_origin:
  assumes "cell_at_key (record_cells f xs Map.empty) k = Some c"
  shows "\<exists>x \<in> set xs. f x = Inr (k, c)"
proof -
  from assms obtain res where r: "record_cells f xs Map.empty = Inr res"
    and k: "res k = Some (CellResult c)"
    by (auto simp: cell_at_key_def split: sum.splits option.splits entry.splits)
  from record_cells_origin [OF r k] show ?thesis by auto
qed

lemma whereabouts_cell_result:
  assumes "whereabouts_cell p sm start ((off, df, cols, rn), (l, ct, ci)) = Inr (k, c)"
  shows "k = cell_name l (start + off)"
    and "rn = ''90-day'' \<and> ct = ''child in care'' \<Longrightarrow> calculated c = 0"
    and "match c = int_match (calculated c) (actual c)"
    and "actual c = get_actual_value sm (start + off) ci"
    and "row_type c = rn"
  using assms
  by (auto simp: whereabouts_cell_def Let_def make_result_def split: sum.splits)

lemma exclusion_cell_result:
  assumes "exclusion_cell sm start ((off, df, ec, rn), (l, ct, ci)) = Inr (k, c)"
  shows "k = cell_name l (start + off)"
    and "rn = ''90-day'' \<and> ct = ''child in care'' \<Longrightarrow> calculated c = 0"
    and "match c = int_match (calculated c) (actual c)"
    and "actual c = get_actual_value sm (start + off) ci"
    and "row_type c = rn"
  using assms
  by (auto simp: exclusion_cell_def Let_def make_result_def split: sum.splits)

lemma data_entry_cell_result:
  assumes "data_entry_cell sm start ((off, df, cols, rn), (l, ct, ci)) = Inr (k, c)"
  shows "k = cell_name l (start + off)"
    and "rn = ''90-day'' \<and> ct = ''child in care'' \<Longrightarrow> calculated c = 0"
    and "match c = int_match (calculated c) (actual c)"
    and "actual c = get_actual_value sm (start + off) ci"
    and "row_type c = rn"
  using assms
  by (auto simp: data_entry_cell_def Let_def make_result_def split: sum.splits)

lemma case_types_B:
  "(l, ct, ci) \<in> set case_types \<Longrightarrow> \<exists>a. l = [a] \<and> (a = CHR ''B'' \<longrightarrow> ct = ''child in care'')"
  by (auto simp: case_types_def)

lemma three_rows:
  "(off, x, rn) \<in> set (enumerate 0 [(a, ''7-day''), (b, ''30-day''), (c, ''90-day'')])
   \<Longrightarrow> off = 2 \<longrightarrow> rn = ''90-day''"
  by auto

lemma index_of_None_iff: "index_of xs c = None \<longleftrightarrow> c \<notin> set xs"
  by (induction xs) auto

lemma getitem_ok: "has_column df col \<Longrightarrow> \<exists>xs. getitem df col = Inr xs"
  by (cases col; cases "index_of (columns df) (the col)")
    (auto simp: has_column_def getitem_def index_of_None_iff)

lemma getitem_fails: "\<not> has_column df col \<Longrightarrow> getitem df col = Inl (KeyError col)"
  by (cases col) (auto simp: has_column_def getitem_def index_of_None_iff [symmetric])

lemma has_column_select [simp]: "has_column (select_rows df m) col = has_column df col"
  by (cases col) (simp_all add: has_column_def select_rows_def)

lemma find_has_column:
  "find P (columns df) = Some c \<Longrightarrow> has_column df (Some c)"
  by (auto simp: has_column_def find_Some_iff)

lemma record_cells_ok:
  "\<forall>y \<in> set xs. \<exists>k c. f y = Inr (k, c) \<Longrightarrow> \<exists>res. record_cells f xs m = Inr res"
proof (induction xs arbitrary: m)
  case Nil
  then show ?case by simp
next
  case (Cons x xs)
  then obtain k c where "f x = Inr (k, c)" by auto
  with Cons show ?case by simp
qed

lemma record_cells_keeps:
  "record_cells f xs m = Inr res \<Longrightarrow> m k \<noteq> None \<Longrightarrow> res k \<noteq> None"
proof (induction xs arbitrary: m)
  case Nil
  then show ?case by simp
next
  case (Cons x xs)
  from Cons.prems(1) obtain k' c' where
    rest: "record_cells f xs (m(k' \<mapsto> CellResult c')) = Inr res"
    by (auto split: sum.splits)
  have "(m(k' \<mapsto> CellResult c')) k \<noteq> None" using Cons.prems(2) by simp
  from Cons.IH [OF rest this] show ?case .
qed

lemma record_cells_last_writer:
  "record_cells f xs m = Inr res \<Longrightarrow> \<exists>y \<in> set xs. \<exists>c. f y = Inr (k, c) \<Longrightarrow>
     \<exists>y \<in> set xs. \<exists>c. f y = Inr (k, c) \<and> res k = Some (CellResult c)"
proof (induction xs arbitrary: m)
  case Nil
  then show ?case by simp
next
  case (Cons x xs)
  from Cons.prems(1) obtain k' c' where fx: "f x = Inr (k', c')"
    and rest: "record_cells f xs (m(k' \<mapsto> CellResult c')) = Inr res"
    by (auto split: sum.splits)
  show ?case
  proof (cases "\<exists>y \<in> set xs. \<exists>c. f y = Inr (k, c)")
    case True
    from Cons.IH [OF rest True] show ?thesis by auto
  next
    case False
    with Cons.prems(2) have kx: "k' = k" using fx by auto
    have "res k = Some (CellResult c')"
    proof (rule ccontr)
      assume n: "res k \<noteq> Some (CellResult c')"
      have "(m(k' \<mapsto> CellResult c')) k = Some (CellResult c')" using kx by simp
      moreover have "\<And>v. res k = Some v \<Longrightarrow> (m(k' \<mapsto> CellResult c')) k = Some v"
        using record_cells_origin [OF rest] False by blast
      moreover have "res k \<noteq> None"
        using record_cells_keeps [OF rest, of k] kx by simp
      ultimately show False using n by auto
    qed
    with fx kx show ?thesis by auto
  qed
qed

lemma section_lookup:
  assumes ok: "\<forall>y \<in> set xs. \<exists>c. f y = Inr (key y, c)"
    and x: "x \<in> set xs" "f x = Inr (key x, c)"
    and inj: "\<forall>y \<in> set xs. key y = key x \<longrightarrow> y = x"
  shows "cell_at_key (record_cells f xs m) (key x) = Some c"
proof -
  from ok have "\<forall>y \<in> set xs. \<exists>k c. f y = Inr (k, c)" by blast
  from record_cells_ok [OF this] obtain res where r: "record_cells f xs m = Inr res" by blast
  have "\<exists>y \<in> set xs. \<exists>c. f y = Inr (key x, c)" using x by blast
  from record_cells_last_writer [OF r this] obtain y c' where y: "y \<in> set xs"
    and fy: "f y = Inr (key x, c')" and rk: "res (key x) = Some (CellResult c')" by blast
  from ok y obtain c'' where "f y = Inr (key y, c'')" by blast
  with fy have "key y = key x" by simp
  with inj y have "y = x" by blast
  with fy x(2) have "c' = c" by simp
  with rk r show ?thesis by (simp add: cell_at_key_def)
qed

lemma row_types_functional:
  "(off, rt) \<in> set visit_row_types \<Longrightarrow> (off, rt') \<in> set visit_row_types \<Longrightarrow> rt = rt'"
  by (auto simp: visit_row_types_def)

lemma case_types_functional:
  "(l, ct, ci) \<in> set case_types \<Longrightarrow> (l, ct', ci') \<in> set case_types \<Longrightarrow> ct = ct' \<and> ci = ci'"
  by (auto simp: case_types_def)

lemma case_types_letter: "(l, ct, ci) \<in> set case_types \<Longrightarrow> \<exists>a. l = [a]"
  by (auto simp: case_types_def)

lemma report_rows_functional:
  "(off, r) \<in> set (enumerate 0 [a, b, c]) \<Longrightarrow> (off, r') \<in> set (enumerate 0 [a, b, c]) \<Longrightarrow> r = r'"
  by auto

lemma visit_calculated_ok:
  assumes "has_column fdf (case_type_col cols)" "has_column fdf (compliant_col cols)"
  shows "\<exists>v. visit_calculated fdf cols sec rt ct = Inr v"
proof -
  from getitem_ok [OF assms(1)] getitem_ok [OF assms(2)] obtain a b where
    "getitem fdf (case_type_col cols) = Inr a" "getitem fdf (compliant_col cols) = Inr b"
    by blast
  then show ?thesis
    by (simp add: visit_calculated_def Let_def py_truediv_def)
qed

lemma visit_cell_ok:
  assumes "has_column fdf (case_type_col cols)" "has_column fdf (compliant_col cols)"
  shows "\<exists>c. visit_cell fdf cols sm start sec ((off, rt), (l, ct, ci))
            = Inr (cell_name l (start + off), c)"
proof -
  from visit_calculated_ok [OF assms] obtain v where
    "visit_calculated fdf cols sec rt ct = Inr v" by blast
  then show ?thesis by (simp add: visit_cell_def Let_def)
qed

lemma nested_key_inj:
  assumes "\<And>off r r'. (off, r) \<in> set rs \<Longrightarrow> (off, r') \<in> set rs \<Longrightarrow> r = r'"
    and x: "((off, r), (l, ct, ci)) \<in> set (nested rs case_types)"
    and y: "((off', r'), (l', ct', ci')) \<in> set (nested rs case_types)"
    and k: "cell_name l' (start + off') = cell_name l (start + off)"
  shows "((off', r'), (l', ct', ci')) = ((off, r), (l, ct, ci))"
proof -
  from x y have mx: "(off, r) \<in> set rs" "(l, ct, ci) \<in> set case_types"
    and my: "(off', r') \<in> set rs" "(l', ct', ci') \<in> set case_types"
    by (auto simp: set_nested)
  from case_types_letter [OF mx(2)] case_types_letter [OF my(2)] obtain a a'
    where "l = [a]" "l' = [a']" by blast
  with k cell_name_inj [of a' "start + off'" a "start + off"] have "l' = l" "off' = off" by auto
  with mx my assms(1) case_types_functional show ?thesis by blast
qed

lemma visit_section_lookup:
  assumes cr: "getitem df (change_reason_col cols) = Inr crd"
    and ne: "len_df (select_rows df (str_lower_eq (fillna_str crd) ''no'')) \<noteq> 0"
    and c1: "has_column df (case_type_col cols)" and c2: "has_column df (compliant_col cols)"
    and r: "(off, rt) \<in> set visit_row_types" and t: "(l, ct, ci) \<in> set case_types"
    and v: "visit_cell (select_rows df (str_lower_eq (fillna_str crd) ''no'')) cols sm start sec
              ((off, rt), (l, ct, ci)) = Inr (k, c)"
  shows "cell_at_key (verify_visit_section df cols sm start e sec) (cell_name l (start + off)) = Some c"
proof -
  let ?fdf = "select_rows df (str_lower_eq (fillna_str crd) ''no'')"
  let ?f = "visit_cell ?fdf cols sm start sec"
  let ?xs = "nested visit_row_types case_types"
  let ?key = "\<lambda>((off, rt), (l, ct, ci)). cell_name l (start + (off::nat))"
  let ?x = "((off, rt), (l, ct, ci))"
  have out: "verify_visit_section df cols sm start e sec = record_cells ?f ?xs Map.empty"
    using cr ne by (simp add: verify_visit_section_def Let_def)
  have ok: "\<forall>y \<in> set ?xs. \<exists>c. ?f y = Inr (?key y, c)"
    using visit_cell_ok [of ?fdf cols sm start sec] c1 c2 by auto
  have x: "?x \<in> set ?xs" using r t by (simp add: set_nested)
  from ok x v have fx: "?f ?x = Inr (?key ?x, c)" by fastforce
  have inj: "\<forall>y \<in> set ?xs. ?key y = ?key ?x \<longrightarrow> y = ?x"
  proof (intro ballI impI)
    fix y assume y: "y \<in> set ?xs" and ky: "?key y = ?key ?x"
    obtain off' rt' l' ct' ci' where ye: "y = ((off', rt'), (l', ct', ci'))" by (cases y) auto
    from nested_key_inj [of visit_row_types off rt l ct ci off' rt' l' ct' ci' start]
      row_types_functional x y ky ye
    show "y = ?x" by auto
  qed
  from section_lookup [of ?xs ?f ?key ?x c, OF ok x fx inj] out show ?thesis by simp
qed

lemma visit_section_ok:
  assumes "has_column df (change_reason_col cols)" "has_column df (case_type_col cols)"
    "has_column df (compliant_col cols)"
  shows "\<exists>res. verify_visit_section df cols sm start e sec = Inr res"
proof -
  from getitem_ok [OF assms(1)] obtain crd where cr: "getitem df (change_reason_col cols) = Inr crd"
    by blast
  let ?fdf = "select_rows df (str_lower_eq (fillna_str crd) ''no'')"
  have "\<forall>y \<in> set (nested visit_row_types case_types).
          \<exists>k c. visit_cell ?fdf cols sm start sec y = Inr (k, c)"
  proof
    fix y :: "(nat \<times> string) \<times> (string \<times> string \<times> nat)"
    obtain off rt l ct ci where "y = ((off, rt), (l, ct, ci))" by (cases y) auto
    with visit_cell_ok [of ?fdf cols sm start sec off rt l ct ci] assms(2,3)
    show "\<exists>k c. visit_cell ?fdf cols sm start sec y = Inr (k, c)" by auto
  qed
  from record_cells_ok [OF this] cr show ?thesis
    by (auto simp: verify_visit_section_def Let_def)
qed

lemma nested_section_lookup:
  fixes f :: "(nat \<times> 'r) \<times> (string \<times> string \<times> nat) \<Rightarrow> py_error + string \<times> cell_result"
  assumes fun_rs: "\<And>off r r'. (off, r) \<in> set rs \<Longrightarrow> (off, r') \<in> set rs \<Longrightarrow> r = r'"
    and ok: "\<And>off r l ct ci. ((off, r), (l, ct, ci)) \<in> set (nested rs case_types) \<Longrightarrow>
               \<exists>c. f ((off, r), (l, ct, ci)) = Inr (cell_name l (start + off), c)"
    and x: "((off, r), (l, ct, ci)) \<in> set (nested rs case_types)"
    and fx: "f ((off, r), (l, ct, ci)) = Inr (k, c)"
  shows "cell_at_key (record_cells f (nested rs case_types) m) (cell_name l (start + off)) = Some c"
proof -
  let ?xs = "nested rs case_types"
  let ?key = "\<lambda>((off, r :: 'r), (l, ct :: string, ci :: nat)). cell_name l (start + (off::nat))"
  let ?x = "((off, r), (l, ct, ci))"
  have ok': "\<forall>y \<in> set ?xs. \<exists>c. f y = Inr (?key y, c)"
  proof
    fix y assume y: "y \<in> set ?xs"
    obtain off' r' l' ct' ci' where ye: "y = ((off', r'), (l', ct', ci'))" by (cases y) auto
    with ok [of off' r' l' ct' ci'] y show "\<exists>c. f y = Inr (?key y, c)" by simp
  qed
  from ok' x fx have fx': "f ?x = Inr (?key ?x, c)" by fastforce
  have inj: "\<forall>y \<in> set ?xs. ?key y = ?key ?x \<longrightarrow> y = ?x"
  proof (intro ballI impI)
    fix y assume y: "y \<in> set ?xs" and ky: "?key y = ?key ?x"
    obtain off' r' l' ct' ci' where ye: "y = ((off', r'), (l', ct', ci'))" by (cases y) auto
    from nested_key_inj [of rs off r l ct ci off' r' l' ct' ci' start] fun_rs x y ky ye
    show "y = ?x" by auto
  qed
  from section_lookup [of ?xs f ?key ?x c, OF ok' x fx' inj] show ?thesis by simp
qed

lemma nested_section_ok:
  fixes f :: "(nat \<times> 'r) \<times> (string \<times> string \<times> nat) \<Rightarrow> py_error + string \<times> cell_result"
  assumes "\<And>off r l ct ci. ((off, r), (l, ct, ci)) \<in> set (nested rs case_types) \<Longrightarrow>
               \<exists>c. f ((off, r), (l, ct, ci)) = Inr (cell_name l (start + off), c)"
  shows "\<exists>res. record_cells f (nested rs case_types) m = Inr res"
proof (rule record_cells_ok, rule ballI)
  fix y assume y: "y \<in> set (nested rs case_types)"
  obtain off' r' l' ct' ci' where ye: "y = ((off', r'), (l', ct', ci'))" by (cases y) auto
  with assms [of off' r' l' ct' ci'] y show "\<exists>k c. f y = Inr (k, c)" by auto
qed

subsection \<open>Whereabouts unknown\<close>

lemma whereabouts_cell_ok:
  assumes "has_column df (change_reason_col cols)" "has_column df (case_type_col cols)"
    "has_column df p"
  shows "\<exists>c. whereabouts_cell p sm start ((off, df, cols, rn), (l, ct, ci))
            = Inr (cell_name l (start + off), c)"
proof -
  from getitem_ok [OF assms(1)] obtain crd where 1: "getitem df (change_reason_col cols) = Inr crd"
    by blast
  let ?fdf = "select_rows df (str_lower_eq (fillna_str crd) ''no'')"
  from getitem_ok [of ?fdf "case_type_col cols"] getitem_ok [of ?fdf p] assms(2,3)
  obtain a b where "getitem ?fdf (case_type_col cols) = Inr a" "getitem ?fdf p = Inr b"
    by auto
  with 1 show ?thesis by (simp add: whereabouts_cell_def Let_def)
qed

lemma whereabouts_cell_key_error:
  assumes "has_column df (change_reason_col cols)" "has_column df (case_type_col cols)"
    "\<not> has_column df p"
  shows "whereabouts_cell p sm start ((off, df, cols, rn), (l, ct, ci)) = Inl (KeyError p)"
proof -
  from getitem_ok [OF assms(1)] obtain crd where 1: "getitem df (change_reason_col cols) = Inr crd"
    by blast
  let ?fdf = "select_rows df (str_lower_eq (fillna_str crd) ''no'')"
  from getitem_ok [of ?fdf "case_type_col cols"] assms(2)
  obtain a where 2: "getitem ?fdf (case_type_col cols) = Inr a" by auto
  from getitem_fails [of ?fdf p] assms(3) have "getitem ?fdf p = Inl (KeyError p)" by simp
  with 1 2 show ?thesis by (simp add: whereabouts_cell_def Let_def)
qed

lemma whereabouts_section_cases:
  "(\<exists>msg. verify_whereabouts_unknown_section s1 s2 s3 c1 c2 c3 sm start e
           = Inr [''whereabouts_error'' \<mapsto> ErrorText msg]
      \<and> (falsy (find_primary_placement_column s1) \<or> falsy (find_primary_placement_column s2)
         \<or> falsy (find_primary_placement_column s3)))
   \<or> (verify_whereabouts_unknown_section s1 s2 s3 c1 c2 c3 sm start e
        = record_cells (whereabouts_cell (find_primary_placement_column s1) sm start)
            (nested (report_rows s1 s2 s3 c1 c2 c3) case_types) Map.empty
      \<and> \<not> falsy (find_primary_placement_column s1) \<and> \<not> falsy (find_primary_placement_column s2)
      \<and> \<not> falsy (find_primary_placement_column s3))"
proof (cases "falsy (find_primary_placement_column s1) \<or> falsy (find_primary_placement_column s2)
      \<or> falsy (find_primary_placement_column s3)")
  case True
  then have "\<exists>msg. verify_whereabouts_unknown_section s1 s2 s3 c1 c2 c3 sm start e
           = Inr [''whereabouts_error'' \<mapsto> ErrorText msg]"
    unfolding verify_whereabouts_unknown_section_def Let_def
    by (cases "falsy (find_primary_placement_column s1)";
        cases "falsy (find_primary_placement_column s2)") (simp_all, blast+)
  with True show ?thesis by blast
next
  case False
  then show ?thesis by (simp add: verify_whereabouts_unknown_section_def Let_def)
qed

lemma report_rows_members:
  "(off, df, cols, rn) \<in> set (report_rows s1 s2 s3 c1 c2 c3) \<longleftrightarrow>
     (off = 0 \<and> df = s1 \<and> cols = c1 \<and> rn = ''7-day'')
     \<or> (off = 1 \<and> df = s2 \<and> cols = c2 \<and> rn = ''30-day'')
     \<or> (off = 2 \<and> df = s3 \<and> cols = c3 \<and> rn = ''90-day'')"
  by (auto simp: report_rows_def)

lemma report_rows_fun:
  "(off, r) \<in> set (report_rows s1 s2 s3 c1 c2 c3) \<Longrightarrow>
   (off, r') \<in> set (report_rows s1 s2 s3 c1 c2 c3) \<Longrightarrow> r = r'"
  unfolding report_rows_def by (rule report_rows_functional)

lemma whereabouts_section_lookup:
  assumes found: "\<not> falsy (find_primary_placement_column s1)"
      "\<not> falsy (find_primary_placement_column s2)" "\<not> falsy (find_primary_placement_column s3)"
    and cols: "\<And>off df cols rn. (off, df, cols, rn) \<in> set (report_rows s1 s2 s3 c1 c2 c3) \<Longrightarrow>
        has_column df (change_reason_col cols) \<and> has_column df (case_type_col cols)
        \<and> has_column df (find_primary_placement_column s1)"
    and r: "(off, df, cols, rn) \<in> set (report_rows s1 s2 s3 c1 c2 c3)"
    and t: "(l, ct, ci) \<in> set case_types"
    and v: "whereabouts_cell (find_primary_placement_column s1) sm start
              ((off, df, cols, rn), (l, ct, ci)) = Inr (k, c)"
  shows "cell_at_key (verify_whereabouts_unknown_section s1 s2 s3 c1 c2 c3 sm start e)
           (cell_name l (start + off)) = Some c"
proof -
  let ?p = "find_primary_placement_column s1"
  let ?rs = "report_rows s1 s2 s3 c1 c2 c3"
  from whereabouts_section_cases [of s1 s2 s3 c1 c2 c3 sm start e] found
  have out: "verify_whereabouts_unknown_section s1 s2 s3 c1 c2 c3 sm start e
        = record_cells (whereabouts_cell ?p sm start) (nested ?rs case_types) Map.empty"
    by blast
  have ok: "\<And>off r l ct ci. ((off, r), (l, ct, ci)) \<in> set (nested ?rs case_types) \<Longrightarrow>
               \<exists>c. whereabouts_cell ?p sm start ((off, r), (l, ct, ci))
                     = Inr (cell_name l (start + off), c)"
  proof -
    fix off r l ct ci
    assume m: "((off, r), (l, ct, ci)) \<in> set (nested ?rs case_types)"
    obtain df cols rn where re: "r = (df, cols, rn)" by (cases r) auto
    from m re have "(off, df, cols, rn) \<in> set ?rs" by (simp add: set_nested)
    from cols [OF this] whereabouts_cell_ok [of df cols ?p sm start off rn l ct ci] re
    show "\<exists>c. whereabouts_cell ?p sm start ((off, r), (l, ct, ci))
                     = Inr (cell_name l (start + off), c)" by simp
  qed
  have x: "((off, df, cols, rn), (l, ct, ci)) \<in> set (nested ?rs case_types)"
    using r t by (simp add: set_nested)
  from nested_section_lookup [of ?rs "whereabouts_cell ?p sm start" start off "(df, cols, rn)" l ct ci k c,
      OF report_rows_fun ok x v] out
  show ?thesis by simp
qed

lemma record_cells_first_error:
  assumes "\<forall>y \<in> set ys. \<exists>k c. f y = Inr (k, c)" "f x = Inl err"
  shows "record_cells f (ys @ x # zs) m = Inl err"
  using assms by (induction ys arbitrary: m) auto

lemma nested_three:
  "nested [a, b, c] ys = map (Pair a) ys @ map (Pair b) ys @ map (Pair c) ys"
  by (simp add: nested_def)

lemma report_rows_list:
  "report_rows s1 s2 s3 c1 c2 c3 =
     [(0, s1, c1, ''7-day''), (1, s2, c2, ''30-day''), (2, s3, c3, ''90-day'')]"
  by (simp add: report_rows_def numeral_2_eq_2)

lemma case_types_head:
  "case_types = (''B'', ''child in care'', 1) # tl case_types"
  by (simp add: case_types_def)

lemma placement_found:
  assumes "\<not> falsy (find_primary_placement_column s1)"
  shows "has_column s1 (find_primary_placement_column s1)"
proof -
  obtain p where p: "find_primary_placement_column s1 = Some p"
    using assms by (cases "find_primary_placement_column s1") (auto simp: falsy_def)
  then have "find (\<lambda>col. py_in ''primary in care placement type'' (py_lower col)) (columns s1) = Some p"
    by (simp only: find_primary_placement_column_def)
  then have "has_column s1 (Some p)" by (rule find_has_column)
  with p show ?thesis by simp
qed


lemma whereabouts_split:
  "nested (report_rows s1 s2 s3 c1 c2 c3) case_types =
     map (Pair (0::nat, s1, c1, ''7-day'')) case_types
     @ ((1::nat, s2, c2, ''30-day''), (''B'', ''child in care'', 1::nat))
       # (map (Pair (1::nat, s2, c2, ''30-day'')) (tl case_types)
          @ map (Pair (2::nat, s3, c3, ''90-day'')) case_types)"
proof -
  have "map (Pair (1::nat, s2, c2, ''30-day'')) case_types =
      ((1::nat, s2, c2, ''30-day''), (''B'', ''child in care'', 1::nat))
       # map (Pair (1::nat, s2, c2, ''30-day'')) (tl case_types)"
    by (subst case_types_head) (simp only: list.map)
  then show ?thesis
    by (simp only: report_rows_list nested_three append_Cons)
qed


lemma cells_ok_map_pair:
  fixes f :: "'r \<times> (string \<times> string \<times> nat) \<Rightarrow> py_error + string \<times> cell_result"
  assumes "\<And>l ct ci. \<exists>k c. f (r, (l, ct, ci)) = Inr (k, c)"
  shows "\<forall>y \<in> set (map (Pair r) ts). \<exists>k c. f y = Inr (k, c)"
proof
  fix y assume "y \<in> set (map (Pair r) ts)"
  then obtain t where "y = (r, t)" by auto
  moreover obtain l ct ci where "t = (l, ct, ci)" by (cases t) auto
  ultimately have ye: "y = (r, (l, ct, ci))" by simp
  show "\<exists>k c. f y = Inr (k, c)" unfolding ye by (rule assms)
qed

lemma whereabouts_first_report_ok:
  assumes 1: "has_column s1 (change_reason_col c1)" "has_column s1 (case_type_col c1)"
    and h1: "has_column s1 p"
  shows "\<exists>k c. whereabouts_cell p sm start ((0::nat, s1, c1, rn), (l, ct, ci)) = Inr (k, c)"
proof -
  from whereabouts_cell_ok [OF 1 h1, of sm start 0 rn l ct ci] obtain c where
    "whereabouts_cell p sm start ((0::nat, s1, c1, rn), (l, ct, ci))
       = Inr (cell_name l (start + 0), c)" ..
  then show ?thesis by (rule_tac x = "cell_name l (start + 0)" in exI) (rule exI)
qed


lemma whereabouts_section_runs:
  assumes found: "\<not> falsy (find_primary_placement_column s1)"
      "\<not> falsy (find_primary_placement_column s2)" "\<not> falsy (find_primary_placement_column s3)"
  shows "verify_whereabouts_unknown_section s1 s2 s3 c1 c2 c3 sm start e
        = record_cells (whereabouts_cell (find_primary_placement_column s1) sm start)
            (nested (report_rows s1 s2 s3 c1 c2 c3) case_types) Map.empty"
  using whereabouts_section_cases [of s1 s2 s3 c1 c2 c3 sm start e] found by blast


lemma whereabouts_second_report_key_error:
  assumes 2: "has_column s2 (change_reason_col c2)" "has_column s2 (case_type_col c2)"
    and no: "\<not> has_column s2 p"
  shows "whereabouts_cell p sm start ((1::nat, s2, c2, ''30-day''), (''B'', ''child in care'', 1::nat))
      = Inl (KeyError p)"
  by (rule whereabouts_cell_key_error [OF 2 no])


lemma record_cells_fails_at_second_report:
  fixes f :: "(nat \<times> dataframe \<times> required_columns \<times> string) \<times> (string \<times> string \<times> nat) \<Rightarrow> py_error + string \<times> cell_result"
  assumes oks: "\<forall>y \<in> set (map (Pair (0::nat, s1, c1, ''7-day'')) case_types).
      \<exists>k c. f y = Inr (k, c)"
    and fx: "f ((1::nat, s2, c2, ''30-day''), (''B'', ''child in care'', 1::nat)) = Inl err"
  shows "record_cells f (nested (report_rows s1 s2 s3 c1 c2 c3) case_types) m = Inl err"
proof -
  have "record_cells f (map (Pair (0::nat, s1, c1, ''7-day'')) case_types
     @ ((1::nat, s2, c2, ''30-day''), (''B'', ''child in care'', 1::nat))
       # (map (Pair (1::nat, s2, c2, ''30-day'')) (tl case_types)
          @ map (Pair (2::nat, s3, c3, ''90-day'')) case_types)) m = Inl err"
    using oks fx by (rule record_cells_first_error)
  then show ?thesis by (simp only: whereabouts_split)
qed


lemma whereabouts_section_key_error:
  assumes found: "\<not> falsy (find_primary_placement_column s1)"
      "\<not> falsy (find_primary_placement_column s2)" "\<not> falsy (find_primary_placement_column s3)"
    and 1: "has_column s1 (change_reason_col c1)" "has_column s1 (case_type_col c1)"
    and 2: "has_column s2 (change_reason_col c2)" "has_column s2 (case_type_col c2)"
    and no: "\<not> has_column s2 (find_primary_placement_column s1)"
  shows "verify_whereabouts_unknown_section s1 s2 s3 c1 c2 c3 sm start e
           = Inl (KeyError (find_primary_placement_column s1))"
proof -
  have h1: "has_column s1 (find_primary_placement_column s1)"
    by (rule placement_found [OF found(1)])
  have oks: "\<forall>y \<in> set (map (Pair (0::nat, s1, c1, ''7-day'')) case_types).
      \<exists>k c. whereabouts_cell (find_primary_placement_column s1) sm start y = Inr (k, c)"
    by (rule cells_ok_map_pair) (rule whereabouts_first_report_ok [OF 1 h1])
  show ?thesis
    unfolding whereabouts_section_runs [OF found]
    by (rule record_cells_fails_at_second_report [OF oks whereabouts_second_report_key_error [OF 2 no]])
qed

subsection \<open>Exclusion, service ended\<close>

lemma exclusion_cell_ok:
  assumes "has_column df (find_case_type_column df)" "has_column df ec"
  shows "\<exists>c. exclusion_cell sm start ((off, df, ec, rn), (l, ct, ci))
            = Inr (cell_name l (start + off), c)"
proof -
  from getitem_ok [OF assms(1)] getitem_ok [OF assms(2)] obtain a b where
    "getitem df (find_case_type_column df) = Inr a" "getitem df ec = Inr b" by blast
  then show ?thesis by (simp add: exclusion_cell_def Let_def)
qed

lemma exclusion_section_cases:
  "(\<exists>msg. verify_exclusion_service_ended_section s1 s2 s3 sm start e
           = Inr [''exclusion_error'' \<mapsto> ErrorText msg]
      \<and> (falsy (find_exclusion_column s1 ''7 day'') \<or> falsy (find_exclusion_column s2 ''30 day'')
         \<or> falsy (find_exclusion_column s3 ''90 day'')))
   \<or> (verify_exclusion_service_ended_section s1 s2 s3 sm start e
        = record_cells (exclusion_cell sm start) (nested (exclusion_rows s1 s2 s3) case_types)
            Map.empty
      \<and> \<not> falsy (find_exclusion_column s1 ''7 day'') \<and> \<not> falsy (find_exclusion_column s2 ''30 day'')
      \<and> \<not> falsy (find_exclusion_column s3 ''90 day''))"
proof (cases "falsy (find_exclusion_column s1 ''7 day'') \<or> falsy (find_exclusion_column s2 ''30 day'')
      \<or> falsy (find_exclusion_column s3 ''90 day'')")
  case True
  then have "\<exists>msg. verify_exclusion_service_ended_section s1 s2 s3 sm start e
           = Inr [''exclusion_error'' \<mapsto> ErrorText msg]"
    unfolding verify_exclusion_service_ended_section_def Let_def
    by (cases "falsy (find_exclusion_column s1 ''7 day'')";
        cases "falsy (find_exclusion_column s2 ''30 day'')") (simp_all, blast+)
  with True show ?thesis by blast
next
  case False
  then show ?thesis
    by (simp add: verify_exclusion_service_ended_section_def Let_def exclusion_rows_def)
qed

lemma exclusion_rows_members:
  "(off, df, ec, rn) \<in> set (exclusion_rows s1 s2 s3) \<longleftrightarrow>
     (off = 0 \<and> df = s1 \<and> ec = find_exclusion_column s1 ''7 day'' \<and> rn = ''7-day'')
     \<or> (off = 1 \<and> df = s2 \<and> ec = find_exclusion_column s2 ''30 day'' \<and> rn = ''30-day'')
     \<or> (off = 2 \<and> df = s3 \<and> ec = find_exclusion_column s3 ''90 day'' \<and> rn = ''90-day'')"
  by (auto simp: exclusion_rows_def)

lemma exclusion_rows_fun:
  "(off, r) \<in> set (exclusion_rows s1 s2 s3) \<Longrightarrow>
   (off, r') \<in> set (exclusion_rows s1 s2 s3) \<Longrightarrow> r = r'"
  unfolding exclusion_rows_def by (rule report_rows_functional)

lemma exclusion_found:
  assumes "\<not> falsy (find_exclusion_column df vt)"
  shows "has_column df (find_exclusion_column df vt)"
proof -
  obtain p where p: "find_exclusion_column df vt = Some p"
    using assms by (cases "find_exclusion_column df vt") (auto simp: falsy_def)
  then have "has_column df (Some p)"
    unfolding find_exclusion_column_def by (rule find_has_column)
  with p show ?thesis by simp
qed

lemma exclusion_cells_ok:
  assumes found: "\<not> falsy (find_exclusion_column s1 ''7 day'')"
      "\<not> falsy (find_exclusion_column s2 ''30 day'')" "\<not> falsy (find_exclusion_column s3 ''90 day'')"
    and ct: "has_column s1 (find_case_type_column s1)" "has_column s2 (find_case_type_column s2)"
      "has_column s3 (find_case_type_column s3)"
    and m: "((off, r), (l, ct, ci)) \<in> set (nested (exclusion_rows s1 s2 s3) case_types)"
  shows "\<exists>c. exclusion_cell sm start ((off, r), (l, ct, ci)) = Inr (cell_name l (start + off), c)"
proof -
  obtain df ec rn where re: "r = (df, ec, rn)" by (cases r) auto
  from m re have mem: "(off, df, ec, rn) \<in> set (exclusion_rows s1 s2 s3)"
    by (simp add: set_nested)
  then have "has_column df (find_case_type_column df) \<and> has_column df ec"
    unfolding exclusion_rows_members using ct exclusion_found [OF found(1)]
      exclusion_found [OF found(2)] exclusion_found [OF found(3)] by auto
  with exclusion_cell_ok [of df ec sm start off rn l ct ci] re show ?thesis by simp
qed

lemma exclusion_section_lookup:
  assumes found: "\<not> falsy (find_exclusion_column s1 ''7 day'')"
      "\<not> falsy (find_exclusion_column s2 ''30 day'')" "\<not> falsy (find_exclusion_column s3 ''90 day'')"
    and ct: "has_column s1 (find_case_type_column s1)" "has_column s2 (find_case_type_column s2)"
      "has_column s3 (find_case_type_column s3)"
    and r: "(off, df, ec, rn) \<in> set (exclusion_rows s1 s2 s3)"
    and t: "(l, ct, ci) \<in> set case_types"
    and v: "exclusion_cell sm start ((off, df, ec, rn), (l, ct, ci)) = Inr (k, c)"
  shows "cell_at_key (verify_exclusion_service_ended_section s1 s2 s3 sm start e)
           (cell_name l (start + off)) = Some c"
proof -
  from exclusion_section_cases [of s1 s2 s3 sm start e] found
  have out: "verify_exclusion_service_ended_section s1 s2 s3 sm start e
        = record_cells (exclusion_cell sm start) (nested (exclusion_rows s1 s2 s3) case_types)
            Map.empty"
    by blast
  have x: "((off, df, ec, rn), (l, ct, ci)) \<in> set (nested (exclusion_rows s1 s2 s3) case_types)"
    using r t by (simp add: set_nested)
  from nested_section_lookup [of "exclusion_rows s1 s2 s3" "exclusion_cell sm start" start
      off "(df, ec, rn)" l ct ci k c, OF exclusion_rows_fun exclusion_cells_ok [OF found ct] x v] out
  show ?thesis by simp
qed

lemma exclusion_section_ok:
  assumes ct: "has_column s1 (find_case_type_column s1)" "has_column s2 (find_case_type_column s2)"
      "has_column s3 (find_case_type_column s3)"
  shows "\<exists>res. verify_exclusion_service_ended_section s1 s2 s3 sm start e = Inr res"
proof -
  from exclusion_section_cases [of s1 s2 s3 sm start e]
  consider (err) msg where "verify_exclusion_service_ended_section s1 s2 s3 sm start e
           = Inr [''exclusion_error'' \<mapsto> ErrorText msg]"
    | (run) "verify_exclusion_service_ended_section s1 s2 s3 sm start e
        = record_cells (exclusion_cell sm start) (nested (exclusion_rows s1 s2 s3) case_types)
            Map.empty"
      "\<not> falsy (find_exclusion_column s1 ''7 day'')"
      "\<not> falsy (find_exclusion_column s2 ''30 day'')"
      "\<not> falsy (find_exclusion_column s3 ''90 day'')"
    by blast
  then show ?thesis
  proof cases
    case err
    then show ?thesis by (rule_tac x = "[''exclusion_error'' \<mapsto> ErrorText msg]" in exI)
  next
    case run
    from nested_section_ok [of "exclusion_rows s1 s2 s3" "exclusion_cell sm start" start Map.empty,
        OF exclusion_cells_ok [OF run(2,3,4) ct]] run(1)
    show ?thesis by simp
  qed
qed

lemma section_ok_cases:
  assumes "(\<exists>msg. out = Inr [k \<mapsto> ErrorText msg] \<and> A) \<or> (out = run \<and> B)"
    and "B \<Longrightarrow> \<exists>res. run = Inr res"
  shows "\<exists>res. out = Inr res"
  using assms by auto

lemma whereabouts_cells_ok:
  assumes cols: "\<And>off df cols rn. (off, df, cols, rn) \<in> set (report_rows s1 s2 s3 c1 c2 c3) \<Longrightarrow>
        has_column df (change_reason_col cols) \<and> has_column df (case_type_col cols)
        \<and> has_column df p"
    and m: "((off, r), (l, ct, ci)) \<in> set (nested (report_rows s1 s2 s3 c1 c2 c3) case_types)"
  shows "\<exists>c. whereabouts_cell p sm start ((off, r), (l, ct, ci))
                     = Inr (cell_name l (start + off), c)"
proof -
  obtain df cols rn where re: "r = (df, cols, rn)" by (cases r) auto
  from m re have "(off, df, cols, rn) \<in> set (report_rows s1 s2 s3 c1 c2 c3)"
    by (simp add: set_nested)
  from cols [OF this] whereabouts_cell_ok [of df cols p sm start off rn l ct ci] re
  show ?thesis by simp
qed

lemma whereabouts_section_ok:
  assumes cols: "\<And>off df cols rn. (off, df, cols, rn) \<in> set (report_rows s1 s2 s3 c1 c2 c3) \<Longrightarrow>
        has_column df (change_reason_col cols) \<and> has_column df (case_type_col cols)
        \<and> has_column df (find_primary_placement_column s1)"
  shows "\<exists>res. verify_whereabouts_unknown_section s1 s2 s3 c1 c2 c3 sm start e = Inr res"
  by (rule section_ok_cases [OF whereabouts_section_cases])
    (rule nested_section_ok [OF whereabouts_cells_ok [OF cols]])

subsection \<open>Exclusion, data entry\<close>

lemma data_entry_cell_ok:
  assumes "has_column df (case_type_col cols)" "has_column df (change_reason_col cols)"
    "has_column df (compliant_col cols)"
  shows "\<exists>c. data_entry_cell sm start ((off, df, cols, rn), (l, ct, ci))
            = Inr (cell_name l (start + off), c)"
proof -
  from getitem_ok [OF assms(1)] getitem_ok [OF assms(2)] getitem_ok [OF assms(3)]
  obtain a b d where "getitem df (case_type_col cols) = Inr a"
    "getitem df (change_reason_col cols) = Inr b" "getitem df (compliant_col cols) = Inr d"
    by blast
  then show ?thesis by (simp add: data_entry_cell_def Let_def)
qed

lemma data_entry_section_ok:
  assumes cols: "\<And>off df cols rn. (off, df, cols, rn) \<in> set (report_rows s1 s2 s3 c1 c2 c3) \<Longrightarrow>
        has_column df (case_type_col cols) \<and> has_column df (change_reason_col cols)
        \<and> has_column df (compliant_col cols)"
  shows "\<exists>res. verify_exclusion_data_entry_section s1 s2 s3 c1 c2 c3 sm start e = Inr res"
  unfolding verify_exclusion_data_entry_section_def
proof (rule nested_section_ok)
  fix off r l ct ci
  assume m: "((off, r), (l, ct, ci)) \<in> set (nested (report_rows s1 s2 s3 c1 c2 c3) case_types)"
  obtain df cols rn where re: "r = (df, cols, rn)" by (cases r) auto
  from m re have "(off, df, cols, rn) \<in> set (report_rows s1 s2 s3 c1 c2 c3)"
    by (simp add: set_nested)
  from cols [OF this] data_entry_cell_ok [of df cols sm start off rn l ct ci] re
  show "\<exists>c. data_entry_cell sm start ((off, r), (l, ct, ci)) = Inr (cell_name l (start + off), c)"
    by simp
qed

subsection \<open>The single-population sections\<close>

lemma information_cell_ok:
  assumes "has_column df (case_type_col cols)" "has_column df (compliant_col cols)"
  shows "\<exists>c. information_cell df cols sm start (l, ct, ci) = Inr (cell_name l start, c)"
proof -
  from getitem_ok [OF assms(1)] getitem_ok [OF assms(2)]
  obtain a b where "getitem df (case_type_col cols) = Inr a"
    "getitem df (compliant_col cols) = Inr b" by blast
  then show ?thesis by (simp add: information_cell_def Let_def)
qed

lemma single_cells_ok:
  fixes f :: "string \<times> string \<times> nat \<Rightarrow> py_error + string \<times> cell_result"
  assumes "\<And>l ct ci. \<exists>c. f (l, ct, ci) = Inr (cell_name l start, c)"
  shows "\<forall>y \<in> set ts. \<exists>c. f y = Inr ((\<lambda>(l, ct :: string, ci :: nat). cell_name l start) y, c)"
proof
  fix y :: "string \<times> string \<times> nat"
  obtain l ct ci where "y = (l, ct, ci)" by (cases y) auto
  with assms [of l ct ci]
  show "\<exists>c. f y = Inr ((\<lambda>(l, ct :: string, ci :: nat). cell_name l start) y, c)" by simp
qed

lemma single_section_ok:
  fixes f :: "string \<times> string \<times> nat \<Rightarrow> py_error + string \<times> cell_result"
  assumes "\<And>l ct ci. \<exists>c. f (l, ct, ci) = Inr (cell_name l start, c)"
  shows "\<exists>res. record_cells f ts m = Inr res"
proof (rule record_cells_ok)
  from single_cells_ok [OF assms, of ts]
  show "\<forall>y \<in> set ts. \<exists>k c. f y = Inr (k, c)" by blast
qed


lemma information_section_ok:
  assumes "has_column df (case_type_col cols)" "has_column df (compliant_col cols)"
  shows "\<exists>res. verify_information_only_section df cols sm start = Inr res"
  unfolding verify_information_only_section_def
  by (rule single_section_ok) (rule information_cell_ok [OF assms])

lemma kinship_cell_ok:
  assumes "has_column df (case_type_col cols)" "has_column df (change_reason_col cols)"
    "has_column df (compliant_col cols)" "has_column df p"
  shows "\<exists>c. kinship_cell df cols p sm start (l, ct, ci) = Inr (cell_name l start, c)"
proof -
  from getitem_ok [OF assms(1)] getitem_ok [OF assms(2)] getitem_ok [OF assms(3)]
    getitem_ok [OF assms(4)]
  obtain a b d g where "getitem df (case_type_col cols) = Inr a"
    "getitem df (change_reason_col cols) = Inr b" "getitem df (compliant_col cols) = Inr d"
    "getitem df p = Inr g"
    by blast
  then show ?thesis by (simp add: kinship_cell_def Let_def)
qed

lemma kinship_section_cases:
  "(verify_kinship_service_cases_section df cols sm start
      = Inr [''kinship_error'' \<mapsto>
               ErrorText ''Primary Placement Type column not found in Standard 3 Report'']
      \<and> falsy (find_primary_placement_column df))
   \<or> (verify_kinship_service_cases_section df cols sm start
        = record_cells (kinship_cell df cols (find_primary_placement_column df) sm start)
            case_types Map.empty
      \<and> \<not> falsy (find_primary_placement_column df))"
  by (simp add: verify_kinship_service_cases_section_def Let_def)

lemma kinship_section_ok:
  assumes "has_column df (case_type_col cols)" "has_column df (change_reason_col cols)"
    "has_column df (compliant_col cols)"
  shows "\<exists>res. verify_kinship_service_cases_section df cols sm start = Inr res"
proof -
  from kinship_section_cases [of df cols sm start] show ?thesis
  proof
    assume "verify_kinship_service_cases_section df cols sm start
      = Inr [''kinship_error'' \<mapsto>
               ErrorText ''Primary Placement Type column not found in Standard 3 Report'']
      \<and> falsy (find_primary_placement_column df)"
    then show ?thesis by simp
  next
    assume r: "verify_kinship_service_cases_section df cols sm start
        = record_cells (kinship_cell df cols (find_primary_placement_column df) sm start)
            case_types Map.empty
      \<and> \<not> falsy (find_primary_placement_column df)"
    then have "has_column df (find_primary_placement_column df)" by (simp add: placement_found)
    from single_section_ok
      [where f = "kinship_cell df cols (find_primary_placement_column df) sm start"
        and start = start and ts = case_types and m = Map.empty,
        OF kinship_cell_ok [OF assms this]] r
    show ?thesis by simp
  qed
qed


lemma example_placement:
  "find_primary_placement_column example_std1 = Some ''Primary In Care Placement Type''"
  "find_primary_placement_column example_std2 = Some ''Primary In Care Placement Type''"
  "find_primary_placement_column example_std3 = Some ''Primary In Care Placement Type''"
  by code_simp+

lemma example_has_columns:
  "has_column example_std1 (Some ''Case Type'')"
  "has_column example_std2 (Some ''Case Type'')"
  "has_column example_std3 (Some ''Case Type'')"
  "has_column example_std1 (Some ''Incorrect Change Reason'')"
  "has_column example_std2 (Some ''Incorrect Change Reason'')"
  "has_column example_std3 (Some ''Incorrect Change Reason'')"
  "has_column example_std1 (Some ''Primary In Care Placement Type'')"
  "has_column example_std2 (Some ''Primary In Care Placement Type'')"
  "has_column example_std3 (Some ''Primary In Care Placement Type'')"
  "has_column example_std1 (Some ''7 Day Private Visit Compliant'')"
  "has_column example_std2 (Some ''30 Day Private Visit Compliant'')"
  "has_column example_std3 (Some ''90 Day Visit Compliant'')"
  by code_simp+


lemma calculated_at_error_entry:
  "calculated_at (Inr [k' \<mapsto> ErrorText msg]) k = None"
  by (simp add: calculated_at_def cell_at_key_def)

lemma calculated_at_zero:
  assumes "\<And>x c. x \<in> set xs \<Longrightarrow> f x = Inr (K, c) \<Longrightarrow> calculated c = 0"
  shows "calculated_at (record_cells f xs Map.empty) K = None
     \<or> calculated_at (record_cells f xs Map.empty) K = Some 0"
proof (cases "cell_at_key (record_cells f xs Map.empty) K")
  case None
  then show ?thesis by (simp add: calculated_at_def)
next
  case (Some c)
  from cell_at_key_origin [OF Some] obtain x where "x \<in> set xs" "f x = Inr (K, c)" by blast
  from assms [OF this] Some show ?thesis by (simp add: calculated_at_def)
qed

lemma section_cases_zero:
  assumes "(\<exists>msg. out = Inr [ek \<mapsto> ErrorText msg] \<and> A) \<or> (out = run \<and> B)"
    and "calculated_at run K = None \<or> calculated_at run K = Some 0"
  shows "calculated_at out K = None \<or> calculated_at out K = Some 0"
  using assms by (auto simp: calculated_at_error_entry)

lemma B_row_2:
  assumes t: "(l, ct, ci) \<in> set case_types"
    and k: "cell_name ''B'' (start + 2) = cell_name l (start + off)"
  shows "off = 2 \<and> ct = ''child in care''"
proof -
  from case_types_B [OF t] obtain a where la: "l = [a]"
    and cic: "a = CHR ''B'' \<longrightarrow> ct = ''child in care''" by blast
  from k la cell_name_inj [of "CHR ''B''" "start + 2" a "start + off"]
  have "a = CHR ''B''" "start + 2 = start + off" by auto
  with cic show ?thesis by simp
qed

lemma whereabouts_B_zero:
  "calculated_at (verify_whereabouts_unknown_section s1 s2 s3 c1 c2 c3 sm start e)
     (cell_name ''B'' (start + 2)) = None
   \<or> calculated_at (verify_whereabouts_unknown_section s1 s2 s3 c1 c2 c3 sm start e)
     (cell_name ''B'' (start + 2)) = Some 0"
proof -
  let ?K = "cell_name ''B'' (start + 2)"
  let ?p = "find_primary_placement_column s1"
  have run: "calculated_at (record_cells (whereabouts_cell ?p sm start)
        (nested (report_rows s1 s2 s3 c1 c2 c3) case_types) Map.empty) ?K = None
     \<or> calculated_at (record_cells (whereabouts_cell ?p sm start)
        (nested (report_rows s1 s2 s3 c1 c2 c3) case_types) Map.empty) ?K = Some 0"
  proof (rule calculated_at_zero)
    fix x c
    assume x: "x \<in> set (nested (report_rows s1 s2 s3 c1 c2 c3) case_types)"
      and fx: "whereabouts_cell ?p sm start x = Inr (?K, c)"
    obtain off df cols rn l ct ci where xe: "x = ((off, df, cols, rn), (l, ct, ci))"
      by (cases x) auto
    from x xe have r: "(off, df, cols, rn) \<in> set (report_rows s1 s2 s3 c1 c2 c3)"
      and t: "(l, ct, ci) \<in> set case_types" by (auto simp: set_nested)
    from B_row_2 [OF t whereabouts_cell_result(1) [OF fx [unfolded xe]]]
    have "off = 2" "ct = ''child in care''" by auto
    moreover from r \<open>off = 2\<close> have "rn = ''90-day''" by (simp add: report_rows_members)
    ultimately show "calculated c = 0"
      using whereabouts_cell_result(2) [OF fx [unfolded xe]] by simp
  qed
  show ?thesis by (rule section_cases_zero [OF whereabouts_section_cases run])
qed

lemma exclusion_B_zero:
  "calculated_at (verify_exclusion_service_ended_section s1 s2 s3 sm start e)
     (cell_name ''B'' (start + 2)) = None
   \<or> calculated_at (verify_exclusion_service_ended_section s1 s2 s3 sm start e)
     (cell_name ''B'' (start + 2)) = Some 0"
proof -
  let ?K = "cell_name ''B'' (start + 2)"
  have run: "calculated_at (record_cells (exclusion_cell sm start)
        (nested (exclusion_rows s1 s2 s3) case_types) Map.empty) ?K = None
     \<or> calculated_at (record_cells (exclusion_cell sm start)
        (nested (exclusion_rows s1 s2 s3) case_types) Map.empty) ?K = Some 0"
  proof (rule calculated_at_zero)
    fix x c
    assume x: "x \<in> set (nested (exclusion_rows s1 s2 s3) case_types)"
      and fx: "exclusion_cell sm start x = Inr (?K, c)"
    obtain off df ec rn l ct ci where xe: "x = ((off, df, ec, rn), (l, ct, ci))"
      by (cases x) auto
    from x xe have r: "(off, df, ec, rn) \<in> set (exclusion_rows s1 s2 s3)"
      and t: "(l, ct, ci) \<in> set case_types" by (auto simp: set_nested)
    from B_row_2 [OF t exclusion_cell_result(1) [OF fx [unfolded xe]]]
    have "off = 2" "ct = ''child in care''" by auto
    moreover from r \<open>off = 2\<close> have "rn = ''90-day''" by (simp add: exclusion_rows_members)
    ultimately show "calculated c = 0"
      using exclusion_cell_result(2) [OF fx [unfolded xe]] by simp
  qed
  show ?thesis by (rule section_cases_zero [OF exclusion_section_cases run])
qed

lemma data_entry_B_zero:
  "calculated_at (verify_exclusion_data_entry_section s1 s2 s3 c1 c2 c3 sm start e)
     (cell_name ''B'' (start + 2)) = None
   \<or> calculated_at (verify_exclusion_data_entry_section s1 s2 s3 c1 c2 c3 sm start e)
     (cell_name ''B'' (start + 2)) = Some 0"
  unfolding verify_exclusion_data_entry_section_def
proof (rule calculated_at_zero)
  fix x c
  assume x: "x \<in> set (nested (report_rows s1 s2 s3 c1 c2 c3) case_types)"
    and fx: "data_entry_cell sm start x = Inr (cell_name ''B'' (start + 2), c)"
  obtain off df cols rn l ct ci where xe: "x = ((off, df, cols, rn), (l, ct, ci))"
    by (cases x) auto
  from x xe have r: "(off, df, cols, rn) \<in> set (report_rows s1 s2 s3 c1 c2 c3)"
    and t: "(l, ct, ci) \<in> set case_types" by (auto simp: set_nested)
  from B_row_2 [OF t data_entry_cell_result(1) [OF fx [unfolded xe]]]
  have "off = 2" "ct = ''child in care''" by auto
  moreover from r \<open>off = 2\<close> have "rn = ''90-day''" by (simp add: report_rows_members)
  ultimately show "calculated c = 0"
    using data_entry_cell_result(2) [OF fx [unfolded xe]] by simp
qed

lemma getitem_has_column: "getitem df col = Inr xs \<Longrightarrow> has_column df col"
  using getitem_fails [of df col] by (cases "has_column df col") auto

lemma visit_calculated_counts:
  assumes g1: "getitem fdf (case_type_col cols) = Inr ctd"
    and g2: "getitem fdf (compliant_col cols) = Inr cd"
  shows "visit_calculated fdf cols ''90-day'' ''total'' ct =
           Inr (of_nat (count_rows (matches_case_type ct)
                  (\<lambda>s. s \<in> set [''Compliant'', ''Not Compliant'', ''Incomplete'']) ctd cd))"
    and "visit_calculated fdf cols ''90-day'' ''compliant'' ct =
           Inr (of_nat (count_rows (matches_case_type ct) (\<lambda>s. s = ''Compliant'') ctd cd))"
    and "visit_calculated fdf cols ''90-day'' ''non_compliant'' ct =
           Inr (of_nat (count_rows (matches_case_type ct)
                  (\<lambda>s. s \<in> set [''Not Compliant'', ''Incomplete'']) ctd cd))"
    and "visit_calculated fdf cols ''90-day'' ''compliance_rate'' ct =
           Inr (if count_rows (matches_case_type ct)
                     (\<lambda>s. s \<in> set [''Compliant'', ''Not Compliant'', ''Incomplete'']) ctd cd = 0
                then 0
                else of_nat (count_rows (matches_case_type ct) (\<lambda>s. s = ''Compliant'') ctd cd)
                     / of_nat (count_rows (matches_case_type ct)
                         (\<lambda>s. s \<in> set [''Compliant'', ''Not Compliant'', ''Incomplete'']) ctd cd))"
proof -
  have l1: "length (fillna_str ctd) = length (rows fdf)"
    and l2: "length (fillna_str cd) = length (rows fdf)"
    using g1 g2 getitem_length by (auto simp: fillna_str_def)
  have t: "len_df (select_rows fdf (mask_and (case_filter_of ct (fillna_str ctd))
              (isin (fillna_str cd) [''Compliant'', ''Not Compliant'', ''Incomplete''])))
           = count_rows (matches_case_type ct)
               (\<lambda>s. s \<in> set [''Compliant'', ''Not Compliant'', ''Incomplete'']) ctd cd"
    using len_select_two [OF l1 l2] by (simp add: case_filter_of_map isin_def count_rows_def)
  have n: "len_df (select_rows fdf (mask_and (case_filter_of ct (fillna_str ctd))
              (isin (fillna_str cd) [''Not Compliant'', ''Incomplete''])))
           = count_rows (matches_case_type ct)
               (\<lambda>s. s \<in> set [''Not Compliant'', ''Incomplete'']) ctd cd"
    using len_select_two [OF l1 l2] by (simp add: case_filter_of_map isin_def count_rows_def)
  have c: "len_df (select_rows fdf (mask_and (case_filter_of ct (fillna_str ctd))
              (series_eq (fillna_str cd) ''Compliant'')))
           = count_rows (matches_case_type ct) (\<lambda>s. s = ''Compliant'') ctd cd"
    using len_select_two [OF l1 l2] by (simp add: case_filter_of_map series_eq_def count_rows_def)
  show "visit_calculated fdf cols ''90-day'' ''total'' ct =
           Inr (of_nat (count_rows (matches_case_type ct)
                  (\<lambda>s. s \<in> set [''Compliant'', ''Not Compliant'', ''Incomplete'']) ctd cd))"
    using g1 g2 unfolding visit_calculated_def by (simp add: Let_def t)
  show "visit_calculated fdf cols ''90-day'' ''compliant'' ct =
           Inr (of_nat (count_rows (matches_case_type ct) (\<lambda>s. s = ''Compliant'') ctd cd))"
    using g1 g2 unfolding visit_calculated_def by (simp add: Let_def c)
  show "visit_calculated fdf cols ''90-day'' ''non_compliant'' ct =
           Inr (of_nat (count_rows (matches_case_type ct)
                  (\<lambda>s. s \<in> set [''Not Compliant'', ''Incomplete'']) ctd cd))"
    using g1 g2 unfolding visit_calculated_def by (simp add: Let_def n)
  show "visit_calculated fdf cols ''90-day'' ''compliance_rate'' ct =
           Inr (if count_rows (matches_case_type ct)
                     (\<lambda>s. s \<in> set [''Compliant'', ''Not Compliant'', ''Incomplete'']) ctd cd = 0
                then 0
                else of_nat (count_rows (matches_case_type ct) (\<lambda>s. s = ''Compliant'') ctd cd)
                     / of_nat (count_rows (matches_case_type ct)
                         (\<lambda>s. s \<in> set [''Compliant'', ''Not Compliant'', ''Incomplete'']) ctd cd))"
    using g1 g2 unfolding visit_calculated_def by (simp add: Let_def t c py_truediv_def)
qed

lemma visit_cell_calculated:
  "visit_cell fdf cols sm start sec ((off, rt), (l, ct, ci)) = Inr (k, c)
   \<Longrightarrow> visit_calculated fdf cols sec rt ct = Inr (calculated c)"
  by (auto simp: visit_cell_def Let_def make_result_def split: sum.splits)

lemma visit_section_value:
  assumes cr: "getitem df (change_reason_col cols) = Inr crd"
    and ne: "len_df (select_rows df (str_lower_eq (fillna_str crd) ''no'')) \<noteq> 0"
    and g1: "getitem (select_rows df (str_lower_eq (fillna_str crd) ''no'')) (case_type_col cols) = Inr ctd"
    and g2: "getitem (select_rows df (str_lower_eq (fillna_str crd) ''no'')) (compliant_col cols) = Inr cd"
    and r: "(off, rt) \<in> set visit_row_types" and t: "(l, ct, ci) \<in> set case_types"
    and v: "visit_calculated (select_rows df (str_lower_eq (fillna_str crd) ''no'')) cols sec rt ct = Inr v"
  shows "calculated_at (verify_visit_section df cols sm start e sec) (cell_name l (start + off)) = Some v"
proof -
  let ?fdf = "select_rows df (str_lower_eq (fillna_str crd) ''no'')"
  from getitem_has_column [OF g1] getitem_has_column [OF g2]
  have c1: "has_column df (case_type_col cols)" and c2: "has_column df (compliant_col cols)"
    by simp_all
  then have c1': "has_column ?fdf (case_type_col cols)" and c2': "has_column ?fdf (compliant_col cols)"
    by simp_all
  from visit_cell_ok [OF c1' c2', of sm start sec off rt l ct ci] obtain c where
    c: "visit_cell ?fdf cols sm start sec ((off, rt), (l, ct, ci)) = Inr (cell_name l (start + off), c)"
    by blast
  from visit_cell_calculated [OF c] v have "calculated c = v" by simp
  with visit_section_lookup [where e = e, OF cr ne c1 c2 r t c] show ?thesis
    by (simp add: calculated_at_def)
qed

lemma calculated_at_Some_zero:
  assumes "cell_at_key out K = Some c"
    and "calculated_at out K = None \<or> calculated_at out K = Some 0"
  shows "calculated_at out K = Some 0"
  using assms by (auto simp: calculated_at_def)

lemma B_case_type: "(''B'', ''child in care'', 1) \<in> set case_types"
  by (simp add: case_types_def)

lemma whereabouts_B_recorded:
  assumes found: "\<not> falsy (find_primary_placement_column s1)"
      "\<not> falsy (find_primary_placement_column s2)" "\<not> falsy (find_primary_placement_column s3)"
    and cols: "\<And>off df cols rn. (off, df, cols, rn) \<in> set (report_rows s1 s2 s3 c1 c2 c3) \<Longrightarrow>
        has_column df (change_reason_col cols) \<and> has_column df (case_type_col cols)
        \<and> has_column df (find_primary_placement_column s1)"
  shows "calculated_at (verify_whereabouts_unknown_section s1 s2 s3 c1 c2 c3 sm start e)
           (cell_name ''B'' (start + 2)) = Some 0"
proof -
  have r: "(2, s3, c3, ''90-day'') \<in> set (report_rows s1 s2 s3 c1 c2 c3)"
    by (simp add: report_rows_members)
  from cols [OF r] have "has_column s3 (change_reason_col c3)" "has_column s3 (case_type_col c3)"
    "has_column s3 (find_primary_placement_column s1)" by simp_all
  from whereabouts_cell_ok [OF this, of sm start 2 "''90-day''" "''B''" "''child in care''" 1]
  obtain c where c: "whereabouts_cell (find_primary_placement_column s1) sm start
       ((2, s3, c3, ''90-day''), (''B'', ''child in care'', 1)) = Inr (cell_name ''B'' (start + 2), c)"
    by blast
  have "cell_at_key (verify_whereabouts_unknown_section s1 s2 s3 c1 c2 c3 sm start e)
           (cell_name ''B'' (start + 2)) = Some c"
    by (rule whereabouts_section_lookup [where e = e, OF found _ r B_case_type c])
      (rule cols, assumption)
  then show ?thesis by (rule calculated_at_Some_zero) (rule whereabouts_B_zero)
qed

lemma exclusion_B_recorded:
  assumes found: "\<not> falsy (find_exclusion_column s1 ''7 day'')"
      "\<not> falsy (find_exclusion_column s2 ''30 day'')" "\<not> falsy (find_exclusion_column s3 ''90 day'')"
    and ct: "has_column s1 (find_case_type_column s1)" "has_column s2 (find_case_type_column s2)"
      "has_column s3 (find_case_type_column s3)"
  shows "calculated_at (verify_exclusion_service_ended_section s1 s2 s3 sm start e)
           (cell_name ''B'' (start + 2)) = Some 0"
proof -
  have r: "(2, s3, find_exclusion_column s3 ''90 day'', ''90-day'') \<in> set (exclusion_rows s1 s2 s3)"
    by (simp add: exclusion_rows_members)
  from exclusion_cell_ok [OF ct(3) exclusion_found [OF found(3)],
      of sm start 2 "''90-day''" "''B''" "''child in care''" 1]
  obtain c where c: "exclusion_cell sm start
       ((2, s3, find_exclusion_column s3 ''90 day'', ''90-day''), (''B'', ''child in care'', 1))
       = Inr (cell_name ''B'' (start + 2), c)"
    by blast
  from exclusion_section_lookup [where e = e, OF found ct r B_case_type c]
  show ?thesis by (rule calculated_at_Some_zero) (rule exclusion_B_zero)
qed

lemma data_entry_cells_ok:
  assumes cols: "\<And>off df cols rn. (off, df, cols, rn) \<in> set (report_rows s1 s2 s3 c1 c2 c3) \<Longrightarrow>
        has_column df (case_type_col cols) \<and> has_column df (change_reason_col cols)
        \<and> has_column df (compliant_col cols)"
    and m: "((off, r), (l, ct, ci)) \<in> set (nested (report_rows s1 s2 s3 c1 c2 c3) case_types)"
  shows "\<exists>c. data_entry_cell sm start ((off, r), (l, ct, ci)) = Inr (cell_name l (start + off), c)"
proof -
  obtain df cols rn where re: "r = (df, cols, rn)" by (cases r) auto
  from m re have "(off, df, cols, rn) \<in> set (report_rows s1 s2 s3 c1 c2 c3)"
    by (simp add: set_nested)
  from cols [OF this] data_entry_cell_ok [of df cols sm start off rn l ct ci] re
  show ?thesis by simp
qed

lemma data_entry_section_lookup:
  assumes cols: "\<And>off df cols rn. (off, df, cols, rn) \<in> set (report_rows s1 s2 s3 c1 c2 c3) \<Longrightarrow>
        has_column df (case_type_col cols) \<and> has_column df (change_reason_col cols)
        \<and> has_column df (compliant_col cols)"
    and r: "(off, df, cols, rn) \<in> set (report_rows s1 s2 s3 c1 c2 c3)"
    and t: "(l, ct, ci) \<in> set case_types"
    and v: "data_entry_cell sm start ((off, df, cols, rn), (l, ct, ci)) = Inr (k, c)"
  shows "cell_at_key (verify_exclusion_data_entry_section s1 s2 s3 c1 c2 c3 sm start e)
           (cell_name l (start + off)) = Some c"
proof -
  have x: "((off, df, cols, rn), (l, ct, ci))
      \<in> set (nested (report_rows s1 s2 s3 c1 c2 c3) case_types)"
    using r t by (simp add: set_nested)
  have ok: "\<And>off r l ct ci.
      ((off, r), (l, ct, ci)) \<in> set (nested (report_rows s1 s2 s3 c1 c2 c3) case_types) \<Longrightarrow>
      \<exists>c. data_entry_cell sm start ((off, r), (l, ct, ci)) = Inr (cell_name l (start + off), c)"
    by (rule data_entry_cells_ok) (rule cols, assumption)
  from nested_section_lookup [of "report_rows s1 s2 s3 c1 c2 c3" "data_entry_cell sm start" start
      off "(df, cols, rn)" l ct ci k c, OF report_rows_fun ok x v]
  show ?thesis by (simp add: verify_exclusion_data_entry_section_def)
qed

lemma data_entry_B_recorded:
  assumes cols: "\<And>off df cols rn. (off, df, cols, rn) \<in> set (report_rows s1 s2 s3 c1 c2 c3) \<Longrightarrow>
        has_column df (case_type_col cols) \<and> has_column df (change_reason_col cols)
        \<and> has_column df (compliant_col cols)"
  shows "calculated_at (verify_exclusion_data_entry_section s1 s2 s3 c1 c2 c3 sm start e)
           (cell_name ''B'' (start + 2)) = Some 0"
proof -
  have r: "(2, s3, c3, ''90-day'') \<in> set (report_rows s1 s2 s3 c1 c2 c3)"
    by (simp add: report_rows_members)
  from cols [OF r] have "has_column s3 (case_type_col c3)" "has_column s3 (change_reason_col c3)"
    "has_column s3 (compliant_col c3)" by simp_all
  from data_entry_cell_ok [OF this, of sm start 2 "''90-day''" "''B''" "''child in care''" 1]
  obtain c where c: "data_entry_cell sm start
       ((2, s3, c3, ''90-day''), (''B'', ''child in care'', 1)) = Inr (cell_name ''B'' (start + 2), c)"
    by blast
  have "cell_at_key (verify_exclusion_data_entry_section s1 s2 s3 c1 c2 c3 sm start e)
           (cell_name ''B'' (start + 2)) = Some c"
    by (rule data_entry_section_lookup [where e = e, OF _ r B_case_type c])
      (rule cols, assumption)
  then show ?thesis by (rule calculated_at_Some_zero) (rule data_entry_B_zero)
qed

text \<open>
  Claim C2, as amended. In the three sections that tally exclusions over the three reports
  (whereabouts unknown, exclusion for service ended, exclusion for data entry) the value
  calculated for the child-in-care column of the 90-day row, the cell at column B of the
  third row of the section, is the constant 0 whatever rows the detail sheets hold. The
  cell is recorded with the value 0 as soon as the columns that the section reads are
  present in the three reports; in every other case the section has no such cell, and
  never one with another value. The 90-day visit section has no such constant: its four
  child-in-care cells are computed from the rows whose change reason is ``no'', as the
  number of child-in-care rows with a status among Compliant, Not Compliant and
  Incomplete (total), with the status Compliant (compliant), with a status among Not
  Compliant and Incomplete (non-compliant), and as the ratio of the second to the first,
  or 0 when the first is 0 (compliance rate).
\<close>

theorem child_in_care_zero_in_90_day_exclusion_rows:
  "(\<not> falsy (find_primary_placement_column s1) \<and> \<not> falsy (find_primary_placement_column s2)
      \<and> \<not> falsy (find_primary_placement_column s3)
      \<and> has_columns s1 [change_reason_col c1, case_type_col c1]
      \<and> has_columns s2 [change_reason_col c2, case_type_col c2, find_primary_placement_column s1]
      \<and> has_columns s3 [change_reason_col c3, case_type_col c3, find_primary_placement_column s1]
    \<longrightarrow> calculated_at (verify_whereabouts_unknown_section s1 s2 s3 c1 c2 c3 sm start e)
          (cell_name ''B'' (start + 2)) = Some 0)
   \<and> (calculated_at (verify_whereabouts_unknown_section s1 s2 s3 c1 c2 c3 sm start e)
          (cell_name ''B'' (start + 2)) = None
      \<or> calculated_at (verify_whereabouts_unknown_section s1 s2 s3 c1 c2 c3 sm start e)
          (cell_name ''B'' (start + 2)) = Some 0)
   \<and> (\<not> falsy (find_exclusion_column s1 ''7 day'') \<and> \<not> falsy (find_exclusion_column s2 ''30 day'')
      \<and> \<not> falsy (find_exclusion_column s3 ''90 day'')
      \<and> has_columns s1 [find_case_type_column s1] \<and> has_columns s2 [find_case_type_column s2]
      \<and> has_columns s3 [find_case_type_column s3]
    \<longrightarrow> calculated_at (verify_exclusion_service_ended_section s1 s2 s3 sm start e)
          (cell_name ''B'' (start + 2)) = Some 0)
   \<and> (calculated_at (verify_exclusion_service_ended_section s1 s2 s3 sm start e)
          (cell_name ''B'' (start + 2)) = None
      \<or> calculated_at (verify_exclusion_service_ended_section s1 s2 s3 sm start e)
          (cell_name ''B'' (start + 2)) = Some 0)
   \<and> (has_columns s1 [case_type_col c1, change_reason_col c1, compliant_col c1]
      \<and> has_columns s2 [case_type_col c2, change_reason_col c2, compliant_col c2]
      \<and> has_columns s3 [case_type_col c3, change_reason_col c3, compliant_col c3]
    \<longrightarrow> calculated_at (verify_exclusion_data_entry_section s1 s2 s3 c1 c2 c3 sm start e)
          (cell_name ''B'' (start + 2)) = Some 0)
   \<and> (calculated_at (verify_exclusion_data_entry_section s1 s2 s3 c1 c2 c3 sm start e)
          (cell_name ''B'' (start + 2)) = None
      \<or> calculated_at (verify_exclusion_data_entry_section s1 s2 s3 c1 c2 c3 sm start e)
          (cell_name ''B'' (start + 2)) = Some 0)
   \<and> (getitem s3 (change_reason_col c3) = Inr crd
      \<and> len_df (select_rows s3 (str_lower_eq (fillna_str crd) ''no'')) \<noteq> 0
      \<and> getitem (select_rows s3 (str_lower_eq (fillna_str crd) ''no'')) (case_type_col c3) = Inr ctd
      \<and> getitem (select_rows s3 (str_lower_eq (fillna_str crd) ''no'')) (compliant_col c3) = Inr cd
    \<longrightarrow> calculated_at (verify_visit_section s3 c3 sm start e ''90-day'') (cell_name ''B'' (start + 0))
          = Some (of_nat (count_rows (matches_case_type ''child in care'')
                    (\<lambda>s. s \<in> set [''Compliant'', ''Not Compliant'', ''Incomplete'']) ctd cd))
      \<and> calculated_at (verify_visit_section s3 c3 sm start e ''90-day'') (cell_name ''B'' (start + 1))
          = Some (of_nat (count_rows (matches_case_type ''child in care'')
                    (\<lambda>s. s = ''Compliant'') ctd cd))
      \<and> calculated_at (verify_visit_section s3 c3 sm start e ''90-day'') (cell_name ''B'' (start + 2))
          = Some (of_nat (count_rows (matches_case_type ''child in care'')
                    (\<lambda>s. s \<in> set [''Not Compliant'', ''Incomplete'']) ctd cd))
      \<and> calculated_at (verify_visit_section s3 c3 sm start e ''90-day'') (cell_name ''B'' (start + 3))
          = Some (if count_rows (matches_case_type ''child in care'')
                       (\<lambda>s. s \<in> set [''Compliant'', ''Not Compliant'', ''Incomplete'']) ctd cd = 0
                  then 0
                  else of_nat (count_rows (matches_case_type ''child in care'')
                                 (\<lambda>s. s = ''Compliant'') ctd cd)
                       / of_nat (count_rows (matches_case_type ''child in care'')
                           (\<lambda>s. s \<in> set [''Compliant'', ''Not Compliant'', ''Incomplete''])
                           ctd cd)))"
proof (intro conjI impI)
  assume a: "\<not> falsy (find_primary_placement_column s1) \<and> \<not> falsy (find_primary_placement_column s2)
      \<and> \<not> falsy (find_primary_placement_column s3)
      \<and> has_columns s1 [change_reason_col c1, case_type_col c1]
      \<and> has_columns s2 [change_reason_col c2, case_type_col c2, find_primary_placement_column s1]
      \<and> has_columns s3 [change_reason_col c3, case_type_col c3, find_primary_placement_column s1]"
  then have found: "\<not> falsy (find_primary_placement_column s1)"
    "\<not> falsy (find_primary_placement_column s2)" "\<not> falsy (find_primary_placement_column s3)"
    by simp_all
  have cols: "\<And>off df cols rn. (off, df, cols, rn) \<in> set (report_rows s1 s2 s3 c1 c2 c3) \<Longrightarrow>
        has_column df (change_reason_col cols) \<and> has_column df (case_type_col cols)
        \<and> has_column df (find_primary_placement_column s1)"
    unfolding report_rows_members using a placement_found [OF found(1)]
    by (auto simp: has_columns_def)
  show "calculated_at (verify_whereabouts_unknown_section s1 s2 s3 c1 c2 c3 sm start e)
          (cell_name ''B'' (start + 2)) = Some 0"
    by (rule whereabouts_B_recorded [OF found]) (rule cols, assumption)
next
  show "calculated_at (verify_whereabouts_unknown_section s1 s2 s3 c1 c2 c3 sm start e)
          (cell_name ''B'' (start + 2)) = None
      \<or> calculated_at (verify_whereabouts_unknown_section s1 s2 s3 c1 c2 c3 sm start e)
          (cell_name ''B'' (start + 2)) = Some 0"
    by (rule whereabouts_B_zero)
next
  assume "\<not> falsy (find_exclusion_column s1 ''7 day'') \<and> \<not> falsy (find_exclusion_column s2 ''30 day'')
      \<and> \<not> falsy (find_exclusion_column s3 ''90 day'')
      \<and> has_columns s1 [find_case_type_column s1] \<and> has_columns s2 [find_case_type_column s2]
      \<and> has_columns s3 [find_case_type_column s3]"
  then have found: "\<not> falsy (find_exclusion_column s1 ''7 day'')"
      "\<not> falsy (find_exclusion_column s2 ''30 day'')" "\<not> falsy (find_exclusion_column s3 ''90 day'')"
    and ct: "has_column s1 (find_case_type_column s1)" "has_column s2 (find_case_type_column s2)"
      "has_column s3 (find_case_type_column s3)"
    by (simp_all add: has_columns_def)
  show "calculated_at (verify_exclusion_service_ended_section s1 s2 s3 sm start e)
          (cell_name ''B'' (start + 2)) = Some 0"
    by (rule exclusion_B_recorded [OF found ct])
next
  show "calculated_at (verify_exclusion_service_ended_section s1 s2 s3 sm start e)
          (cell_name ''B'' (start + 2)) = None
      \<or> calculated_at (verify_exclusion_service_ended_section s1 s2 s3 sm start e)
          (cell_name ''B'' (start + 2)) = Some 0"
    by (rule exclusion_B_zero)
next
  assume a: "has_columns s1 [case_type_col c1, change_reason_col c1, compliant_col c1]
      \<and> has_columns s2 [case_type_col c2, change_reason_col c2, compliant_col c2]
      \<and> has_columns s3 [case_type_col c3, change_reason_col c3, compliant_col c3]"
  have cols: "\<And>off df cols rn. (off, df, cols, rn) \<in> set (report_rows s1 s2 s3 c1 c2 c3) \<Longrightarrow>
        has_column df (case_type_col cols) \<and> has_column df (change_reason_col cols)
        \<and> has_column df (compliant_col cols)"
    unfolding report_rows_members using a by (auto simp: has_columns_def)
  show "calculated_at (verify_exclusion_data_entry_section s1 s2 s3 c1 c2 c3 sm start e)
          (cell_name ''B'' (start + 2)) = Some 0"
    by (rule data_entry_B_recorded) (rule cols, assumption)
next
  show "calculated_at (verify_exclusion_data_entry_section s1 s2 s3 c1 c2 c3 sm start e)
          (cell_name ''B'' (start + 2)) = None
      \<or> calculated_at (verify_exclusion_data_entry_section s1 s2 s3 c1 c2 c3 sm start e)
          (cell_name ''B'' (start + 2)) = Some 0"
    by (rule data_entry_B_zero)
next
  assume a: "getitem s3 (change_reason_col c3) = Inr crd
      \<and> len_df (select_rows s3 (str_lower_eq (fillna_str crd) ''no'')) \<noteq> 0
      \<and> getitem (select_rows s3 (str_lower_eq (fillna_str crd) ''no'')) (case_type_col c3) = Inr ctd
      \<and> getitem (select_rows s3 (str_lower_eq (fillna_str crd) ''no'')) (compliant_col c3) = Inr cd"
  then have cr: "getitem s3 (change_reason_col c3) = Inr crd"
    and ne: "len_df (select_rows s3 (str_lower_eq (fillna_str crd) ''no'')) \<noteq> 0"
    and g1: "getitem (select_rows s3 (str_lower_eq (fillna_str crd) ''no'')) (case_type_col c3) = Inr ctd"
    and g2: "getitem (select_rows s3 (str_lower_eq (fillna_str crd) ''no'')) (compliant_col c3) = Inr cd"
    by simp_all
  have r: "(0, ''total'') \<in> set visit_row_types" "(1, ''compliant'') \<in> set visit_row_types"
    "(2, ''non_compliant'') \<in> set visit_row_types" "(3, ''compliance_rate'') \<in> set visit_row_types"
    by (simp_all add: visit_row_types_def)
  note v = visit_calculated_counts [OF g1 g2, of "''child in care''"]
  note look = visit_section_value [where e = e and sm = sm and start = start, OF cr ne g1 g2 _ B_case_type]
  show "calculated_at (verify_visit_section s3 c3 sm start e ''90-day'') (cell_name ''B'' (start + 0))
          = Some (of_nat (count_rows (matches_case_type ''child in care'')
                    (\<lambda>s. s \<in> set [''Compliant'', ''Not Compliant'', ''Incomplete'']) ctd cd))"
    by (rule look [OF r(1) v(1)])
  show "calculated_at (verify_visit_section s3 c3 sm start e ''90-day'') (cell_name ''B'' (start + 1))
          = Some (of_nat (count_rows (matches_case_type ''child in care'')
                    (\<lambda>s. s = ''Compliant'') ctd cd))"
    by (rule look [OF r(2) v(2)])
  show "calculated_at (verify_visit_section s3 c3 sm start e ''90-day'') (cell_name ''B'' (start + 2))
          = Some (of_nat (count_rows (matches_case_type ''child in care'')
                    (\<lambda>s. s \<in> set [''Not Compliant'', ''Incomplete'']) ctd cd))"
    by (rule look [OF r(3) v(3)])
  show "calculated_at (verify_visit_section s3 c3 sm start e ''90-day'') (cell_name ''B'' (start + 3))
          = Some (if count_rows (matches_case_type ''child in care'')
                       (\<lambda>s. s \<in> set [''Compliant'', ''Not Compliant'', ''Incomplete'']) ctd cd = 0
                  then 0
                  else of_nat (count_rows (matches_case_type ''child in care'')
                                 (\<lambda>s. s = ''Compliant'') ctd cd)
                       / of_nat (count_rows (matches_case_type ''child in care'')
                           (\<lambda>s. s \<in> set [''Compliant'', ''Not Compliant'', ''Incomplete''])
                           ctd cd))"
    by (rule look [OF r(4) v(4)])
qed

text \<open>
  On the second set of sheets every report holds the same rows. The three tallies give 0
  in the 90-day row (B21, B26, B31) although the 7-day row over the same rows gives 5, 5
  and 3 (B19, B24, B29); the 90-day visit section gives 7, 5, 2 and 5/7 (B13 to B16).
\<close>

theorem child_in_care_zero_witness:
  "calculated_at
     (verify_whereabouts_unknown_section mixed_std1 mixed_std2 mixed_std3
        (example_columns ''7 Day Private Visit Compliant'')
        (example_columns ''30 Day Private Visit Compliant'')
        (example_columns ''90 Day Visit Compliant'') example_summary 18 20)
     (cell_name ''B'' (18 + 2)) = Some 0
   \<and> calculated_at
     (verify_whereabouts_unknown_section mixed_std1 mixed_std2 mixed_std3
        (example_columns ''7 Day Private Visit Compliant'')
        (example_columns ''30 Day Private Visit Compliant'')
        (example_columns ''90 Day Visit Compliant'') example_summary 18 20)
     (cell_name ''B'' (18 + 0)) = Some 5
   \<and> calculated_at
     (verify_exclusion_service_ended_section mixed_std1 mixed_std2 mixed_std3 example_summary 23 25)
     (cell_name ''B'' (23 + 2)) = Some 0
   \<and> calculated_at
     (verify_exclusion_service_ended_section mixed_std1 mixed_std2 mixed_std3 example_summary 23 25)
     (cell_name ''B'' (23 + 0)) = Some 5
   \<and> calculated_at
     (verify_exclusion_data_entry_section mixed_std1 mixed_std2 mixed_std3
        (example_columns ''7 Day Private Visit Compliant'')
        (example_columns ''30 Day Private Visit Compliant'')
        (example_columns ''90 Day Visit Compliant'') example_summary 28 30)
     (cell_name ''B'' (28 + 2)) = Some 0
   \<and> calculated_at
     (verify_exclusion_data_entry_section mixed_std1 mixed_std2 mixed_std3
        (example_columns ''7 Day Private Visit Compliant'')
        (example_columns ''30 Day Private Visit Compliant'')
        (example_columns ''90 Day Visit Compliant'') example_summary 28 30)
     (cell_name ''B'' (28 + 0)) = Some 3
   \<and> calculated_at
     (verify_visit_section mixed_std3 (example_columns ''90 Day Visit Compliant'')
        example_summary 12 15 ''90-day'')
     (cell_name ''B'' (12 + 0)) = Some 7
   \<and> calculated_at
     (verify_visit_section mixed_std3 (example_columns ''90 Day Visit Compliant'')
        example_summary 12 15 ''90-day'')
     (cell_name ''B'' (12 + 1)) = Some 5
   \<and> calculated_at
     (verify_visit_section mixed_std3 (example_columns ''90 Day Visit Compliant'')
        example_summary 12 15 ''90-day'')
     (cell_name ''B'' (12 + 2)) = Some 2
   \<and> calculated_at
     (verify_visit_section mixed_std3 (example_columns ''90 Day Visit Compliant'')
        example_summary 12 15 ''90-day'')
     (cell_name ''B'' (12 + 3)) = Some (5 / 7)
   \<and> rows mixed_std1 = rows mixed_std3 \<and> rows mixed_std2 = rows mixed_std3
   \<and> [cell_name ''B'' (18 + 2), cell_name ''B'' (23 + 2), cell_name ''B'' (28 + 2)]
       = [''B21'', ''B26'', ''B31'']"
proof -
  let ?c1 = "example_columns ''7 Day Private Visit Compliant''"
  let ?c2 = "example_columns ''30 Day Private Visit Compliant''"
  let ?c3 = "example_columns ''90 Day Visit Compliant''"
  let ?crd = "replicate 7 (Some ''No'') @ replicate 3 (Some ''Yes'') @ [Some ''No'']"
  let ?ctd = "replicate 7 (Some ''Child in Care'') @ [Some ''Adoption'']"
  let ?cd = "replicate 5 (Some ''Compliant'') @ replicate 2 (Some ''Incomplete'')
             @ [Some ''Not Compliant'']"
  let ?W = "verify_whereabouts_unknown_section mixed_std1 mixed_std2 mixed_std3
        ?c1 ?c2 ?c3 example_summary 18 20"
  let ?E = "verify_exclusion_service_ended_section mixed_std1 mixed_std2 mixed_std3
        example_summary 23 25"
  let ?D = "verify_exclusion_data_entry_section mixed_std1 mixed_std2 mixed_std3
        ?c1 ?c2 ?c3 example_summary 28 30"
  have pf: "\<not> falsy (find_primary_placement_column mixed_std1)"
    "\<not> falsy (find_primary_placement_column mixed_std2)"
    "\<not> falsy (find_primary_placement_column mixed_std3)"
    by code_simp+
  have pc: "has_columns mixed_std1 [change_reason_col ?c1, case_type_col ?c1]"
    "has_columns mixed_std2 [change_reason_col ?c2, case_type_col ?c2,
       find_primary_placement_column mixed_std1]"
    "has_columns mixed_std3 [change_reason_col ?c3, case_type_col ?c3,
       find_primary_placement_column mixed_std1]"
    by code_simp+
  have ef: "\<not> falsy (find_exclusion_column mixed_std1 ''7 day'')"
    "\<not> falsy (find_exclusion_column mixed_std2 ''30 day'')"
    "\<not> falsy (find_exclusion_column mixed_std3 ''90 day'')"
    by code_simp+
  have ec: "has_columns mixed_std1 [find_case_type_column mixed_std1]"
    "has_columns mixed_std2 [find_case_type_column mixed_std2]"
    "has_columns mixed_std3 [find_case_type_column mixed_std3]"
    by code_simp+
  have dc: "has_columns mixed_std1 [case_type_col ?c1, change_reason_col ?c1, compliant_col ?c1]"
    "has_columns mixed_std2 [case_type_col ?c2, change_reason_col ?c2, compliant_col ?c2]"
    "has_columns mixed_std3 [case_type_col ?c3, change_reason_col ?c3, compliant_col ?c3]"
    by code_simp+
  have cr: "getitem mixed_std3 (change_reason_col ?c3) = Inr ?crd" by code_simp
  have ne: "len_df (select_rows mixed_std3 (str_lower_eq (fillna_str ?crd) ''no'')) \<noteq> 0"
    by code_simp
  have g1: "getitem (select_rows mixed_std3 (str_lower_eq (fillna_str ?crd) ''no''))
              (case_type_col ?c3) = Inr ?ctd" by code_simp
  have g2: "getitem (select_rows mixed_std3 (str_lower_eq (fillna_str ?crd) ''no''))
              (compliant_col ?c3) = Inr ?cd" by code_simp
  note T = child_in_care_zero_in_90_day_exclusion_rows
    [of mixed_std1 mixed_std2 mixed_std3 ?c1 ?c2 ?c3]
  have w: "calculated_at ?W (cell_name ''B'' (18 + 2)) = Some 0"
    using T [where sm = example_summary and start = 18 and e = 20, THEN conjunct1] pf pc
    by (simp only: simp_thms)
  have x: "calculated_at ?E (cell_name ''B'' (23 + 2)) = Some 0"
    using T [where sm = example_summary and start = 23 and e = 25,
        THEN conjunct2, THEN conjunct2, THEN conjunct1] ef ec
    by (simp only: simp_thms)
  have d: "calculated_at ?D (cell_name ''B'' (28 + 2)) = Some 0"
    using T [where sm = example_summary and start = 28 and e = 30,
        THEN conjunct2, THEN conjunct2, THEN conjunct2, THEN conjunct2, THEN conjunct1] dc
    by (simp only: simp_thms)
  have n: "count_rows (matches_case_type ''child in care'')
             (\<lambda>s. s \<in> set [''Compliant'', ''Not Compliant'', ''Incomplete'']) ?ctd ?cd = 7"
    "count_rows (matches_case_type ''child in care'') (\<lambda>s. s = ''Compliant'') ?ctd ?cd = 5"
    "count_rows (matches_case_type ''child in care'')
             (\<lambda>s. s \<in> set [''Not Compliant'', ''Incomplete'']) ?ctd ?cd = 2"
    by code_simp+
  have v: "calculated_at (verify_visit_section mixed_std3 ?c3 example_summary 12 15 ''90-day'')
        (cell_name ''B'' (12 + 0)) = Some 7
      \<and> calculated_at (verify_visit_section mixed_std3 ?c3 example_summary 12 15 ''90-day'')
        (cell_name ''B'' (12 + 1)) = Some 5
      \<and> calculated_at (verify_visit_section mixed_std3 ?c3 example_summary 12 15 ''90-day'')
        (cell_name ''B'' (12 + 2)) = Some 2
      \<and> calculated_at (verify_visit_section mixed_std3 ?c3 example_summary 12 15 ''90-day'')
        (cell_name ''B'' (12 + 3)) = Some (5 / 7)"
    using T [where sm = example_summary and start = 12 and e = 15 and crd = ?crd
          and ctd = ?ctd and cd = ?cd,
        THEN conjunct2, THEN conjunct2, THEN conjunct2, THEN conjunct2, THEN conjunct2,
        THEN conjunct2, rule_format, OF conjI [OF cr conjI [OF ne conjI [OF g1 g2]]]]
    unfolding n by simp
  have cols_w: "\<And>off df cols rn.
      (off, df, cols, rn) \<in> set (report_rows mixed_std1 mixed_std2 mixed_std3 ?c1 ?c2 ?c3) \<Longrightarrow>
        has_column df (change_reason_col cols) \<and> has_column df (case_type_col cols)
        \<and> has_column df (find_primary_placement_column mixed_std1)"
    unfolding report_rows_members using pc placement_found [OF pf(1)]
    by (auto simp: has_columns_def)
  have cols_d: "\<And>off df cols rn.
      (off, df, cols, rn) \<in> set (report_rows mixed_std1 mixed_std2 mixed_std3 ?c1 ?c2 ?c3) \<Longrightarrow>
        has_column df (case_type_col cols) \<and> has_column df (change_reason_col cols)
        \<and> has_column df (compliant_col cols)"
    unfolding report_rows_members using dc by (auto simp: has_columns_def)
  have r1: "(0, mixed_std1, ?c1, ''7-day'')
      \<in> set (report_rows mixed_std1 mixed_std2 mixed_std3 ?c1 ?c2 ?c3)"
    by (simp add: report_rows_members)
  have e1: "(0, mixed_std1, find_exclusion_column mixed_std1 ''7 day'', ''7-day'')
      \<in> set (exclusion_rows mixed_std1 mixed_std2 mixed_std3)"
    by (simp add: exclusion_rows_members)
  have ect: "has_column mixed_std1 (find_case_type_column mixed_std1)"
    "has_column mixed_std2 (find_case_type_column mixed_std2)"
    "has_column mixed_std3 (find_case_type_column mixed_std3)"
    using ec by (simp_all add: has_columns_def)
  have v1: "whereabouts_cell (find_primary_placement_column mixed_std1) example_summary 18
      ((0, mixed_std1, ?c1, ''7-day''), (''B'', ''child in care'', 1))
      = Inr (''B19'', make_result 5 (Some 0) False ''whereabouts-unknown'' ''7-day'' (Some ''7-day''))"
    by code_simp
  have v2: "exclusion_cell example_summary 23
      ((0, mixed_std1, find_exclusion_column mixed_std1 ''7 day'', ''7-day''),
       (''B'', ''child in care'', 1))
      = Inr (''B24'', make_result 5 (Some (19 / 10)) False ''exclusion-service-ended'' ''7-day''
               (Some ''7-day''))"
    by code_simp
  have v3: "data_entry_cell example_summary 28
      ((0, mixed_std1, ?c1, ''7-day''), (''B'', ''child in care'', 1))
      = Inr (''B29'', make_result 3 (Some 0) False ''exclusion-data-entry'' ''7-day'' (Some ''7-day''))"
    by code_simp
  have w1: "calculated_at ?W (cell_name ''B'' (18 + 0)) = Some 5"
    using whereabouts_section_lookup [where e = 20, OF pf cols_w r1 B_case_type v1]
    by (simp add: calculated_at_def make_result_def)
  have x1: "calculated_at ?E (cell_name ''B'' (23 + 0)) = Some 5"
    using exclusion_section_lookup [where e = 25, OF ef ect e1 B_case_type v2]
    by (simp add: calculated_at_def make_result_def)
  have d1: "calculated_at ?D (cell_name ''B'' (28 + 0)) = Some 3"
    using data_entry_section_lookup [where e = 30, OF cols_d r1 B_case_type v3]
    by (simp add: calculated_at_def make_result_def)
  have rs: "rows mixed_std1 = rows mixed_std3" "rows mixed_std2 = rows mixed_std3"
    by (simp_all add: mixed_std1_def mixed_std2_def mixed_std3_def)
  have k: "[cell_name ''B'' (18 + 2), cell_name ''B'' (23 + 2), cell_name ''B'' (28 + 2)]
       = [''B21'', ''B26'', ''B31'']" by code_simp
  from w w1 x x1 d d1 v rs k show ?thesis by (simp only: simp_thms)
qed

text \<open>
  The constant does not extend to the 90-day visit section: on a 90-day sheet with five
  child-in-care rows whose change reason is ``No'', the child-in-care total of the 90-day
  visit section (cell B13) is calculated as 5.
\<close>

theorem child_in_care_counted_in_90_day_visits:
  "calculated_at
     (verify_visit_section example_std3 (example_columns ''90 Day Visit Compliant'')
        example_summary 12 15 ''90-day'')
     (cell_name ''B'' (12 + 0)) = Some 5
   \<and> cell_name ''B'' (12 + 0) = ''B13''"
proof -
  let ?c3 = "example_columns ''90 Day Visit Compliant''"
  have cr: "getitem example_std3 (change_reason_col ?c3) = Inr (replicate 6 (Some ''No''))"
    by code_simp
  have ne: "len_df (select_rows example_std3
      (str_lower_eq (fillna_str (replicate 6 (Some ''No''))) ''no'')) \<noteq> 0"
    by code_simp
  have c1: "has_column example_std3 (case_type_col ?c3)"
    and c2: "has_column example_std3 (compliant_col ?c3)"
    by (simp_all add: example_columns_def example_has_columns)
  have r: "(0, ''total'') \<in> set visit_row_types" by (simp add: visit_row_types_def)
  have t: "(''B'', ''child in care'', 1) \<in> set case_types" by (simp add: case_types_def)
  have v: "visit_cell (select_rows example_std3
      (str_lower_eq (fillna_str (replicate 6 (Some ''No''))) ''no'')) ?c3 example_summary 12 ''90-day''
      ((0, ''total''), (''B'', ''child in care'', 1))
      = Inr (''B13'', make_result 5 (Some 0) False ''90-day'' ''total'' None)"
    by code_simp
  from visit_section_lookup [where e = 15, OF cr ne c1 c2 r t v]
  have "calculated_at (verify_visit_section example_std3 ?c3 example_summary 12 15 ''90-day'')
     (cell_name ''B'' (12 + 0)) = Some 5"
    by (simp add: calculated_at_def make_result_def)
  moreover have "cell_name ''B'' (12 + 0) = ''B13''" by code_simp
  ultimately show ?thesis by (simp only: simp_thms)
qed

subsection \<open>The placement column of the whereabouts-unknown section\<close>

lemma whereabouts_cell_calculated:
  assumes v: "whereabouts_cell p sm start ((off, df, cols, rn), (l, ct, ci)) = Inr (k, c)"
    and cr: "getitem df (change_reason_col cols) = Inr crd"
    and g1: "getitem (select_rows df (str_lower_eq (fillna_str crd) ''no'')) (case_type_col cols)
               = Inr ctd"
    and g2: "getitem (select_rows df (str_lower_eq (fillna_str crd) ''no'')) p = Inr pd"
  shows "calculated c =
           (if rn = ''90-day'' \<and> ct = ''child in care'' then 0
            else of_nat (count_rows (matches_case_type ct)
                           (\<lambda>s. py_lower s = ''whereabouts unknown'') ctd pd))"
proof -
  let ?fdf = "select_rows df (str_lower_eq (fillna_str crd) ''no'')"
  have l1: "length (fillna_str ctd) = length (rows ?fdf)"
    and l2: "length (fillna_str pd) = length (rows ?fdf)"
    using g1 g2 getitem_length by (auto simp: fillna_str_def)
  have n: "len_df (select_rows ?fdf (mask_and (case_filter_of ct (fillna_str ctd))
              (str_lower_eq (fillna_str pd) ''whereabouts unknown'')))
           = count_rows (matches_case_type ct) (\<lambda>s. py_lower s = ''whereabouts unknown'') ctd pd"
    using len_select_two [OF l1 l2]
    by (simp add: case_filter_of_map str_lower_eq_def count_rows_def)
  from v cr g1 g2 have "c = make_result
      (if rn = ''90-day'' \<and> ct = ''child in care'' then 0
       else of_nat (len_df (select_rows ?fdf (mask_and (case_filter_of ct (fillna_str ctd))
              (str_lower_eq (fillna_str pd) ''whereabouts unknown'')))))
      (get_actual_value sm (start + off) ci)
      (int_match (if rn = ''90-day'' \<and> ct = ''child in care'' then 0
         else of_nat (len_df (select_rows ?fdf (mask_and (case_filter_of ct (fillna_str ctd))
              (str_lower_eq (fillna_str pd) ''whereabouts unknown'')))))
         (get_actual_value sm (start + off) ci))
      ''whereabouts-unknown'' rn (Some rn)"
    by (simp add: whereabouts_cell_def Let_def)
  then show ?thesis by (simp add: make_result_def n)
qed

lemma whereabouts_section_value:
  assumes found: "\<not> falsy (find_primary_placement_column s1)"
      "\<not> falsy (find_primary_placement_column s2)" "\<not> falsy (find_primary_placement_column s3)"
    and cols: "\<And>off df cols rn. (off, df, cols, rn) \<in> set (report_rows s1 s2 s3 c1 c2 c3) \<Longrightarrow>
        has_column df (change_reason_col cols) \<and> has_column df (case_type_col cols)
        \<and> has_column df (find_primary_placement_column s1)"
    and r: "(off, df, cols, rn) \<in> set (report_rows s1 s2 s3 c1 c2 c3)"
    and t: "(l, ct, ci) \<in> set case_types"
    and cr: "getitem df (change_reason_col cols) = Inr crd"
    and g1: "getitem (select_rows df (str_lower_eq (fillna_str crd) ''no'')) (case_type_col cols)
               = Inr ctd"
    and g2: "getitem (select_rows df (str_lower_eq (fillna_str crd) ''no''))
               (find_primary_placement_column s1) = Inr pd"
  shows "calculated_at (verify_whereabouts_unknown_section s1 s2 s3 c1 c2 c3 sm start e)
           (cell_name l (start + off))
         = Some (if rn = ''90-day'' \<and> ct = ''child in care'' then 0
                 else of_nat (count_rows (matches_case_type ct)
                                (\<lambda>s. py_lower s = ''whereabouts unknown'') ctd pd))"
proof -
  let ?p = "find_primary_placement_column s1"
  from cols [OF r] have "has_column df (change_reason_col cols)" "has_column df (case_type_col cols)"
    "has_column df ?p" by simp_all
  from whereabouts_cell_ok [OF this, of sm start off rn l ct ci] obtain c where
    c: "whereabouts_cell ?p sm start ((off, df, cols, rn), (l, ct, ci))
          = Inr (cell_name l (start + off), c)" by blast
  have "cell_at_key (verify_whereabouts_unknown_section s1 s2 s3 c1 c2 c3 sm start e)
           (cell_name l (start + off)) = Some c"
    by (rule whereabouts_section_lookup [where e = e, OF found _ r t c]) (rule cols, assumption)
  with whereabouts_cell_calculated [OF c cr g1 g2] show ?thesis
    by (simp add: calculated_at_def)
qed

lemma whereabouts_split_third:
  "nested (report_rows s1 s2 s3 c1 c2 c3) case_types =
     (map (Pair (0::nat, s1, c1, ''7-day'')) case_types
      @ map (Pair (1::nat, s2, c2, ''30-day'')) case_types)
     @ ((2::nat, s3, c3, ''90-day''), (''B'', ''child in care'', 1::nat))
       # map (Pair (2::nat, s3, c3, ''90-day'')) (tl case_types)"
proof -
  have "map (Pair (2::nat, s3, c3, ''90-day'')) case_types =
      ((2::nat, s3, c3, ''90-day''), (''B'', ''child in care'', 1::nat))
       # map (Pair (2::nat, s3, c3, ''90-day'')) (tl case_types)"
    by (subst case_types_head) (simp only: list.map)
  then show ?thesis
    by (simp only: report_rows_list nested_three append_assoc)
qed

lemma whereabouts_report_ok:
  assumes 1: "has_column df (change_reason_col cols)" "has_column df (case_type_col cols)"
    and h1: "has_column df p"
  shows "\<exists>k c. whereabouts_cell p sm start ((off, df, cols, rn), (l, ct, ci)) = Inr (k, c)"
proof -
  from whereabouts_cell_ok [OF 1 h1, of sm start off rn l ct ci] obtain c where
    "whereabouts_cell p sm start ((off, df, cols, rn), (l, ct, ci))
       = Inr (cell_name l (start + off), c)" ..
  then show ?thesis by (rule_tac x = "cell_name l (start + off)" in exI) (rule exI)
qed

lemma ball_append:
  assumes "\<forall>y \<in> set xs. P y" "\<forall>y \<in> set ys. P y"
  shows "\<forall>y \<in> set (xs @ ys). P y"
  using assms by auto

lemma whereabouts_section_key_error_third:
  assumes found: "\<not> falsy (find_primary_placement_column s1)"
      "\<not> falsy (find_primary_placement_column s2)" "\<not> falsy (find_primary_placement_column s3)"
    and 1: "has_column s1 (change_reason_col c1)" "has_column s1 (case_type_col c1)"
    and 2: "has_column s2 (change_reason_col c2)" "has_column s2 (case_type_col c2)"
      "has_column s2 (find_primary_placement_column s1)"
    and 3: "has_column s3 (change_reason_col c3)" "has_column s3 (case_type_col c3)"
    and no: "\<not> has_column s3 (find_primary_placement_column s1)"
  shows "verify_whereabouts_unknown_section s1 s2 s3 c1 c2 c3 sm start e
           = Inl (KeyError (find_primary_placement_column s1))"
proof -
  let ?p = "find_primary_placement_column s1"
  have h1: "has_column s1 ?p" by (rule placement_found [OF found(1)])
  have ok1: "\<forall>y \<in> set (map (Pair (0::nat, s1, c1, ''7-day'')) case_types).
      \<exists>k c. whereabouts_cell ?p sm start y = Inr (k, c)"
    by (rule cells_ok_map_pair) (rule whereabouts_report_ok [OF 1 h1])
  have ok2: "\<forall>y \<in> set (map (Pair (1::nat, s2, c2, ''30-day'')) case_types).
      \<exists>k c. whereabouts_cell ?p sm start y = Inr (k, c)"
    by (rule cells_ok_map_pair) (rule whereabouts_report_ok [OF 2])
  have oks: "\<forall>y \<in> set (map (Pair (0::nat, s1, c1, ''7-day'')) case_types
                        @ map (Pair (1::nat, s2, c2, ''30-day'')) case_types).
      \<exists>k c. whereabouts_cell ?p sm start y = Inr (k, c)"
    using ok1 ok2 by (rule ball_append)
  have fx: "whereabouts_cell ?p sm start
      ((2::nat, s3, c3, ''90-day''), (''B'', ''child in care'', 1::nat)) = Inl (KeyError ?p)"
    by (rule whereabouts_cell_key_error [OF 3 no])
  have "record_cells (whereabouts_cell ?p sm start)
     ((map (Pair (0::nat, s1, c1, ''7-day'')) case_types
      @ map (Pair (1::nat, s2, c2, ''30-day'')) case_types)
     @ ((2::nat, s3, c3, ''90-day''), (''B'', ''child in care'', 1::nat))
       # map (Pair (2::nat, s3, c3, ''90-day'')) (tl case_types)) Map.empty = Inl (KeyError ?p)"
    using oks fx by (rule record_cells_first_error)
  then show ?thesis
    unfolding whereabouts_section_runs [OF found] by (simp only: whereabouts_split_third)
qed

text \<open>
  Claim C10. When a placement column has been discovered in each of the three reports, the
  whereabouts-unknown section reads the placement values of every report from the column
  named as the one discovered in Standard 1. The value calculated for the report in row
  \<open>off\<close> and a case type is the number of rows of that report (among those whose change
  reason is ``no'') that have the case type and whose cell in that column reads
  ``whereabouts unknown'' (0 for child in care in the 90-day row); and a report that has
  its own placement column but none of that name makes the section fail with the key error
  of Standard 1's column name.
\<close>

theorem whereabouts_uses_standard_1_placement_column:
  "\<not> falsy (find_primary_placement_column s1) \<and> \<not> falsy (find_primary_placement_column s2)
     \<and> \<not> falsy (find_primary_placement_column s3)
     \<and> has_columns s1 [change_reason_col c1, case_type_col c1]
   \<longrightarrow>
   (has_columns s2 [change_reason_col c2, case_type_col c2, find_primary_placement_column s1]
      \<and> has_columns s3 [change_reason_col c3, case_type_col c3, find_primary_placement_column s1]
      \<and> (off, df, cols, rn) \<in> set (report_rows s1 s2 s3 c1 c2 c3)
      \<and> (l, ct, ci) \<in> set case_types
      \<and> getitem df (change_reason_col cols) = Inr crd
      \<and> getitem (select_rows df (str_lower_eq (fillna_str crd) ''no'')) (case_type_col cols)
          = Inr ctd
      \<and> getitem (select_rows df (str_lower_eq (fillna_str crd) ''no''))
          (find_primary_placement_column s1) = Inr pd
    \<longrightarrow> calculated_at (verify_whereabouts_unknown_section s1 s2 s3 c1 c2 c3 sm start e)
          (cell_name l (start + off))
        = Some (if rn = ''90-day'' \<and> ct = ''child in care'' then 0
                else of_nat (count_rows (matches_case_type ct)
                               (\<lambda>s. py_lower s = ''whereabouts unknown'') ctd pd)))
   \<and> (has_columns s2 [change_reason_col c2, case_type_col c2]
      \<and> \<not> has_column s2 (find_primary_placement_column s1)
    \<longrightarrow> verify_whereabouts_unknown_section s1 s2 s3 c1 c2 c3 sm start e
          = Inl (KeyError (find_primary_placement_column s1)))
   \<and> (has_columns s2 [change_reason_col c2, case_type_col c2, find_primary_placement_column s1]
      \<and> has_columns s3 [change_reason_col c3, case_type_col c3]
      \<and> \<not> has_column s3 (find_primary_placement_column s1)
    \<longrightarrow> verify_whereabouts_unknown_section s1 s2 s3 c1 c2 c3 sm start e
          = Inl (KeyError (find_primary_placement_column s1)))"
proof (intro impI conjI)
  assume a: "\<not> falsy (find_primary_placement_column s1) \<and> \<not> falsy (find_primary_placement_column s2)
     \<and> \<not> falsy (find_primary_placement_column s3)
     \<and> has_columns s1 [change_reason_col c1, case_type_col c1]"
  then have found: "\<not> falsy (find_primary_placement_column s1)"
      "\<not> falsy (find_primary_placement_column s2)" "\<not> falsy (find_primary_placement_column s3)"
    and 1: "has_column s1 (change_reason_col c1)" "has_column s1 (case_type_col c1)"
    by (simp_all add: has_columns_def)
  {
    assume b: "has_columns s2 [change_reason_col c2, case_type_col c2, find_primary_placement_column s1]
      \<and> has_columns s3 [change_reason_col c3, case_type_col c3, find_primary_placement_column s1]
      \<and> (off, df, cols, rn) \<in> set (report_rows s1 s2 s3 c1 c2 c3)
      \<and> (l, ct, ci) \<in> set case_types
      \<and> getitem df (change_reason_col cols) = Inr crd
      \<and> getitem (select_rows df (str_lower_eq (fillna_str crd) ''no'')) (case_type_col cols)
          = Inr ctd
      \<and> getitem (select_rows df (str_lower_eq (fillna_str crd) ''no''))
          (find_primary_placement_column s1) = Inr pd"
    then have r: "(off, df, cols, rn) \<in> set (report_rows s1 s2 s3 c1 c2 c3)"
      and t: "(l, ct, ci) \<in> set case_types"
      and cr: "getitem df (change_reason_col cols) = Inr crd"
      and g1: "getitem (select_rows df (str_lower_eq (fillna_str crd) ''no'')) (case_type_col cols)
          = Inr ctd"
      and g2: "getitem (select_rows df (str_lower_eq (fillna_str crd) ''no''))
          (find_primary_placement_column s1) = Inr pd"
      by simp_all
    have cols: "\<And>off df cols rn. (off, df, cols, rn) \<in> set (report_rows s1 s2 s3 c1 c2 c3) \<Longrightarrow>
        has_column df (change_reason_col cols) \<and> has_column df (case_type_col cols)
        \<and> has_column df (find_primary_placement_column s1)"
      unfolding report_rows_members using b 1 placement_found [OF found(1)]
      by (auto simp: has_columns_def)
    show "calculated_at (verify_whereabouts_unknown_section s1 s2 s3 c1 c2 c3 sm start e)
          (cell_name l (start + off))
        = Some (if rn = ''90-day'' \<and> ct = ''child in care'' then 0
                else of_nat (count_rows (matches_case_type ct)
                               (\<lambda>s. py_lower s = ''whereabouts unknown'') ctd pd))"
      by (rule whereabouts_section_value [OF found _ r t cr g1 g2]) (rule cols, assumption)
  }
  {
    assume "has_columns s2 [change_reason_col c2, case_type_col c2]
      \<and> \<not> has_column s2 (find_primary_placement_column s1)"
    then have 2: "has_column s2 (change_reason_col c2)" "has_column s2 (case_type_col c2)"
      and no: "\<not> has_column s2 (find_primary_placement_column s1)"
      by (simp_all add: has_columns_def)
    show "verify_whereabouts_unknown_section s1 s2 s3 c1 c2 c3 sm start e
          = Inl (KeyError (find_primary_placement_column s1))"
      by (rule whereabouts_section_key_error [OF found 1 2 no])
  }
  {
    assume "has_columns s2 [change_reason_col c2, case_type_col c2, find_primary_placement_column s1]
      \<and> has_columns s3 [change_reason_col c3, case_type_col c3]
      \<and> \<not> has_column s3 (find_primary_placement_column s1)"
    then have 2: "has_column s2 (change_reason_col c2)" "has_column s2 (case_type_col c2)"
        "has_column s2 (find_primary_placement_column s1)"
      and 3: "has_column s3 (change_reason_col c3)" "has_column s3 (case_type_col c3)"
      and no: "\<not> has_column s3 (find_primary_placement_column s1)"
      by (simp_all add: has_columns_def)
    show "verify_whereabouts_unknown_section s1 s2 s3 c1 c2 c3 sm start e
          = Inl (KeyError (find_primary_placement_column s1))"
      by (rule whereabouts_section_key_error_third [OF found 1 2 3 no])
  }
qed

text \<open>
  A Standard 2 sheet with two placement columns: the one discovered in it reads ``Foster
  Home'' in every row, the one named as in Standard 1 reads ``Whereabouts Unknown''. The
  30-day row counts the five rows. With the column renamed in Standard 2 or in Standard 3,
  the discovery succeeds in every report and the section fails with the key error.
\<close>

theorem whereabouts_uses_standard_1_placement_column_witness:
  "find_primary_placement_column example_std1 = Some ''Primary In Care Placement Type''
   \<and> find_primary_placement_column both_std2 = Some ''Current Primary In Care Placement Type''
   \<and> calculated_at
       (verify_whereabouts_unknown_section example_std1 both_std2 example_std3
          (example_columns ''7 Day Private Visit Compliant'')
          (example_columns ''30 Day Private Visit Compliant'')
          (example_columns ''90 Day Visit Compliant'') example_summary 18 20)
       (cell_name ''B'' (18 + 1)) = Some 5
   \<and> verify_whereabouts_unknown_section example_std1 (rename_placement example_std2) example_std3
          (example_columns ''7 Day Private Visit Compliant'')
          (example_columns ''30 Day Private Visit Compliant'')
          (example_columns ''90 Day Visit Compliant'') example_summary 18 20
       = Inl (KeyError (Some ''Primary In Care Placement Type''))
   \<and> verify_whereabouts_unknown_section example_std1 example_std2 (rename_placement example_std3)
          (example_columns ''7 Day Private Visit Compliant'')
          (example_columns ''30 Day Private Visit Compliant'')
          (example_columns ''90 Day Visit Compliant'') example_summary 18 20
       = Inl (KeyError (Some ''Primary In Care Placement Type''))"
proof -
  let ?c1 = "example_columns ''7 Day Private Visit Compliant''"
  let ?c2 = "example_columns ''30 Day Private Visit Compliant''"
  let ?c3 = "example_columns ''90 Day Visit Compliant''"
  let ?crd = "replicate 5 (Some ''No'')"
  let ?ctd = "replicate 5 (Some ''Child in Care'')"
  let ?pd = "replicate 5 (Some ''Whereabouts Unknown'')"
  have p1: "find_primary_placement_column example_std1 = Some ''Primary In Care Placement Type''"
    by (rule example_placement(1))
  have p2: "find_primary_placement_column both_std2
      = Some ''Current Primary In Care Placement Type''" by code_simp
  have f1: "\<not> falsy (find_primary_placement_column example_std1)"
    and f3: "\<not> falsy (find_primary_placement_column example_std3)"
    and f2: "\<not> falsy (find_primary_placement_column example_std2)"
    and fb: "\<not> falsy (find_primary_placement_column both_std2)"
    and fr2: "\<not> falsy (find_primary_placement_column (rename_placement example_std2))"
    and fr3: "\<not> falsy (find_primary_placement_column (rename_placement example_std3))"
    by code_simp+
  have h1: "has_columns example_std1 [change_reason_col ?c1, case_type_col ?c1]" by code_simp
  have hb: "has_columns both_std2 [change_reason_col ?c2, case_type_col ?c2,
       find_primary_placement_column example_std1]" by code_simp
  have h2: "has_columns example_std2 [change_reason_col ?c2, case_type_col ?c2,
       find_primary_placement_column example_std1]" by code_simp
  have h3: "has_columns example_std3 [change_reason_col ?c3, case_type_col ?c3,
       find_primary_placement_column example_std1]" by code_simp
  have hr2: "has_columns (rename_placement example_std2) [change_reason_col ?c2, case_type_col ?c2]"
    and nr2: "\<not> has_column (rename_placement example_std2) (find_primary_placement_column example_std1)"
    and hr3: "has_columns (rename_placement example_std3) [change_reason_col ?c3, case_type_col ?c3]"
    and nr3: "\<not> has_column (rename_placement example_std3) (find_primary_placement_column example_std1)"
    by code_simp+
  have r: "(1, both_std2, ?c2, ''30-day'')
      \<in> set (report_rows example_std1 both_std2 example_std3 ?c1 ?c2 ?c3)"
    by (simp add: report_rows_members)
  have cr: "getitem both_std2 (change_reason_col ?c2) = Inr ?crd" by code_simp
  have g1: "getitem (select_rows both_std2 (str_lower_eq (fillna_str ?crd) ''no''))
      (case_type_col ?c2) = Inr ?ctd" by code_simp
  have g2: "getitem (select_rows both_std2 (str_lower_eq (fillna_str ?crd) ''no''))
      (find_primary_placement_column example_std1) = Inr ?pd" by code_simp
  have n: "(if ''30-day'' = ''90-day'' \<and> ''child in care'' = ''child in care'' then 0
            else of_nat (count_rows (matches_case_type ''child in care'')
                   (\<lambda>s. py_lower s = ''whereabouts unknown'') ?ctd ?pd)) = (5::rat)"
    by code_simp
  have a: "calculated_at
       (verify_whereabouts_unknown_section example_std1 both_std2 example_std3
          ?c1 ?c2 ?c3 example_summary 18 20) (cell_name ''B'' (18 + 1)) = Some 5"
    using whereabouts_uses_standard_1_placement_column
      [where ?s1.0 = example_std1 and ?s2.0 = both_std2 and ?s3.0 = example_std3
         and ?c1.0 = ?c1 and ?c2.0 = ?c2 and ?c3.0 = ?c3 and sm = example_summary
         and start = 18 and e = 20 and off = 1 and df = both_std2 and cols = ?c2
         and rn = "''30-day''" and l = "''B''" and ct = "''child in care''" and ci = 1
         and crd = ?crd and ctd = ?ctd and pd = ?pd,
       THEN mp, OF conjI [OF f1 conjI [OF fb conjI [OF f3 h1]]], THEN conjunct1, THEN mp,
       OF conjI [OF hb conjI [OF h3 conjI [OF r conjI [OF B_case_type
            conjI [OF cr conjI [OF g1 g2]]]]]]]
    unfolding n .
  have b: "verify_whereabouts_unknown_section example_std1 (rename_placement example_std2)
          example_std3 ?c1 ?c2 ?c3 example_summary 18 20
       = Inl (KeyError (Some ''Primary In Care Placement Type''))"
    using whereabouts_uses_standard_1_placement_column
      [where ?s1.0 = example_std1 and ?s2.0 = "rename_placement example_std2"
         and ?s3.0 = example_std3
         and ?c1.0 = ?c1 and ?c2.0 = ?c2 and ?c3.0 = ?c3 and sm = example_summary
         and start = 18 and e = 20,
       THEN mp, OF conjI [OF f1 conjI [OF fr2 conjI [OF f3 h1]]], THEN conjunct2,
       THEN conjunct1, THEN mp, OF conjI [OF hr2 nr2]]
    unfolding p1 .
  have c: "verify_whereabouts_unknown_section example_std1 example_std2
          (rename_placement example_std3) ?c1 ?c2 ?c3 example_summary 18 20
       = Inl (KeyError (Some ''Primary In Care Placement Type''))"
    using whereabouts_uses_standard_1_placement_column
      [where ?s1.0 = example_std1 and ?s2.0 = example_std2
         and ?s3.0 = "rename_placement example_std3"
         and ?c1.0 = ?c1 and ?c2.0 = ?c2 and ?c3.0 = ?c3 and sm = example_summary
         and start = 18 and e = 20,
       THEN mp, OF conjI [OF f1 conjI [OF f2 conjI [OF fr3 h1]]], THEN conjunct2,
       THEN conjunct2, THEN mp, OF conjI [OF h2 conjI [OF hr3 nr3]]]
    unfolding p1 .
  from p1 p2 a b c show ?thesis by (simp only: simp_thms)
qed

subsection \<open>Columns that cannot be discovered\<close>








subsection \<open>The comparison of calculated and actual values\<close>


































end
